theory Spec2Isabelle
  imports Main "HOL-Library.Word"
begin

unbundle bit_operations_syntax

section \<open>Strings, runes and the label sanitizer (internal/docker/labels.go)\<close>

text \<open>
  A Go string is a sequence of bytes; \<^typ>\<open>string\<close> (a list of 8-bit characters) is used for
  it throughout. The two library functions that \<open>SanitizeLabelValue\<close> calls,
  \<open>strings.TrimSpace\<close> and \<open>Regexp.ReplaceAllString\<close>, read the bytes as UTF-8 and work
  rune by rune, where a byte that starts no valid encoding counts as the rune U+FFFD of
  width one. \<open>DecodeRune\<close> follows \<open>utf8.DecodeRuneInString\<close> and \<open>runes\<close> cuts a string
  into its runes, each paired with the bytes that encode it.
\<close>

type_synonym rune = nat

definition RuneError :: rune where
  "RuneError = 0xFFFD"

definition isCont :: "nat \<Rightarrow> nat \<Rightarrow> nat \<Rightarrow> bool" where
  "isCont lo hi b = (lo \<le> b \<and> b \<le> hi)"

text \<open>The three multi-byte forms, for a lead byte \<open>b0\<close> followed by the bytes \<open>bs\<close>.\<close>

definition decode2 :: "nat \<Rightarrow> nat list \<Rightarrow> rune \<times> nat" where
  "decode2 b0 bs =
    (case bs of
       b1 # _ \<Rightarrow>
         if isCont 0x80 0xBF b1 then ((b0 mod 32) * 64 + b1 mod 64, 2) else (RuneError, 1)
     | _ \<Rightarrow> (RuneError, 1))"

definition decode3 :: "nat \<Rightarrow> nat list \<Rightarrow> rune \<times> nat" where
  "decode3 b0 bs =
    (case bs of
       b1 # b2 # _ \<Rightarrow>
         if isCont (if b0 = 0xE0 then 0xA0 else 0x80) (if b0 = 0xED then 0x9F else 0xBF) b1 \<and>
            isCont 0x80 0xBF b2
         then ((b0 mod 16) * 4096 + (b1 mod 64) * 64 + b2 mod 64, 3)
         else (RuneError, 1)
     | _ \<Rightarrow> (RuneError, 1))"

definition decode4 :: "nat \<Rightarrow> nat list \<Rightarrow> rune \<times> nat" where
  "decode4 b0 bs =
    (case bs of
       b1 # b2 # b3 # _ \<Rightarrow>
         if isCont (if b0 = 0xF0 then 0x90 else 0x80) (if b0 = 0xF4 then 0x8F else 0xBF) b1 \<and>
            isCont 0x80 0xBF b2 \<and> isCont 0x80 0xBF b3
         then ((b0 mod 8) * 262144 + (b1 mod 64) * 4096 + (b2 mod 64) * 64 + b3 mod 64, 4)
         else (RuneError, 1)
     | _ \<Rightarrow> (RuneError, 1))"

text \<open>The first rune of a byte sequence and its width in bytes.\<close>

definition DecodeRune :: "nat list \<Rightarrow> rune \<times> nat" where
  "DecodeRune bs =
    (case bs of
       [] \<Rightarrow> (RuneError, 0)
     | b0 # rest \<Rightarrow>
         if b0 < 0x80 then (b0, 1)
         else if 0xC2 \<le> b0 \<and> b0 \<le> 0xDF then decode2 b0 rest
         else if 0xE0 \<le> b0 \<and> b0 \<le> 0xEF then decode3 b0 rest
         else if 0xF0 \<le> b0 \<and> b0 \<le> 0xF4 then decode4 b0 rest
         else (RuneError, 1))"

definition DecodeRuneInString :: "string \<Rightarrow> rune \<times> nat" where
  "DecodeRuneInString s = DecodeRune (map of_char s)"

fun runes :: "string \<Rightarrow> (rune \<times> string) list" where
  "runes [] = []"
| "runes (c # cs) =
    (let w = snd (DecodeRuneInString (c # cs)) in
     (fst (DecodeRuneInString (c # cs)), c # take (w - 1) cs) # runes (drop (w - 1) cs))"

text \<open>
  \<open>utf8.ValidString\<close>: no byte of the string is outside a valid encoding, that is, no
  rune of it is an error of width one (the valid encoding of U+FFFD has three bytes).
\<close>

definition ValidString :: "string \<Rightarrow> bool" where
  "ValidString s = list_all (\<lambda>p. \<not> (fst p = RuneError \<and> length (snd p) = 1)) (runes s)"

text \<open>\<open>unicode.IsSpace\<close>: the Latin-1 spaces and the code points with the White_Space property.\<close>

definition isSpace :: "rune \<Rightarrow> bool" where
  "isSpace r =
    (r = 0x09 \<or> r = 0x0A \<or> r = 0x0B \<or> r = 0x0C \<or> r = 0x0D \<or> r = 0x20 \<or>
     r = 0x85 \<or> r = 0xA0 \<or> r = 0x1680 \<or> (0x2000 \<le> r \<and> r \<le> 0x200A) \<or>
     r = 0x2028 \<or> r = 0x2029 \<or> r = 0x202F \<or> r = 0x205F \<or> r = 0x3000)"

text \<open>\<open>strings.TrimSpace\<close>: the string without its leading and trailing white-space runes.\<close>

definition TrimSpace :: "string \<Rightarrow> string" where
  "TrimSpace s =
    concat (map snd (rev (dropWhile (\<lambda>p. isSpace (fst p))
      (rev (dropWhile (\<lambda>p. isSpace (fst p)) (runes s))))))"

text \<open>
  \<open>invalidLabelChars\<close> is the compiled pattern \<^verbatim>\<open>[^a-zA-Z0-9_:/.@=-]\<close>: it matches one
  rune that is none of the listed ones.
\<close>

definition invalidLabelChars :: "rune \<Rightarrow> bool" where
  "invalidLabelChars r =
    (\<not> ((0x61 \<le> r \<and> r \<le> 0x7A) \<or> (0x41 \<le> r \<and> r \<le> 0x5A) \<or> (0x30 \<le> r \<and> r \<le> 0x39) \<or>
        r = 0x5F \<or> r = 0x3A \<or> r = 0x2F \<or> r = 0x2E \<or> r = 0x40 \<or> r = 0x3D \<or> r = 0x2D))"

text \<open>\<open>re.ReplaceAllString(s, repl)\<close> for a pattern that matches single runes.\<close>

definition ReplaceAllString :: "(rune \<Rightarrow> bool) \<Rightarrow> string \<Rightarrow> string \<Rightarrow> string" where
  "ReplaceAllString re s repl =
    concat (map (\<lambda>p. if re (fst p) then repl else snd p) (runes s))"

definition SanitizeLabelValue :: "string \<Rightarrow> string" where
  "SanitizeLabelValue s = ReplaceAllString invalidLabelChars (TrimSpace s) ''_''"

section \<open>Time, errors and the records of internal/docker/stats.go\<close>

text \<open>
  A \<open>time.Time\<close> is the number of nanoseconds since the zero Time (January 1 of year 1, UTC)
  and a \<open>time.Duration\<close> a number of nanoseconds. \<open>Unix\<close> is the number of whole seconds
  since January 1, 1970.
\<close>

type_synonym Time = int

type_synonym Duration = int

definition IsZero :: "Time \<Rightarrow> bool" where
  "IsZero t = (t = 0)"

definition Unix :: "Time \<Rightarrow> int" where
  "Unix t = t div 1000000000 - 62135596800"

definition Sub :: "Time \<Rightarrow> Time \<Rightarrow> Duration" where
  "Sub t u = t - u"

text \<open>
  Go error values: \<open>Err\<close> is an error made by a collaborator (the runtime client, a
  library), \<open>Wrap msg e\<close> is \<open>fmt.Errorf("msg: %w", e)\<close>, and \<open>InvalidRegex p e\<close> is
  \<open>fmt.Errorf("invalid regex %q: %w", p, e)\<close>.
\<close>

datatype error = Err string | Wrap string error | InvalidRegex string error

text \<open>The fields that the code reads of the runtime SDK's raw records.\<close>

record MemoryStats =
  Usage :: "64 word"
  Limit :: "64 word"
  Failcnt :: "64 word"
  Stats :: "string \<rightharpoonup> 64 word"

record CPUUsage =
  TotalUsage :: "64 word"
  UsageInKernelmode :: "64 word"
  UsageInUsermode :: "64 word"

record ThrottlingData =
  ThrottledPeriods :: "64 word"
  ThrottledTime :: "64 word"

record CPUStats =
  CPUUsage :: CPUUsage
  ThrottlingData :: ThrottlingData
  OnlineCPUs :: "32 word"

record BlkioStatEntry =
  Major :: "64 word"
  Minor :: "64 word"
  Op :: string
  Value :: "64 word"

record BlkioStats =
  IoServiceBytesRecursive :: "BlkioStatEntry list"
  IoServicedRecursive :: "BlkioStatEntry list"

record NetworkStats =
  RxBytes :: "64 word"
  TxBytes :: "64 word"
  RxPackets :: "64 word"
  TxPackets :: "64 word"
  RxErrors :: "64 word"
  TxErrors :: "64 word"
  RxDropped :: "64 word"
  TxDropped :: "64 word"

text \<open>
  A Go map that the code ranges over is an association list with distinct keys, in the
  order of the iteration; a map that is only looked up is a partial function.
\<close>

record StatsJSON =
  Read :: Time
  MemoryStats :: MemoryStats
  CPUStats :: CPUStats
  Networks :: "(string \<times> NetworkStats) list"
  BlkioStats :: BlkioStats

record ContainerState =
  Status :: string
  ExitCode :: int
  StartedAt :: string
  Health :: "string option"

record ContainerConfig =
  Image' :: string
  Labels :: "string \<rightharpoonup> string"

record ContainerJSON =
  ID :: string
  Name :: string
  RestartCount :: int
  State :: ContainerState
  Config :: ContainerConfig

record BlockIOStats =
  ReadBytes :: "64 word"
  WriteBytes :: "64 word"
  ReadOps :: "64 word"
  WriteOps :: "64 word"

text \<open>
  \<open>Stats\<close> holds parsed container statistics. \<open>PIDsCurrent\<close> is the field that the collector
  reads in \<open>emitPIDsMetrics\<close>. HOL has constants called \<open>Image\<close> and \<open>Collect\<close>, so the
  fields \<open>Image\<close> are \<open>Image'\<close> here and the method \<open>Collect\<close> is \<open>Collect'\<close>.
\<close>

record Stats =
  MemoryUsage :: "64 word"
  MemoryLimit :: "64 word"
  MemoryCache :: "64 word"
  MemoryRSS :: "64 word"
  MemorySwap :: "64 word"
  MemoryWorkingSet :: "64 word"
  MemoryFailcnt :: "64 word"
  CPUUsageTotal :: "64 word"
  CPUUsageSystem :: "64 word"
  CPUUsageUser :: "64 word"
  CPUThrottledPeriods :: "64 word"
  CPUThrottledTime :: "64 word"
  OnlineCPUs :: "32 word"
  PIDsCurrent :: "64 word"
  Networks :: "(string \<times> NetworkStats) list"
  BlockIO :: "(string \<times> BlockIOStats) list"
  ContainerID :: string
  Name :: string
  Image' :: string
  Labels :: "string \<rightharpoonup> string"
  Status :: string
  Health :: string
  StartedAt :: Time
  RestartCount :: int
  ExitCode :: int
  Timestamp :: Time

text \<open>\<open>Container\<close> holds basic container info from a list call.\<close>

record Container =
  ID :: string
  Name :: string
  Image' :: string
  Labels :: "string \<rightharpoonup> string"
  Status :: string
  State :: string
  Health :: string
  StartedAt :: Time
  RestartCount :: int
  ExitCode :: int

text \<open>The zero value of \<open>Stats\<close>, with the given \<open>Timestamp\<close>: \<open>&Stats{Timestamp: t}\<close>.\<close>

definition newStats :: "Time \<Rightarrow> Stats" where
  "newStats t =
    \<lparr>MemoryUsage = 0, MemoryLimit = 0, MemoryCache = 0, MemoryRSS = 0, MemorySwap = 0,
     MemoryWorkingSet = 0, MemoryFailcnt = 0, CPUUsageTotal = 0, CPUUsageSystem = 0,
     CPUUsageUser = 0, CPUThrottledPeriods = 0, CPUThrottledTime = 0, Stats.OnlineCPUs = 0,
     PIDsCurrent = 0, Stats.Networks = [], BlockIO = [], ContainerID = [], Stats.Name = [],
     Stats.Image' = [], Stats.Labels = Map.empty, Stats.Status = [], Stats.Health = [],
     Stats.StartedAt = 0, Stats.RestartCount = 0, Stats.ExitCode = 0, Timestamp = t\<rparr>"

definition trimLeadingSlash :: "string \<Rightarrow> string" where
  "trimLeadingSlash name =
    (if length name > 0 \<and> hd name = CHR ''/'' then drop 1 name else name)"

text \<open>\<open>fmt.Sprintf("%d:%d", major, minor)\<close>: both numbers in decimal.\<close>

fun decimal :: "nat \<Rightarrow> string" where
  "decimal n =
    (if n < 10 then [char_of (48 + n)] else decimal (n div 10) @ [char_of (48 + n mod 10)])"

definition deviceKey :: "64 word \<Rightarrow> 64 word \<Rightarrow> string" where
  "deviceKey major minor = decimal (unat major) @ '':'' @ decimal (unat minor)"

definition parseMemoryStats :: "Stats \<Rightarrow> MemoryStats \<Rightarrow> Stats" where
  "parseMemoryStats s mem =
    (let s = s\<lparr>MemoryUsage := Usage mem\<rparr>;
         s = s\<lparr>MemoryLimit := Limit mem\<rparr>;
         s = s\<lparr>MemoryFailcnt := Failcnt mem\<rparr>;
         s = (case MemoryStats.Stats mem ''cache'' of
                Some v \<Rightarrow> s\<lparr>MemoryCache := v\<rparr>
              | None \<Rightarrow> s);
         s = (case MemoryStats.Stats mem ''rss'' of
                Some v \<Rightarrow> s\<lparr>MemoryRSS := v\<rparr>
              | None \<Rightarrow>
                  (case MemoryStats.Stats mem ''anon'' of
                     Some v \<Rightarrow> s\<lparr>MemoryRSS := v\<rparr>
                   | None \<Rightarrow> s));
         s = (case MemoryStats.Stats mem ''swap'' of
                Some v \<Rightarrow> s\<lparr>MemorySwap := v\<rparr>
              | None \<Rightarrow> s);
         inactiveFile =
           (case MemoryStats.Stats mem ''inactive_file'' of
              Some v \<Rightarrow> v
            | None \<Rightarrow>
                (case MemoryStats.Stats mem ''total_inactive_file'' of
                   Some v \<Rightarrow> v
                 | None \<Rightarrow> 0))
     in if Usage mem > inactiveFile
        then s\<lparr>MemoryWorkingSet := Usage mem - inactiveFile\<rparr>
        else s\<lparr>MemoryWorkingSet := Usage mem\<rparr>)"

definition parseCPUStats :: "Stats \<Rightarrow> CPUStats \<Rightarrow> Stats" where
  "parseCPUStats s cpu =
    s\<lparr>CPUUsageTotal := TotalUsage (CPUStats.CPUUsage cpu),
      CPUUsageSystem := UsageInKernelmode (CPUStats.CPUUsage cpu),
      CPUUsageUser := UsageInUsermode (CPUStats.CPUUsage cpu),
      CPUThrottledPeriods := ThrottledPeriods (CPUStats.ThrottlingData cpu),
      CPUThrottledTime := ThrottledTime (CPUStats.ThrottlingData cpu),
      Stats.OnlineCPUs := CPUStats.OnlineCPUs cpu\<rparr>"

text \<open>\<open>devices[key]\<close> reads the zero value when the key is absent.\<close>

definition lookupDevice :: "(string \<times> BlockIOStats) list \<Rightarrow> string \<Rightarrow> BlockIOStats" where
  "lookupDevice devices key =
    (case map_of devices key of
       Some d \<Rightarrow> d
     | None \<Rightarrow> \<lparr>ReadBytes = 0, WriteBytes = 0, ReadOps = 0, WriteOps = 0\<rparr>)"

text \<open>\<open>m[key] = v\<close> on an association list: replace the entry in place or append it.\<close>

fun assign :: "(string \<times> 'v) list \<Rightarrow> string \<Rightarrow> 'v \<Rightarrow> (string \<times> 'v) list" where
  "assign [] k v = [(k, v)]"
| "assign (p # ps) k v = (if fst p = k then (k, v) # ps else p # assign ps k v)"

definition serviceBytesEntry ::
  "BlkioStatEntry \<Rightarrow> (string \<times> BlockIOStats) list \<Rightarrow> (string \<times> BlockIOStats) list" where
  "serviceBytesEntry entry devices =
    (let key = deviceKey (Major entry) (Minor entry);
         d = lookupDevice devices key;
         d = (if Op entry = ''Read'' \<or> Op entry = ''read'' then d\<lparr>ReadBytes := Value entry\<rparr>
              else if Op entry = ''Write'' \<or> Op entry = ''write''
              then d\<lparr>WriteBytes := Value entry\<rparr>
              else d)
     in assign devices key d)"

definition servicedEntry ::
  "BlkioStatEntry \<Rightarrow> (string \<times> BlockIOStats) list \<Rightarrow> (string \<times> BlockIOStats) list" where
  "servicedEntry entry devices =
    (let key = deviceKey (Major entry) (Minor entry);
         d = lookupDevice devices key;
         d = (if Op entry = ''Read'' \<or> Op entry = ''read'' then d\<lparr>ReadOps := Value entry\<rparr>
              else if Op entry = ''Write'' \<or> Op entry = ''write''
              then d\<lparr>WriteOps := Value entry\<rparr>
              else d)
     in assign devices key d)"

definition parseBlockIOStats :: "BlkioStats \<Rightarrow> (string \<times> BlockIOStats) list" where
  "parseBlockIOStats bio =
    fold servicedEntry (IoServicedRecursive bio)
      (fold serviceBytesEntry (IoServiceBytesRecursive bio) [])"

text \<open>
  \<open>ParseDockerStats\<close> converts the raw responses into \<open>Stats\<close>. Its callers hand it records
  whose \<open>State\<close> and \<open>Config\<close> are present. \<open>parseTime\<close> stands for
  \<open>time.Parse(time.RFC3339Nano, _)\<close>, \<open>None\<close> being a parse error.
\<close>

definition ParseDockerStats ::
  "(string \<Rightarrow> Time option) \<Rightarrow> StatsJSON \<Rightarrow> ContainerJSON \<Rightarrow> Stats" where
  "ParseDockerStats parseTime statsJSON containerJSON =
    (let s = newStats (Read statsJSON);
         s = s\<lparr>ContainerID := ContainerJSON.ID containerJSON\<rparr>;
         s = s\<lparr>Stats.Name := trimLeadingSlash (ContainerJSON.Name containerJSON)\<rparr>;
         s = s\<lparr>Stats.Image' := ContainerConfig.Image' (Config containerJSON)\<rparr>;
         s = s\<lparr>Stats.Labels := ContainerConfig.Labels (Config containerJSON)\<rparr>;
         s = s\<lparr>Stats.Status := ContainerState.Status (ContainerJSON.State containerJSON)\<rparr>;
         s = s\<lparr>Stats.RestartCount := ContainerJSON.RestartCount containerJSON\<rparr>;
         s = s\<lparr>Stats.ExitCode := ContainerState.ExitCode (ContainerJSON.State containerJSON)\<rparr>;
         s = (case ContainerState.Health (ContainerJSON.State containerJSON) of
                Some h \<Rightarrow> s\<lparr>Stats.Health := h\<rparr>
              | None \<Rightarrow> s);
         s = (if ContainerState.StartedAt (ContainerJSON.State containerJSON) \<noteq> []
              then (case parseTime (ContainerState.StartedAt (ContainerJSON.State containerJSON)) of
                      Some t \<Rightarrow> s\<lparr>Stats.StartedAt := t\<rparr>
                    | None \<Rightarrow> s)
              else s);
         s = parseMemoryStats s (StatsJSON.MemoryStats statsJSON);
         s = parseCPUStats s (StatsJSON.CPUStats statsJSON);
         s = s\<lparr>Stats.Networks :=
               fold (\<lambda>p m. assign m (fst p) (snd p)) (StatsJSON.Networks statsJSON) []\<rparr>;
         s = s\<lparr>BlockIO := parseBlockIOStats (StatsJSON.BlkioStats statsJSON)\<rparr>
     in s)"

section \<open>Label extraction (internal/docker/labels.go)\<close>

definition LabelComposeService :: string where
  "LabelComposeService = ''com.docker.compose.service''"

definition LabelComposeProject :: string where
  "LabelComposeProject = ''com.docker.compose.project''"

record ContainerLabels =
  ContainerName :: string
  ComposeService :: string
  ComposeProject :: string
  Image' :: string

definition LabelNames :: "string list" where
  "LabelNames = [''container_name'', ''compose_service'', ''compose_project'', ''image'']"

text \<open>\<open>m[key]\<close> on a \<open>map[string]string\<close>: the empty string when the key is absent.\<close>

definition index :: "(string \<rightharpoonup> string) \<Rightarrow> string \<Rightarrow> string" where
  "index m key = (case m key of Some v \<Rightarrow> v | None \<Rightarrow> [])"

definition ExtractLabels :: "Container \<Rightarrow> ContainerLabels" where
  "ExtractLabels c =
    \<lparr>ContainerName = SanitizeLabelValue (Container.Name c),
     ComposeService = SanitizeLabelValue (index (Container.Labels c) LabelComposeService),
     ComposeProject = SanitizeLabelValue (index (Container.Labels c) LabelComposeProject),
     ContainerLabels.Image' = SanitizeLabelValue (Container.Image' c)\<rparr>"

definition ExtractLabelsFromStats :: "Stats \<Rightarrow> ContainerLabels" where
  "ExtractLabelsFromStats s =
    \<lparr>ContainerName = SanitizeLabelValue (Stats.Name s),
     ComposeService = SanitizeLabelValue (index (Stats.Labels s) LabelComposeService),
     ComposeProject = SanitizeLabelValue (index (Stats.Labels s) LabelComposeProject),
     ContainerLabels.Image' = SanitizeLabelValue (Stats.Image' s)\<rparr>"

definition Values :: "ContainerLabels \<Rightarrow> string list" where
  "Values l = [ContainerName l, ComposeService l, ComposeProject l, ContainerLabels.Image' l]"

section \<open>The filter (internal/docker/filter.go)\<close>

record FilterSet =
  Labels :: "string list"
  Names :: "string list"
  Images :: "string list"

record FiltersConfig =
  Include :: FilterSet
  Exclude :: FilterSet

text \<open>
  A compiled \<open>*regexp.Regexp\<close> is used through \<open>MatchString\<close> only, so it is the predicate
  that \<open>MatchString\<close> computes. \<open>regexp.Compile\<close> is a parameter of \<open>NewFilter\<close>: it gives
  the compiled pattern or the error of the pattern.
\<close>

type_synonym Regexp = "string \<Rightarrow> bool"

record Filter =
  includeLabels :: "(string \<times> string) list"
  excludeLabels :: "(string \<times> string) list"
  includeNames :: "Regexp list"
  excludeNames :: "Regexp list"
  includeImages :: "Regexp list"
  excludeImages :: "Regexp list"
  hasIncludes :: bool

text \<open>\<open>strings.SplitN(l, "=", 2)\<close>: cut at the first \<open>=\<close>, if there is one.\<close>

definition SplitN2 :: "string \<Rightarrow> string list" where
  "SplitN2 l =
    (if CHR ''='' \<in> set l
     then [takeWhile (\<lambda>c. c \<noteq> CHR ''='') l, drop 1 (dropWhile (\<lambda>c. c \<noteq> CHR ''='') l)]
     else [l])"

fun parseLabelsFrom :: "(string \<times> string) list \<Rightarrow> string list \<Rightarrow> (string \<times> string) list" where
  "parseLabelsFrom labels [] = labels"
| "parseLabelsFrom labels (l # raw) =
    (let parts = SplitN2 l in
     if length parts = 2 then parseLabelsFrom (assign labels (parts ! 0) (parts ! 1)) raw
     else if length parts = 1 \<and> parts ! 0 \<noteq> [] then parseLabelsFrom (assign labels (parts ! 0) []) raw
     else parseLabelsFrom labels raw)"

definition parseLabels :: "string list \<Rightarrow> (string \<times> string) list" where
  "parseLabels raw = parseLabelsFrom [] raw"

fun compilePatternsFrom ::
  "(string \<Rightarrow> error + Regexp) \<Rightarrow> Regexp list \<Rightarrow> string list \<Rightarrow> error + Regexp list" where
  "compilePatternsFrom Compile compiled [] = Inr compiled"
| "compilePatternsFrom Compile compiled (p # patterns) =
    (case Compile p of
       Inl err \<Rightarrow> Inl (InvalidRegex p err)
     | Inr re \<Rightarrow> compilePatternsFrom Compile (compiled @ [re]) patterns)"

definition compilePatterns ::
  "(string \<Rightarrow> error + Regexp) \<Rightarrow> string list \<Rightarrow> error + Regexp list" where
  "compilePatterns Compile patterns = compilePatternsFrom Compile [] patterns"

fun matchesLabels :: "(string \<rightharpoonup> string) \<Rightarrow> (string \<times> string) list \<Rightarrow> bool" where
  "matchesLabels containerLabels [] = False"
| "matchesLabels containerLabels (kv # filterLabels) =
    (case containerLabels (fst kv) of
       None \<Rightarrow> matchesLabels containerLabels filterLabels
     | Some cv \<Rightarrow>
         if snd kv = [] \<or> cv = snd kv then True
         else matchesLabels containerLabels filterLabels)"

fun matchesAny :: "string \<Rightarrow> Regexp list \<Rightarrow> bool" where
  "matchesAny s [] = False"
| "matchesAny s (re # patterns) = (if re s then True else matchesAny s patterns)"

definition NewFilter :: "(string \<Rightarrow> error + Regexp) \<Rightarrow> FiltersConfig \<Rightarrow> error + Filter" where
  "NewFilter Compile cfg =
    (let il = parseLabels (FilterSet.Labels (Include cfg));
         el = parseLabels (FilterSet.Labels (Exclude cfg)) in
     case compilePatterns Compile (Names (Include cfg)) of
       Inl err \<Rightarrow> Inl (Wrap ''compiling include name patterns'' err)
     | Inr inames \<Rightarrow>
     (case compilePatterns Compile (Names (Exclude cfg)) of
       Inl err \<Rightarrow> Inl (Wrap ''compiling exclude name patterns'' err)
     | Inr enames \<Rightarrow>
     (case compilePatterns Compile (Images (Include cfg)) of
       Inl err \<Rightarrow> Inl (Wrap ''compiling include image patterns'' err)
     | Inr iimages \<Rightarrow>
     (case compilePatterns Compile (Images (Exclude cfg)) of
       Inl err \<Rightarrow> Inl (Wrap ''compiling exclude image patterns'' err)
     | Inr eimages \<Rightarrow>
         Inr \<lparr>includeLabels = il, excludeLabels = el, includeNames = inames,
              excludeNames = enames, includeImages = iimages, excludeImages = eimages,
              hasIncludes = (length il > 0 \<or> length inames > 0 \<or> length iimages > 0)\<rparr>))))"

definition Match :: "Filter \<Rightarrow> Container \<Rightarrow> bool" where
  "Match f c =
    (if matchesLabels (Container.Labels c) (excludeLabels f) then False
     else if matchesAny (Container.Name c) (excludeNames f) then False
     else if matchesAny (Container.Image' c) (excludeImages f) then False
     else if \<not> hasIncludes f then True
     else if matchesLabels (Container.Labels c) (includeLabels f) then True
     else if matchesAny (Container.Name c) (includeNames f) then True
     else if matchesAny (Container.Image' c) (includeImages f) then True
     else False)"

section \<open>The statistics cache (internal/collector/cache.go)\<close>

text \<open>
  A \<open>*docker.Stats\<close> is \<^typ>\<open>Stats option\<close>, \<open>None\<close> being the nil pointer. The counters are
  \<open>atomic.Int64\<close>: 64-bit words whose \<open>Add\<close> wraps around. Every operation that reads the
  clock takes the time it reads, \<open>now\<close>, as an argument.
\<close>

record cacheEntry =
  stats :: "Stats option"
  timestamp :: Time

record StatsCache =
  entries :: "string \<rightharpoonup> cacheEntry"
  ttl :: Duration
  enabled :: bool
  hits :: "64 word"
  misses :: "64 word"

definition NewStatsCache :: "Duration \<Rightarrow> bool \<Rightarrow> StatsCache" where
  "NewStatsCache d e = \<lparr>entries = Map.empty, ttl = d, enabled = e, hits = 0, misses = 0\<rparr>"

definition Get :: "StatsCache \<Rightarrow> Time \<Rightarrow> string \<Rightarrow> (Stats option \<times> bool) \<times> StatsCache" where
  "Get c now cid =
    (if \<not> enabled c then ((None, False), c\<lparr>misses := misses c + 1\<rparr>)
     else
       (case entries c cid of
          None \<Rightarrow> ((None, False), c\<lparr>misses := misses c + 1\<rparr>)
        | Some entry \<Rightarrow>
            if Sub now (timestamp entry) > ttl c
            then ((None, False), c\<lparr>misses := misses c + 1\<rparr>)
            else ((cacheEntry.stats entry, True), c\<lparr>hits := hits c + 1\<rparr>)))"

definition Set :: "StatsCache \<Rightarrow> Time \<Rightarrow> string \<Rightarrow> Stats option \<Rightarrow> StatsCache" where
  "Set c now cid st =
    (if \<not> enabled c then c
     else c\<lparr>entries := (entries c)(cid \<mapsto> \<lparr>stats = st, timestamp = now\<rparr>)\<rparr>)"

definition Evict :: "StatsCache \<Rightarrow> string \<Rightarrow> StatsCache" where
  "Evict c cid = c\<lparr>entries := (entries c)(cid := None)\<rparr>"

definition EvictStale :: "StatsCache \<Rightarrow> Time \<Rightarrow> StatsCache" where
  "EvictStale c now =
    c\<lparr>entries :=
        (\<lambda>cid. case entries c cid of
                None \<Rightarrow> None
              | Some entry \<Rightarrow> if Sub now (timestamp entry) > ttl c then None else Some entry)\<rparr>"

definition Hits :: "StatsCache \<Rightarrow> int" where
  "Hits c = sint (hits c)"

definition Misses :: "StatsCache \<Rightarrow> int" where
  "Misses c = sint (misses c)"

text \<open>
  The caches that a program can hold are the one that \<open>NewStatsCache\<close> makes and those
  that calls of the methods make of it; \<open>cacheAfter d e ops\<close> is the cache after the calls
  \<open>ops\<close>, oldest first, each with the clock reading that it takes.
\<close>

datatype cacheOp =
    OpGet Time string
  | OpSet Time string "Stats option"
  | OpEvict string
  | OpEvictStale Time

fun applyOp :: "cacheOp \<Rightarrow> StatsCache \<Rightarrow> StatsCache" where
  "applyOp (OpGet now cid) c = snd (Get c now cid)"
| "applyOp (OpSet now cid st) c = Set c now cid st"
| "applyOp (OpEvict cid) c = Evict c cid"
| "applyOp (OpEvictStale now) c = EvictStale c now"

definition cacheAfter :: "Duration \<Rightarrow> bool \<Rightarrow> cacheOp list \<Rightarrow> StatsCache" where
  "cacheAfter d e ops = fold applyOp ops (NewStatsCache d e)"

section \<open>Metric descriptors and safe construction (internal/metrics)\<close>

text \<open>
  The value of a measurement is a \<open>float64\<close>. The model keeps the expression that computes
  it instead of an IEEE number: a conversion from an unsigned or signed integer, a duration
  in seconds, a decimal constant, a product.
\<close>

datatype float64 =
    FromUint64 "64 word"
  | FromInt int
  | Seconds Duration
  | Decimal int int
  | Times float64 float64

definition NanosecondsToSeconds :: float64 where
  "NanosecondsToSeconds = Decimal 1 (- 9)"

definition HealthStatusToFloat :: "string \<Rightarrow> float64" where
  "HealthStatusToFloat status =
    (if status = ''starting'' then FromInt 1
     else if status = ''healthy'' then FromInt 2
     else if status = ''unhealthy'' then FromInt 3
     else FromInt 0)"

record Desc =
  fqName :: string
  variableLabels :: "string list"

definition NewDesc :: "string \<Rightarrow> string list \<Rightarrow> Desc" where
  "NewDesc name labels = \<lparr>fqName = name, variableLabels = labels\<rparr>"

definition containerLabelNames :: "string list" where
  "containerLabelNames = [''container_name'', ''compose_service'', ''compose_project'', ''image'']"

definition networkLabelNames :: "string list" where
  "networkLabelNames = containerLabelNames @ [''interface'']"

definition blockIOLabelNames :: "string list" where
  "blockIOLabelNames = containerLabelNames @ [''device'']"

definition infoLabelNames :: "string list" where
  "infoLabelNames = containerLabelNames @ [''container_id'', ''status'', ''health_status'', ''created'']"

definition metrics_MemoryUsage :: Desc where
  "metrics_MemoryUsage = NewDesc ''container_memory_usage_bytes'' containerLabelNames"

definition metrics_MemoryLimit :: Desc where
  "metrics_MemoryLimit = NewDesc ''container_memory_limit_bytes'' containerLabelNames"

definition metrics_MemoryCache :: Desc where
  "metrics_MemoryCache = NewDesc ''container_memory_cache_bytes'' containerLabelNames"

definition metrics_MemoryRSS :: Desc where
  "metrics_MemoryRSS = NewDesc ''container_memory_rss_bytes'' containerLabelNames"

definition metrics_MemorySwap :: Desc where
  "metrics_MemorySwap = NewDesc ''container_memory_swap_bytes'' containerLabelNames"

definition metrics_MemoryWorkingSet :: Desc where
  "metrics_MemoryWorkingSet = NewDesc ''container_memory_working_set_bytes'' containerLabelNames"

definition metrics_MemoryFailcnt :: Desc where
  "metrics_MemoryFailcnt = NewDesc ''container_memory_failcnt'' containerLabelNames"

definition metrics_CPUUsageTotal :: Desc where
  "metrics_CPUUsageTotal = NewDesc ''container_cpu_usage_seconds_total'' containerLabelNames"

definition metrics_CPUUsageSystem :: Desc where
  "metrics_CPUUsageSystem = NewDesc ''container_cpu_system_seconds_total'' containerLabelNames"

definition metrics_CPUUsageUser :: Desc where
  "metrics_CPUUsageUser = NewDesc ''container_cpu_user_seconds_total'' containerLabelNames"

definition metrics_CPUThrottledPeriods :: Desc where
  "metrics_CPUThrottledPeriods = NewDesc ''container_cpu_throttling_periods_total'' containerLabelNames"

definition metrics_CPUThrottledTime :: Desc where
  "metrics_CPUThrottledTime = NewDesc ''container_cpu_throttled_seconds_total'' containerLabelNames"

definition metrics_NetworkRxBytes :: Desc where
  "metrics_NetworkRxBytes = NewDesc ''container_network_receive_bytes_total'' networkLabelNames"

definition metrics_NetworkTxBytes :: Desc where
  "metrics_NetworkTxBytes = NewDesc ''container_network_transmit_bytes_total'' networkLabelNames"

definition metrics_NetworkRxPackets :: Desc where
  "metrics_NetworkRxPackets = NewDesc ''container_network_receive_packets_total'' networkLabelNames"

definition metrics_NetworkTxPackets :: Desc where
  "metrics_NetworkTxPackets = NewDesc ''container_network_transmit_packets_total'' networkLabelNames"

definition metrics_NetworkRxErrors :: Desc where
  "metrics_NetworkRxErrors = NewDesc ''container_network_receive_errors_total'' networkLabelNames"

definition metrics_NetworkTxErrors :: Desc where
  "metrics_NetworkTxErrors = NewDesc ''container_network_transmit_errors_total'' networkLabelNames"

definition metrics_NetworkRxDropped :: Desc where
  "metrics_NetworkRxDropped = NewDesc ''container_network_receive_dropped_total'' networkLabelNames"

definition metrics_NetworkTxDropped :: Desc where
  "metrics_NetworkTxDropped = NewDesc ''container_network_transmit_dropped_total'' networkLabelNames"

definition metrics_FSReadBytes :: Desc where
  "metrics_FSReadBytes = NewDesc ''container_fs_reads_bytes_total'' blockIOLabelNames"

definition metrics_FSWriteBytes :: Desc where
  "metrics_FSWriteBytes = NewDesc ''container_fs_writes_bytes_total'' blockIOLabelNames"

definition metrics_FSReadOps :: Desc where
  "metrics_FSReadOps = NewDesc ''container_fs_reads_total'' blockIOLabelNames"

definition metrics_FSWriteOps :: Desc where
  "metrics_FSWriteOps = NewDesc ''container_fs_writes_total'' blockIOLabelNames"

definition metrics_ContainerLastSeen :: Desc where
  "metrics_ContainerLastSeen = NewDesc ''container_last_seen'' containerLabelNames"

definition metrics_ContainerStartTime :: Desc where
  "metrics_ContainerStartTime = NewDesc ''container_start_time_seconds'' containerLabelNames"

definition metrics_ContainerUptime :: Desc where
  "metrics_ContainerUptime = NewDesc ''container_uptime_seconds'' containerLabelNames"

definition metrics_ContainerInfo :: Desc where
  "metrics_ContainerInfo = NewDesc ''container_info'' infoLabelNames"

definition metrics_ContainerHealthStatus :: Desc where
  "metrics_ContainerHealthStatus = NewDesc ''container_health_status'' containerLabelNames"

definition metrics_ContainerRestartCount :: Desc where
  "metrics_ContainerRestartCount = NewDesc ''container_restart_count'' containerLabelNames"

definition metrics_ContainerExitCode :: Desc where
  "metrics_ContainerExitCode = NewDesc ''container_exit_code'' containerLabelNames"

definition metrics_ExporterScrapeDuration :: Desc where
  "metrics_ExporterScrapeDuration = NewDesc ''exporter_scrape_duration_seconds'' [''collector'']"

definition metrics_ExporterScrapeErrors :: Desc where
  "metrics_ExporterScrapeErrors = NewDesc ''exporter_scrape_errors_total'' [''collector'']"

text \<open>
  \<open>metrics_PIDsCurrent\<close> is the descriptor that \<open>emitPIDsMetrics\<close> names; the collector's
  test looks it up as \<open>container_pids_current\<close> and expects one measurement with the standard
  label values.
\<close>

definition metrics_PIDsCurrent :: Desc where
  "metrics_PIDsCurrent = NewDesc ''container_pids_current'' containerLabelNames"

datatype ValueType = GaugeValue | CounterValue

text \<open>A constant metric: its descriptor, the kind and the value of the sample, its label values.\<close>

datatype Metric =
  ConstMetric (desc: Desc) (valueType: ValueType) (val: float64) (labelValues: "string list")

text \<open>
  \<open>prometheus.NewConstMetric\<close> belongs to the client library. It validates the label values
  against the descriptor and returns an error, instead of a metric, when their number is
  not the number of the descriptor's variable labels or when one of them is not valid UTF-8.
\<close>

definition NewConstMetric :: "Desc \<Rightarrow> ValueType \<Rightarrow> float64 \<Rightarrow> string list \<Rightarrow> error + Metric" where
  "NewConstMetric d vt v lvs =
    (if length lvs \<noteq> length (variableLabels d) then Inl (Err ''inconsistent label cardinality'')
     else if \<not> list_all ValidString lvs then Inl (Err ''label value is not valid UTF-8'')
     else Inr (ConstMetric d vt v lvs))"

text \<open>\<open>SafeNewConstMetric\<close> returns nil, here \<open>None\<close>, if metric creation fails.\<close>

definition SafeNewConstMetric :: "Desc \<Rightarrow> ValueType \<Rightarrow> float64 \<Rightarrow> string list \<Rightarrow> Metric option" where
  "SafeNewConstMetric d vt v lvs =
    (case NewConstMetric d vt v lvs of
       Inl err \<Rightarrow> None
     | Inr m \<Rightarrow> Some m)"

text \<open>
  The channel \<open>ch\<close> is the list of the metrics sent so far, oldest first. \<open>SendSafe\<close> sends
  a metric if it is not nil.
\<close>

definition SendSafe :: "Metric list \<Rightarrow> Metric option \<Rightarrow> Metric list" where
  "SendSafe ch m = (case m of None \<Rightarrow> ch | Some x \<Rightarrow> ch @ [x])"

section \<open>The container collector (internal/collector/container.go)\<close>

text \<open>
  \<open>DockerClient\<close> is the interface of the calls to the runtime. A cycle calls
  \<open>ListContainers\<close> once, and \<open>GetContainerStats\<close> at most once for each position of the
  filtered list: \<open>GetContainerStats cl i cid\<close> is what the call made for position \<open>i\<close>, with
  the ID \<open>cid\<close>, returns. Both return a value and an error, \<open>None\<close> being the nil error.
\<close>

record DockerClient =
  ListContainers :: "Container list \<times> error option"
  GetContainerStats :: "nat \<Rightarrow> string \<Rightarrow> Stats option \<times> error option"

text \<open>
  The collector points to a cache that it shares with the other cycles, so the cache is
  part of the state that a cycle transforms and not a field here. \<open>maxConcurrent\<close> is the
  capacity of the channel that bounds the number of fetches in flight; \<open>Config.Validate\<close>
  rejects a configuration in which it is less than 1, and \<open>NewContainerCollector\<close> copies
  whatever the configuration holds.
\<close>

record ContainerCollector =
  client :: DockerClient
  filter' :: Filter
  timeout :: Duration
  maxConcurrent :: int

text \<open>
  What a cycle takes from the Go runtime: the time that each reading of the clock gives
  (\<open>tGet i\<close> and \<open>tSet i\<close> are the readings of the cache's \<open>Get\<close> and \<open>Set\<close> for position
  \<open>i\<close> of the filtered list), and the formatting of \<open>Time.Format(time.RFC3339)\<close>.
\<close>

record runtime =
  tStart :: Time
  tGet :: "nat \<Rightarrow> Time"
  tSet :: "nat \<Rightarrow> Time"
  tEmit :: Time
  tEvict :: Time
  tEnd :: Time
  formatRFC3339 :: "Time \<Rightarrow> string"

text \<open>
  The state that a cycle changes: the shared cache, the metrics sent on the channel that
  \<open>Collect\<close> is given, and the log of the calls made to the cache's methods, oldest first.
  The log holds, with each call, the number of metrics that the channel had received when
  the call was made, which places the call among the sends.
\<close>

datatype cacheCall = CallGet string | CallSet string | CallEvictStale

record world =
  cache :: StatsCache
  sent :: "Metric list"
  calls :: "(cacheCall \<times> nat) list"

definition cacheGet :: "world \<Rightarrow> Time \<Rightarrow> string \<Rightarrow> (Stats option \<times> bool) \<times> world" where
  "cacheGet w now cid =
    (fst (Get (cache w) now cid),
     w\<lparr>cache := snd (Get (cache w) now cid),
       calls := calls w @ [(CallGet cid, length (sent w))]\<rparr>)"

definition cacheSet :: "world \<Rightarrow> Time \<Rightarrow> string \<Rightarrow> Stats option \<Rightarrow> world" where
  "cacheSet w now cid st =
    w\<lparr>cache := Set (cache w) now cid st, calls := calls w @ [(CallSet cid, length (sent w))]\<rparr>"

definition cacheEvictStale :: "world \<Rightarrow> Time \<Rightarrow> world" where
  "cacheEvictStale w now =
    w\<lparr>cache := EvictStale (cache w) now,
      calls := calls w @ [(CallEvictStale, length (sent w))]\<rparr>"

text \<open>
  A run-time panic is a value: a function that can panic returns \<open>Panicked\<close> with the panic
  and the state reached, or \<open>Returned\<close> with its result. \<open>Blocked\<close> is the third way a call
  can end: it waits for ever on a channel operation that nothing will complete, and never
  returns. \<open>final\<close> is the state reached in all three cases.
\<close>

datatype panic = SliceBoundsOutOfRange nat nat | MakeChanSizeOutOfRange

datatype 'a outcome =
    Returned (final: 'a)
  | Panicked (cause: panic) (final: 'a)
  | Blocked (final: 'a)

text \<open>\<open>s[:n]\<close>: the first \<open>n\<close> bytes, and a panic when the string is shorter.\<close>

definition slicePrefix :: "string \<Rightarrow> nat \<Rightarrow> panic + string" where
  "slicePrefix s n =
    (if n \<le> length s then Inr (take n s) else Inl (SliceBoundsOutOfRange n (length s)))"

record result =
  container :: Container
  stats :: "Stats option"
  err :: "error option"

text \<open>
  The loop that fills \<open>results\<close>. Each fetch runs in a goroutine of its own and the loop
  waits for all of them before the emission; the model runs each fetch, and the \<open>Set\<close> that
  follows a successful one, when the loop reaches its container. Before it starts a
  goroutine the loop sends on the channel \<open>sem\<close>, whose capacity is \<open>maxConcurrent\<close>, and
  only a goroutine that has been started receives from it: with a capacity of 0 the first
  send finds no receiver and the loop waits for ever; with a positive capacity every send
  completes, since every fetch comes back and gives its slot back.
\<close>

fun dispatch ::
  "ContainerCollector \<Rightarrow> runtime \<Rightarrow> nat \<Rightarrow> Container list \<Rightarrow> result list \<times> world
    \<Rightarrow> (result list \<times> world) outcome" where
  "dispatch c rt i [] acc = Returned acc"
| "dispatch c rt i (ctr # filtered) acc =
    (let results = fst acc; w = snd acc in
     if Container.State ctr \<noteq> ''running''
     then dispatch c rt (Suc i) filtered
            (results @ [\<lparr>container = ctr, stats = None, err = None\<rparr>], w)
     else
       (let got = cacheGet w (tGet rt i) (Container.ID ctr);
            cached = fst (fst got); ok = snd (fst got); w = snd got in
        if ok
        then dispatch c rt (Suc i) filtered
               (results @ [\<lparr>container = ctr, stats = cached, err = None\<rparr>], w)
        else if maxConcurrent c = 0
        then Blocked (results, w)
        else
          (let fetched = GetContainerStats (client c) i (Container.ID ctr);
               st = fst fetched; e = snd fetched;
               w = (if e = None then cacheSet w (tSet rt i) (Container.ID ctr) st else w)
           in dispatch c rt (Suc i) filtered
                (results @ [\<lparr>container = ctr, stats = st, err = e\<rparr>], w))))"

definition emitMemoryMetrics :: "Metric list \<Rightarrow> Stats \<Rightarrow> string list \<Rightarrow> Metric list" where
  "emitMemoryMetrics ch s lv =
    (let
         ch = SendSafe ch (SafeNewConstMetric metrics_MemoryUsage GaugeValue (FromUint64 (MemoryUsage s)) lv);
         ch = SendSafe ch (SafeNewConstMetric metrics_MemoryLimit GaugeValue (FromUint64 (MemoryLimit s)) lv);
         ch = SendSafe ch (SafeNewConstMetric metrics_MemoryCache GaugeValue (FromUint64 (MemoryCache s)) lv);
         ch = SendSafe ch (SafeNewConstMetric metrics_MemoryRSS GaugeValue (FromUint64 (MemoryRSS s)) lv);
         ch = SendSafe ch (SafeNewConstMetric metrics_MemorySwap GaugeValue (FromUint64 (MemorySwap s)) lv);
         ch = SendSafe ch (SafeNewConstMetric metrics_MemoryWorkingSet GaugeValue (FromUint64 (MemoryWorkingSet s)) lv);
         ch = SendSafe ch (SafeNewConstMetric metrics_MemoryFailcnt GaugeValue (FromUint64 (MemoryFailcnt s)) lv)
     in ch)"

definition emitCPUMetrics :: "Metric list \<Rightarrow> Stats \<Rightarrow> string list \<Rightarrow> Metric list" where
  "emitCPUMetrics ch s lv =
    (let
         ch = SendSafe ch (SafeNewConstMetric metrics_CPUUsageTotal CounterValue (Times (FromUint64 (CPUUsageTotal s)) NanosecondsToSeconds) lv);
         ch = SendSafe ch (SafeNewConstMetric metrics_CPUUsageSystem CounterValue (Times (FromUint64 (CPUUsageSystem s)) NanosecondsToSeconds) lv);
         ch = SendSafe ch (SafeNewConstMetric metrics_CPUUsageUser CounterValue (Times (FromUint64 (CPUUsageUser s)) NanosecondsToSeconds) lv);
         ch = SendSafe ch (SafeNewConstMetric metrics_CPUThrottledPeriods CounterValue (FromUint64 (CPUThrottledPeriods s)) lv);
         ch = SendSafe ch (SafeNewConstMetric metrics_CPUThrottledTime CounterValue (Times (FromUint64 (CPUThrottledTime s)) NanosecondsToSeconds) lv)
     in ch)"

definition emitInterface :: "string list \<Rightarrow> string \<times> NetworkStats \<Rightarrow> Metric list \<Rightarrow> Metric list" where
  "emitInterface lv entry ch =
    (let iface = fst entry; net = snd entry;
         nlv = lv @ [iface];
         ch = SendSafe ch (SafeNewConstMetric metrics_NetworkRxBytes CounterValue (FromUint64 (RxBytes net)) nlv);
         ch = SendSafe ch (SafeNewConstMetric metrics_NetworkTxBytes CounterValue (FromUint64 (TxBytes net)) nlv);
         ch = SendSafe ch (SafeNewConstMetric metrics_NetworkRxPackets CounterValue (FromUint64 (RxPackets net)) nlv);
         ch = SendSafe ch (SafeNewConstMetric metrics_NetworkTxPackets CounterValue (FromUint64 (TxPackets net)) nlv);
         ch = SendSafe ch (SafeNewConstMetric metrics_NetworkRxErrors CounterValue (FromUint64 (RxErrors net)) nlv);
         ch = SendSafe ch (SafeNewConstMetric metrics_NetworkTxErrors CounterValue (FromUint64 (TxErrors net)) nlv);
         ch = SendSafe ch (SafeNewConstMetric metrics_NetworkRxDropped CounterValue (FromUint64 (RxDropped net)) nlv);
         ch = SendSafe ch (SafeNewConstMetric metrics_NetworkTxDropped CounterValue (FromUint64 (TxDropped net)) nlv)
     in ch)"

definition emitNetworkMetrics :: "Metric list \<Rightarrow> Stats \<Rightarrow> string list \<Rightarrow> Metric list" where
  "emitNetworkMetrics ch s lv = fold (emitInterface lv) (Stats.Networks s) ch"

definition emitDevice :: "string list \<Rightarrow> string \<times> BlockIOStats \<Rightarrow> Metric list \<Rightarrow> Metric list" where
  "emitDevice lv entry ch =
    (let device = fst entry; bio = snd entry;
         dlv = lv @ [device];
         ch = SendSafe ch (SafeNewConstMetric metrics_FSReadBytes CounterValue (FromUint64 (ReadBytes bio)) dlv);
         ch = SendSafe ch (SafeNewConstMetric metrics_FSWriteBytes CounterValue (FromUint64 (WriteBytes bio)) dlv);
         ch = SendSafe ch (SafeNewConstMetric metrics_FSReadOps CounterValue (FromUint64 (ReadOps bio)) dlv);
         ch = SendSafe ch (SafeNewConstMetric metrics_FSWriteOps CounterValue (FromUint64 (WriteOps bio)) dlv)
     in ch)"

definition emitBlockIOMetrics :: "Metric list \<Rightarrow> Stats \<Rightarrow> string list \<Rightarrow> Metric list" where
  "emitBlockIOMetrics ch s lv = fold (emitDevice lv) (BlockIO s) ch"

definition emitPIDsMetrics :: "Metric list \<Rightarrow> Stats \<Rightarrow> string list \<Rightarrow> Metric list" where
  "emitPIDsMetrics ch s lv =
    SendSafe ch (SafeNewConstMetric metrics_PIDsCurrent GaugeValue (FromUint64 (PIDsCurrent s)) lv)"

definition emitStateMetrics ::
  "runtime \<Rightarrow> Metric list \<Rightarrow> Container \<Rightarrow> string list \<Rightarrow> Time \<Rightarrow> Metric list outcome" where
  "emitStateMetrics rt ch ctr lv now =
    (let ch = SendSafe ch (SafeNewConstMetric metrics_ContainerLastSeen GaugeValue
                (FromInt (Unix now)) lv);
         ch = (if \<not> IsZero (Container.StartedAt ctr)
               then (let ch = SendSafe ch (SafeNewConstMetric metrics_ContainerStartTime GaugeValue
                                (FromInt (Unix (Container.StartedAt ctr))) lv);
                         ch = SendSafe ch (SafeNewConstMetric metrics_ContainerUptime GaugeValue
                                (Seconds (Sub now (Container.StartedAt ctr))) lv)
                     in ch)
               else ch)
     in case slicePrefix (Container.ID ctr) 12 of
          Inl p \<Rightarrow> Panicked p ch
        | Inr id12 \<Rightarrow>
            (let infoLV = lv @ [id12, Container.Status ctr, Container.Health ctr,
                                formatRFC3339 rt (Container.StartedAt ctr)];
                 ch = SendSafe ch (SafeNewConstMetric metrics_ContainerInfo GaugeValue
                        (FromInt 1) infoLV);
                 ch = SendSafe ch (SafeNewConstMetric metrics_ContainerHealthStatus GaugeValue
                        (HealthStatusToFloat (Container.Health ctr)) lv);
                 ch = SendSafe ch (SafeNewConstMetric metrics_ContainerRestartCount GaugeValue
                        (FromInt (Container.RestartCount ctr)) lv);
                 ch = SendSafe ch (SafeNewConstMetric metrics_ContainerExitCode GaugeValue
                        (FromInt (Container.ExitCode ctr)) lv)
             in Returned ch))"

text \<open>
  \<open>emitSelfMetrics\<close>, with \<open>now\<close> the clock reading of its \<open>time.Since(start)\<close>. The error
  count is an \<open>int64\<close> that a cycle increments at most once for the list call or once for
  each result, so it stays far below \<open>2 ^ 63\<close> and is an \<^typ>\<open>int\<close> here.
\<close>

definition emitSelfMetrics :: "Metric list \<Rightarrow> Time \<Rightarrow> Time \<Rightarrow> int \<Rightarrow> Metric list" where
  "emitSelfMetrics ch start now errors =
    (let duration = Seconds (Sub now start);
         ch = SendSafe ch (SafeNewConstMetric metrics_ExporterScrapeDuration GaugeValue
                duration [''container'']);
         ch = SendSafe ch (SafeNewConstMetric metrics_ExporterScrapeErrors CounterValue
                (FromInt errors) [''container''])
     in ch)"

text \<open>
  The emission loop over \<open>results\<close>; the state is the channel and \<open>scrapeErrors\<close>. A panic
  of \<open>emitStateMetrics\<close> ends the loop, as any way of not returning would.
\<close>

fun emitResults ::
  "runtime \<Rightarrow> Time \<Rightarrow> result list \<Rightarrow> Metric list \<times> int \<Rightarrow> (Metric list \<times> int) outcome" where
  "emitResults rt now [] acc = Returned acc"
| "emitResults rt now (r # results) acc =
    (let ch = fst acc; scrapeErrors = snd acc in
     if err r \<noteq> None then emitResults rt now results (ch, scrapeErrors + 1)
     else
       (let labels = ExtractLabels (container r);
            lv = Values labels in
        case emitStateMetrics rt ch (container r) lv now of
          Panicked p ch \<Rightarrow> Panicked p (ch, scrapeErrors)
        | Blocked ch \<Rightarrow> Blocked (ch, scrapeErrors)
        | Returned ch \<Rightarrow>
            (case result.stats r of
               None \<Rightarrow> emitResults rt now results (ch, scrapeErrors)
             | Some s \<Rightarrow>
                 (let ch = emitMemoryMetrics ch s lv;
                      ch = emitCPUMetrics ch s lv;
                      ch = emitNetworkMetrics ch s lv;
                      ch = emitBlockIOMetrics ch s lv;
                      ch = emitPIDsMetrics ch s lv
                  in emitResults rt now results (ch, scrapeErrors)))))"

text \<open>
  \<open>Collect\<close> fetches container stats and emits the metrics of one cycle.
  \<open>make(chan struct{}, c.maxConcurrent)\<close> panics when the capacity is negative.
\<close>

definition Collect' :: "ContainerCollector \<Rightarrow> runtime \<Rightarrow> world \<Rightarrow> world outcome" where
  "Collect' c rt w =
    (let start = tStart rt;
         scrapeErrors = 0;
         containers = fst (ListContainers (client c));
         lerr = snd (ListContainers (client c)) in
     if lerr \<noteq> None
     then Returned (w\<lparr>sent := emitSelfMetrics (sent w) start (tEnd rt) (scrapeErrors + 1)\<rparr>)
     else
       (let filtered = List.filter (Match (filter' c)) containers in
        if maxConcurrent c < 0 then Panicked MakeChanSizeOutOfRange w
        else
          (case dispatch c rt 0 filtered ([], w) of
             Panicked p dispatched \<Rightarrow> Panicked p (snd dispatched)
           | Blocked dispatched \<Rightarrow> Blocked (snd dispatched)
           | Returned dispatched \<Rightarrow>
               (let results = fst dispatched; w = snd dispatched;
                    now = tEmit rt in
                case emitResults rt now results (sent w, scrapeErrors) of
                  Panicked p acc \<Rightarrow> Panicked p (w\<lparr>sent := fst acc\<rparr>)
                | Blocked acc \<Rightarrow> Blocked (w\<lparr>sent := fst acc\<rparr>)
                | Returned acc \<Rightarrow>
                    (let w = w\<lparr>sent := fst acc\<rparr>;
                         scrapeErrors = snd acc;
                         w = cacheEvictStale w (tEvict rt)
                     in Returned
                          (w\<lparr>sent := emitSelfMetrics (sent w) start (tEnd rt) scrapeErrors\<rparr>))))))"

text \<open>
  What the emission loop sends for one result: the metrics of one iteration that starts
  with an empty channel.
\<close>

definition emitted :: "runtime \<Rightarrow> Time \<Rightarrow> result \<Rightarrow> Metric list" where
  "emitted rt now r =
    (case emitResults rt now [r] ([], 0) of
       Returned acc \<Rightarrow> fst acc
     | Panicked p acc \<Rightarrow> fst acc
     | Blocked acc \<Rightarrow> fst acc)"

section \<open>Example inputs\<close>

text \<open>
  The fixture of the parser's tests: the memory block of \<open>testdata/stats_response.json\<close>, as
  the assertions of \<open>TestParseDockerStats\<close> give it, and \<open>testContainerJSON\<close>.
\<close>

definition exampleMemoryStats :: MemoryStats where
  "exampleMemoryStats =
    \<lparr>Usage = 104857600, Limit = 536870912, Failcnt = 3,
     Stats = [''cache'' \<mapsto> 20971520, ''rss'' \<mapsto> 73400320, ''swap'' \<mapsto> 1048576,
              ''inactive_file'' \<mapsto> 5242880]\<rparr>"

definition exampleStatsJSON :: "MemoryStats \<Rightarrow> StatsJSON" where
  "exampleStatsJSON mem =
    \<lparr>Read = 0, MemoryStats = mem,
     CPUStats =
       \<lparr>CPUUsage = \<lparr>TotalUsage = 500000000000, UsageInKernelmode = 100000000000,
                    UsageInUsermode = 400000000000\<rparr>,
        ThrottlingData = \<lparr>ThrottledPeriods = 10, ThrottledTime = 5000000000\<rparr>,
        CPUStats.OnlineCPUs = 2\<rparr>,
     StatsJSON.Networks = [],
     BlkioStats = \<lparr>IoServiceBytesRecursive = [], IoServicedRecursive = []\<rparr>\<rparr>"

definition testContainerJSON :: ContainerJSON where
  "testContainerJSON =
    \<lparr>ContainerJSON.ID = ''abc123def456'', ContainerJSON.Name = ''/test-container'',
     ContainerJSON.RestartCount = 2,
     ContainerJSON.State =
       \<lparr>ContainerState.Status = ''running'', ContainerState.ExitCode = 0,
        ContainerState.StartedAt = ''2024-01-15T09:00:00.000000000Z'',
        ContainerState.Health = Some ''healthy''\<rparr>,
     Config =
       \<lparr>ContainerConfig.Image' = ''nginx:latest'',
        ContainerConfig.Labels =
          [''com.docker.compose.service'' \<mapsto> ''web'',
           ''com.docker.compose.project'' \<mapsto> ''myapp'']\<rparr>\<rparr>"

text \<open>A container of a list call, and statistics that carry the same name, image and labels.\<close>

definition exampleContainer :: "string \<Rightarrow> string \<Rightarrow> string \<Rightarrow> Container" where
  "exampleContainer cid name state =
    \<lparr>Container.ID = cid, Container.Name = name, Container.Image' = ''nginx:1.25'',
     Container.Labels =
       [''com.docker.compose.service'' \<mapsto> ''web'',
        ''com.docker.compose.project'' \<mapsto> ''myproject''],
     Container.Status = ''Up 2 hours'', State = state, Container.Health = [],
     Container.StartedAt = 0, Container.RestartCount = 0, Container.ExitCode = 0\<rparr>"

definition exampleStats :: "string \<Rightarrow> Stats" where
  "exampleStats name =
    (newStats 0)
      \<lparr>MemoryUsage := 100, MemoryLimit := 200, Stats.Name := name, Stats.Image' := ''nginx:1.25'',
       Stats.Labels :=
         [''com.docker.compose.service'' \<mapsto> ''web'',
          ''com.docker.compose.project'' \<mapsto> ''myproject'']\<rparr>"

text \<open>
  A stand-in for \<open>regexp.Compile\<close> on the patterns of the examples: it rejects \<open>[invalid\<close>
  and reads any other pattern as a literal that must start the string.
\<close>

definition literalPrefix :: "string \<Rightarrow> Regexp" where
  "literalPrefix p s = (take (length p) s = p)"

definition exampleCompile :: "string \<Rightarrow> error + Regexp" where
  "exampleCompile p =
    (if p = ''[invalid'' then Inl (Err ''missing closing ]'') else Inr (literalPrefix p))"

definition exampleFiltersConfig :: FiltersConfig where
  "exampleFiltersConfig =
    \<lparr>Include = \<lparr>FilterSet.Labels = [], Names = [''''], Images = []\<rparr>,
     Exclude = \<lparr>FilterSet.Labels = [], Names = [''secret-''], Images = []\<rparr>\<rparr>"

definition exampleFilter :: Filter where
  "exampleFilter =
    \<lparr>includeLabels = [], excludeLabels = [], includeNames = [literalPrefix ''''],
     excludeNames = [literalPrefix ''secret-''], includeImages = [], excludeImages = [],
     hasIncludes = True\<rparr>"

text \<open>
  Cycles to run: a clock that reads 100 s at the start and one more second at each later
  point, a cache with a TTL of 30 s, and clients over the containers \<open>web\<close>, \<open>db\<close> and
  \<open>job\<close>. \<open>exampleClient\<close> lists the three as running and fails the fetch of \<open>db\<close>;
  \<open>failingListClient\<close> fails the list call; \<open>shortIDClient\<close> lists one container whose ID
  has six bytes.
\<close>

definition exampleRuntime :: runtime where
  "exampleRuntime =
    \<lparr>tStart = 100000000000, tGet = (\<lambda>i. 101000000000), tSet = (\<lambda>i. 102000000000),
     tEmit = 103000000000, tEvict = 104000000000, tEnd = 105000000000,
     formatRFC3339 = (\<lambda>t. ''0001-01-01T00:00:00Z'')\<rparr>"

definition exampleWorld :: world where
  "exampleWorld = \<lparr>cache = NewStatsCache 30000000000 True, sent = [], calls = []\<rparr>"

definition staleWorld :: world where
  "staleWorld =
    \<lparr>cache = Set (NewStatsCache 30000000000 True) 0 ''0123456789ab'' (Some (exampleStats ''old'')),
     sent = [], calls = []\<rparr>"

definition noFilter :: Filter where
  "noFilter =
    \<lparr>includeLabels = [], excludeLabels = [], includeNames = [], excludeNames = [],
     includeImages = [], excludeImages = [], hasIncludes = False\<rparr>"

definition exampleClient :: DockerClient where
  "exampleClient =
    \<lparr>ListContainers =
       ([exampleContainer ''aaaaaaaaaaaa'' ''web'' ''running'',
         exampleContainer ''bbbbbbbbbbbb'' ''db'' ''running'',
         exampleContainer ''cccccccccccc'' ''job'' ''running''], None),
     GetContainerStats =
       (\<lambda>i cid. if cid = ''bbbbbbbbbbbb'' then (None, Some (Err ''timeout''))
                else (Some (exampleStats (if cid = ''aaaaaaaaaaaa'' then ''web'' else ''job'')), None))\<rparr>"

definition failingListClient :: DockerClient where
  "failingListClient =
    \<lparr>ListContainers = ([], Some (Err ''connection refused'')),
     GetContainerStats = (\<lambda>i cid. (None, Some (Err ''not found'')))\<rparr>"

definition shortIDClient :: DockerClient where
  "shortIDClient =
    \<lparr>ListContainers = ([exampleContainer ''abc123'' ''web'' ''exited''], None),
     GetContainerStats = (\<lambda>i cid. (None, Some (Err ''not found'')))\<rparr>"

definition exampleCollector :: "DockerClient \<Rightarrow> ContainerCollector" where
  "exampleCollector cl =
    \<lparr>client = cl, filter' = noFilter, timeout = 5000000000, maxConcurrent = 4\<rparr>"

section \<open>Properties of the label sanitizer\<close>

lemma mod_window: "n * q \<le> b \<Longrightarrow> b < n * q + n \<Longrightarrow> b mod n = b - n * q" for b :: nat
proof -
  assume a: "n * q \<le> b" "b < n * q + n"
  then have "b = (b - n * q) + q * n" by (simp add: mult.commute)
  then have "b mod n = ((b - n * q) + q * n) mod n" by simp
  also have "\<dots> = (b - n * q) mod n" by (rule mod_mult_self1)
  also have "\<dots> = b - n * q" using a by (intro mod_less) linarith
  finally show ?thesis .
qed

lemma decode2_ge: "0xC2 \<le> b0 \<Longrightarrow> b0 \<le> 0xDF \<Longrightarrow> 0x80 \<le> fst (decode2 b0 bs)"
proof -
  assume a: "0xC2 \<le> b0" "b0 \<le> 0xDF"
  then have "2 \<le> b0 mod 32" using mod_window [of 32 6 b0] by simp
  then have "128 \<le> (b0 mod 32) * 64 + k" for k by simp
  then show ?thesis
    by (simp add: decode2_def RuneError_def split: list.split)
qed

lemma decode3_ge:
  assumes a: "0xE0 \<le> b0" "b0 \<le> 0xEF"
  shows "0x80 \<le> fst (decode3 b0 bs)"
proof -
  have k: "128 \<le> (b0 mod 16) * 4096 + (b1 mod 64) * 64 + j"
    if "isCont (if b0 = 0xE0 then 0xA0 else 0x80) (if b0 = 0xED then 0x9F else 0xBF) b1" for b1 j
  proof (cases "b0 = 0xE0")
    case True
    with that have "160 \<le> b1" "b1 \<le> 191" by (simp_all add: isCont_def)
    then have "32 \<le> b1 mod 64" using mod_window [of 64 2 b1] by simp
    then have "2048 \<le> (b1 mod 64) * 64" by simp
    then show ?thesis by simp
  next
    case False
    with a have "1 \<le> b0 mod 16" using mod_window [of 16 14 b0] by simp
    then have "4096 \<le> (b0 mod 16) * 4096" by simp
    then show ?thesis by simp
  qed
  have r: "128 \<le> fst (RuneError, 1::nat)" by (simp add: RuneError_def)
  show ?thesis
  proof (cases bs)
    case Nil
    then show ?thesis using r by (simp add: decode3_def)
  next
    case c1: (Cons b1 bs1)
    show ?thesis
    proof (cases bs1)
      case Nil
      then show ?thesis using r c1 by (simp add: decode3_def)
    next
      case c2: (Cons b2 bs2)
      show ?thesis
      proof (cases "isCont (if b0 = 0xE0 then 0xA0 else 0x80) (if b0 = 0xED then 0x9F else 0xBF) b1 \<and>
            isCont 0x80 0xBF b2")
        case True
        then have "decode3 b0 bs = ((b0 mod 16) * 4096 + (b1 mod 64) * 64 + b2 mod 64, 3)"
          unfolding decode3_def c1 c2 by simp
        then show ?thesis using k [of b1 "b2 mod 64"] True by simp
      next
        case False
        then have "decode3 b0 bs = (RuneError, 1)"
          unfolding decode3_def c1 c2 by auto
        then show ?thesis using r by simp
      qed
    qed
  qed
qed

lemma decode4_ge:
  assumes a: "0xF0 \<le> b0" "b0 \<le> 0xF4"
  shows "0x80 \<le> fst (decode4 b0 bs)"
proof -
  have k: "128 \<le> (b0 mod 8) * 262144 + (b1 mod 64) * 4096 + i + j"
    if "isCont (if b0 = 0xF0 then 0x90 else 0x80) (if b0 = 0xF4 then 0x8F else 0xBF) b1" for b1 i j
  proof (cases "b0 = 0xF0")
    case True
    with that have "144 \<le> b1" "b1 \<le> 191" by (simp_all add: isCont_def)
    then have "16 \<le> b1 mod 64" using mod_window [of 64 2 b1] by simp
    then have "65536 \<le> (b1 mod 64) * 4096" by simp
    then show ?thesis by simp
  next
    case False
    with a have "1 \<le> b0 mod 8" using mod_window [of 8 30 b0] by simp
    then have "262144 \<le> (b0 mod 8) * 262144" by simp
    then show ?thesis by simp
  qed
  have r: "128 \<le> fst (RuneError, 1::nat)" by (simp add: RuneError_def)
  show ?thesis
  proof (cases bs)
    case Nil
    then show ?thesis using r by (simp add: decode4_def)
  next
    case c1: (Cons b1 bs1)
    show ?thesis
    proof (cases bs1)
      case Nil
      then show ?thesis using r c1 by (simp add: decode4_def)
    next
      case c2: (Cons b2 bs2)
      show ?thesis
      proof (cases bs2)
        case Nil
        then show ?thesis using r c1 c2 by (simp add: decode4_def)
      next
        case c3: (Cons b3 bs3)
        show ?thesis
        proof (cases "isCont (if b0 = 0xF0 then 0x90 else 0x80) (if b0 = 0xF4 then 0x8F else 0xBF) b1 \<and>
            isCont 0x80 0xBF b2 \<and> isCont 0x80 0xBF b3")
          case True
          then have "decode4 b0 bs =
              ((b0 mod 8) * 262144 + (b1 mod 64) * 4096 + (b2 mod 64) * 64 + b3 mod 64, 4)"
            unfolding decode4_def c1 c2 c3 by simp
          then show ?thesis using k [of b1 "(b2 mod 64) * 64" "b3 mod 64"] True by simp
        next
          case False
          then have "decode4 b0 bs = (RuneError, 1)"
            unfolding decode4_def c1 c2 c3 by auto
          then show ?thesis using r by simp
        qed
      qed
    qed
  qed
qed

lemma DecodeRune_small:
  "fst (DecodeRune (b # bs)) < 0x80 \<Longrightarrow> DecodeRune (b # bs) = (b, 1)"
  using decode2_ge [of b bs] decode3_ge [of b bs] decode4_ge [of b bs]
  by (simp add: DecodeRune_def RuneError_def split: if_splits)

lemma DecodeRune_ascii: "b < 0x80 \<Longrightarrow> DecodeRune (b # bs) = (b, 1)"
  by (simp add: DecodeRune_def)

lemma invalidLabelChars_small: "\<not> invalidLabelChars r \<Longrightarrow> r < 0x80"
  by (auto simp: invalidLabelChars_def)

lemma not_invalid_not_space: "\<not> invalidLabelChars r \<Longrightarrow> \<not> isSpace r"
  by (auto simp: invalidLabelChars_def isSpace_def)

text \<open>A rune that the pattern does not match is one ASCII byte, encoded by itself.\<close>

lemma runes_kept:
  "p \<in> set (runes s) \<Longrightarrow> \<not> invalidLabelChars (fst p) \<Longrightarrow>
    \<exists>c. snd p = [c] \<and> of_char c = fst p"
proof (induction s rule: runes.induct)
  case 1
  then show ?case by simp
next
  case (2 c cs)
  show ?case
  proof (cases "p \<in> set (runes (drop (snd (DecodeRuneInString (c # cs)) - 1) cs))")
    case True
    then show ?thesis using 2 by simp
  next
    case False
    with "2.prems" have p: "p = (fst (DecodeRuneInString (c # cs)),
        c # take (snd (DecodeRuneInString (c # cs)) - 1) cs)"
      by (simp add: Let_def)
    then have "fst (DecodeRune (of_char c # map of_char cs)) < 0x80"
      using "2.prems"(2) invalidLabelChars_small by (simp add: DecodeRuneInString_def)
    then have "DecodeRune (of_char c # map of_char cs) = (of_char c, 1)"
      by (rule DecodeRune_small)
    then show ?thesis using p by (simp add: DecodeRuneInString_def)
  qed
qed

lemma runes_ascii:
  "\<forall>c \<in> set s. (of_char c :: nat) < 0x80 \<Longrightarrow> runes s = map (\<lambda>c. (of_char c, [c])) s"
proof (induction s)
  case Nil
  then show ?case by simp
next
  case (Cons c cs)
  then have "DecodeRuneInString (c # cs) = (of_char c, 1)"
    by (simp add: DecodeRuneInString_def DecodeRune_ascii)
  then show ?case using Cons by simp
qed

lemma ReplaceAllString_safe:
  "c \<in> set (ReplaceAllString invalidLabelChars s ''_'') \<Longrightarrow> \<not> invalidLabelChars (of_char c)"
proof -
  assume "c \<in> set (ReplaceAllString invalidLabelChars s ''_'')"
  then obtain xs where xs: "xs \<in> set (map (\<lambda>p. if invalidLabelChars (fst p) then ''_'' else snd p) (runes s))"
      and cx: "c \<in> set xs"
    unfolding ReplaceAllString_def set_concat by blast
  from xs obtain p where p: "p \<in> set (runes s)"
      and "xs = (if invalidLabelChars (fst p) then ''_'' else snd p)"
    by auto
  with cx have c: "c \<in> set (if invalidLabelChars (fst p) then ''_'' else snd p)"
    by simp
  show ?thesis
  proof (cases "invalidLabelChars (fst p)")
    case True
    with c have "c = CHR ''_''" by simp
    then show ?thesis by (simp add: invalidLabelChars_def)
  next
    case False
    with runes_kept [OF p] obtain d where "snd p = [d]" "of_char d = fst p" by blast
    with c False show ?thesis by simp
  qed
qed

lemma dropWhile_none: "\<forall>x \<in> set xs. \<not> P x \<Longrightarrow> dropWhile P xs = xs"
  by (cases xs) simp_all

lemma concat_singletons: "concat (map (\<lambda>c. [c]) s) = s"
  by (induction s) simp_all

lemma TrimSpace_safe:
  assumes "\<forall>c \<in> set s. \<not> invalidLabelChars (of_char c)"
  shows "TrimSpace s = s"
proof -
  from assms have small: "\<forall>c \<in> set s. (of_char c :: nat) < 0x80"
    using invalidLabelChars_small by blast
  have r: "runes s = map (\<lambda>c. (of_char c, [c])) s"
    by (rule runes_ascii [OF small])
  have ns: "\<forall>p \<in> set (runes s). \<not> isSpace (fst p)"
    using assms not_invalid_not_space by (auto simp: r)
  then have "dropWhile (\<lambda>p. isSpace (fst p)) (runes s) = runes s"
    by (rule dropWhile_none)
  moreover have "dropWhile (\<lambda>p. isSpace (fst p)) (rev (runes s)) = rev (runes s)"
    using ns by (intro dropWhile_none) simp
  ultimately have "TrimSpace s = concat (map snd (runes s))"
    by (simp add: TrimSpace_def)
  also have "\<dots> = concat (map (\<lambda>c. [c]) s)"
    by (simp add: r comp_def)
  finally show ?thesis by (simp add: concat_singletons)
qed

lemma ReplaceAllString_id:
  assumes "\<forall>c \<in> set s. \<not> invalidLabelChars (of_char c)"
  shows "ReplaceAllString invalidLabelChars s ''_'' = s"
proof -
  from assms have small: "\<forall>c \<in> set s. (of_char c :: nat) < 0x80"
    using invalidLabelChars_small by blast
  have "ReplaceAllString invalidLabelChars s ''_'' =
      concat (map (\<lambda>c. if invalidLabelChars (of_char c) then ''_'' else [c]) s)"
    by (simp add: ReplaceAllString_def runes_ascii [OF small] comp_def cong: if_cong)
  also have "\<dots> = concat (map (\<lambda>c. [c]) s)"
    using assms by (intro arg_cong [where f = concat] map_cong) simp_all
  finally show ?thesis by (simp add: concat_singletons)
qed

lemma SanitizeLabelValue_safe:
  "\<forall>c \<in> set s. \<not> invalidLabelChars (of_char c) \<Longrightarrow> SanitizeLabelValue s = s"
  by (simp add: SanitizeLabelValue_def TrimSpace_safe ReplaceAllString_id)

lemma ValidString_ascii: "\<forall>c \<in> set s. (of_char c :: nat) < 0x80 \<Longrightarrow> ValidString s"
proof -
  assume a: "\<forall>c \<in> set s. (of_char c :: nat) < 0x80"
  then have "\<forall>c \<in> set s. (of_char c :: nat) \<noteq> RuneError"
    by (fastforce simp: RuneError_def)
  then show ?thesis
    by (simp add: ValidString_def runes_ascii [OF a] list_all_iff)
qed

lemma ValidString_safe: "\<forall>c \<in> set s. \<not> invalidLabelChars (of_char c) \<Longrightarrow> ValidString s"
  using invalidLabelChars_small by (intro ValidString_ascii) blast

lemma ValidString_SanitizeLabelValue: "ValidString (SanitizeLabelValue x)"
  unfolding SanitizeLabelValue_def using ReplaceAllString_safe by (intro ValidString_safe) blast

text \<open>
  C9. The label-value sanitizer is idempotent: sanitizing a sanitized value changes nothing,
  for every string. Every byte of a sanitized value belongs to the safe set (letters,
  digits and \<open>_:/.@=-\<close>), which is why the second pass finds no space to trim and no
  character to replace.
\<close>

theorem SanitizeLabelValue_idempotent:
  "SanitizeLabelValue (SanitizeLabelValue x) = SanitizeLabelValue x \<and>
   list_all (\<lambda>c. \<not> invalidLabelChars (of_char c)) (SanitizeLabelValue x)"
proof -
  have safe: "\<forall>c \<in> set (SanitizeLabelValue x). \<not> invalidLabelChars (of_char c)"
    unfolding SanitizeLabelValue_def using ReplaceAllString_safe by blast
  have "TrimSpace (SanitizeLabelValue x) = SanitizeLabelValue x"
    by (rule TrimSpace_safe [OF safe])
  then have "SanitizeLabelValue (SanitizeLabelValue x) =
      ReplaceAllString invalidLabelChars (SanitizeLabelValue x) ''_''"
    by (simp add: SanitizeLabelValue_def)
  also have "\<dots> = SanitizeLabelValue x"
    by (rule ReplaceAllString_id [OF safe])
  finally show ?thesis using safe by (simp add: list_all_iff)
qed

section \<open>Properties of the normalizer\<close>

lemma parseMemoryStats_WorkingSet:
  "MemoryWorkingSet (parseMemoryStats s mem) =
    (if Usage mem >
        (case MemoryStats.Stats mem ''inactive_file'' of
           Some v \<Rightarrow> v
         | None \<Rightarrow> (case MemoryStats.Stats mem ''total_inactive_file'' of Some v \<Rightarrow> v | None \<Rightarrow> 0))
     then Usage mem -
        (case MemoryStats.Stats mem ''inactive_file'' of
           Some v \<Rightarrow> v
         | None \<Rightarrow> (case MemoryStats.Stats mem ''total_inactive_file'' of Some v \<Rightarrow> v | None \<Rightarrow> 0))
     else Usage mem)"
  by (simp add: parseMemoryStats_def Let_def)

lemma parseMemoryStats_RSS:
  "MemoryRSS (parseMemoryStats s mem) =
    (case MemoryStats.Stats mem ''rss'' of
       Some v \<Rightarrow> v
     | None \<Rightarrow> (case MemoryStats.Stats mem ''anon'' of Some v \<Rightarrow> v | None \<Rightarrow> MemoryRSS s))"
  by (simp add: parseMemoryStats_def Let_def split: option.split)

lemma ParseDockerStats_memory:
  "MemoryWorkingSet (ParseDockerStats parseTime statsJSON containerJSON) =
     MemoryWorkingSet (parseMemoryStats (newStats 0) (StatsJSON.MemoryStats statsJSON)) \<and>
   MemoryRSS (ParseDockerStats parseTime statsJSON containerJSON) =
     MemoryRSS (parseMemoryStats (newStats 0) (StatsJSON.MemoryStats statsJSON))"
  by (simp add: ParseDockerStats_def Let_def parseCPUStats_def parseMemoryStats_WorkingSet
      parseMemoryStats_RSS newStats_def split: option.split)

text \<open>
  C7. The working set that normalization stores is the usage minus the inactive-file bytes,
  read from \<open>inactive_file\<close> or, failing that, from \<open>total_inactive_file\<close>; the subtraction
  never wraps around. When the inactive-file bytes are absent or not smaller than the usage,
  the working set is the usage. For the usage 104857600 and \<open>inactive_file\<close> 5242880 it is
  99614720.
\<close>

theorem working_set_derivation:
  "(let mem = StatsJSON.MemoryStats statsJSON;
        usage = Usage mem;
        inactive =
          (case MemoryStats.Stats mem ''inactive_file'' of
             Some v \<Rightarrow> v
           | None \<Rightarrow>
               (case MemoryStats.Stats mem ''total_inactive_file'' of Some v \<Rightarrow> v | None \<Rightarrow> 0));
        ws = MemoryWorkingSet (ParseDockerStats parseTime statsJSON containerJSON)
    in (inactive < usage \<longrightarrow> ws = usage - inactive \<and> unat ws = unat usage - unat inactive) \<and>
       (\<not> inactive < usage \<longrightarrow> ws = usage) \<and>
       (MemoryStats.Stats mem ''inactive_file'' = None \<and>
        MemoryStats.Stats mem ''total_inactive_file'' = None \<longrightarrow> ws = usage) \<and>
       (usage = 104857600 \<and> MemoryStats.Stats mem ''inactive_file'' = Some 5242880 \<longrightarrow>
        ws = 99614720))"
  by (auto simp: Let_def ParseDockerStats_memory parseMemoryStats_WorkingSet unat_sub
      word_less_def word_le_def split: option.split)

theorem working_set_derivation_witness:
  "MemoryWorkingSet (ParseDockerStats (\<lambda>s. None) (exampleStatsJSON exampleMemoryStats)
      testContainerJSON) = 99614720 \<and>
   MemoryWorkingSet (ParseDockerStats (\<lambda>s. None)
      (exampleStatsJSON (exampleMemoryStats\<lparr>Stats := Map.empty\<rparr>)) testContainerJSON) = 104857600 \<and>
   MemoryWorkingSet (ParseDockerStats (\<lambda>s. None)
      (exampleStatsJSON (exampleMemoryStats\<lparr>Usage := 4096\<rparr>)) testContainerJSON) = 4096"
  using working_set_derivation [of "exampleStatsJSON exampleMemoryStats" "\<lambda>s. None" testContainerJSON]
    working_set_derivation [of "exampleStatsJSON (exampleMemoryStats\<lparr>Stats := Map.empty\<rparr>)"
      "\<lambda>s. None" testContainerJSON]
    working_set_derivation [of "exampleStatsJSON (exampleMemoryStats\<lparr>Usage := 4096\<rparr>)"
      "\<lambda>s. None" testContainerJSON]
  by (simp add: Let_def exampleStatsJSON_def exampleMemoryStats_def)

text \<open>
  C8. The resident-set field that normalization stores is the value of the \<open>rss\<close> key when
  the raw block has it, otherwise the value of the \<open>anon\<close> key, and zero when it has
  neither; so a block with \<open>anon\<close> and without \<open>rss\<close> resolves to the \<open>anon\<close> value.
\<close>

theorem resident_set_resolution:
  "MemoryRSS (ParseDockerStats parseTime statsJSON containerJSON) =
     (case MemoryStats.Stats (StatsJSON.MemoryStats statsJSON) ''rss'' of
        Some v \<Rightarrow> v
      | None \<Rightarrow>
          (case MemoryStats.Stats (StatsJSON.MemoryStats statsJSON) ''anon'' of
             Some v \<Rightarrow> v
           | None \<Rightarrow> 0)) \<and>
   (MemoryStats.Stats (StatsJSON.MemoryStats statsJSON) ''rss'' = None \<and>
    MemoryStats.Stats (StatsJSON.MemoryStats statsJSON) ''anon'' = Some a \<longrightarrow>
    MemoryRSS (ParseDockerStats parseTime statsJSON containerJSON) = a)"
  by (simp add: ParseDockerStats_memory parseMemoryStats_RSS newStats_def split: option.split)

theorem resident_set_resolution_witness:
  "MemoryRSS (ParseDockerStats (\<lambda>s. None)
      (exampleStatsJSON (exampleMemoryStats\<lparr>Stats := [''anon'' \<mapsto> 65536000]\<rparr>))
      testContainerJSON) = 65536000 \<and>
   MemoryRSS (ParseDockerStats (\<lambda>s. None) (exampleStatsJSON exampleMemoryStats)
      testContainerJSON) = 73400320"
  using resident_set_resolution [of "\<lambda>s. None"
      "exampleStatsJSON (exampleMemoryStats\<lparr>Stats := [''anon'' \<mapsto> 65536000]\<rparr>)"
      testContainerJSON 65536000]
    resident_set_resolution [of "\<lambda>s. None" "exampleStatsJSON exampleMemoryStats"
      testContainerJSON 0]
  by (simp add: exampleStatsJSON_def exampleMemoryStats_def)

section \<open>Properties of the label extractor\<close>

text \<open>
  C10. Label extraction from a list record and from a stats record agree: when a Container
  and a Stats carry the same name, image and label map, \<open>ExtractLabels\<close> and
  \<open>ExtractLabelsFromStats\<close> give the same labels, whose values are the sanitized container
  name, compose service, compose project and image, in this order.
\<close>

theorem ExtractLabels_agree:
  "Container.Name c = Stats.Name s \<and> Container.Image' c = Stats.Image' s \<and>
   Container.Labels c = Stats.Labels s \<longrightarrow>
   ExtractLabels c = ExtractLabelsFromStats s \<and>
   Values (ExtractLabels c) = Values (ExtractLabelsFromStats s) \<and>
   Values (ExtractLabelsFromStats s) =
     [SanitizeLabelValue (Stats.Name s),
      SanitizeLabelValue (index (Stats.Labels s) ''com.docker.compose.service''),
      SanitizeLabelValue (index (Stats.Labels s) ''com.docker.compose.project''),
      SanitizeLabelValue (Stats.Image' s)]"
  by (simp add: ExtractLabels_def ExtractLabelsFromStats_def Values_def LabelComposeService_def
      LabelComposeProject_def)

theorem ExtractLabels_agree_witness:
  "Container.Name (exampleContainer ''abc123def456'' ''my-web-app'' ''running'') =
     Stats.Name (exampleStats ''my-web-app'') \<and>
   ExtractLabels (exampleContainer ''abc123def456'' ''my-web-app'' ''running'') =
     ExtractLabelsFromStats (exampleStats ''my-web-app'')"
  using ExtractLabels_agree [of "exampleContainer ''abc123def456'' ''my-web-app'' ''running''"
      "exampleStats ''my-web-app''"]
  by (simp add: exampleContainer_def exampleStats_def newStats_def)

section \<open>Properties of the filter\<close>

lemma matchesAny_iff: "matchesAny s patterns = (\<exists>re \<in> set patterns. re s)"
  by (induction patterns) auto

lemma matchesLabels_iff:
  "matchesLabels cl fl =
    (\<exists>kv \<in> set fl. \<exists>cv. cl (fst kv) = Some cv \<and> (snd kv = [] \<or> cv = snd kv))"
  by (induction fl) (auto split: option.splits)

lemma NewFilter_hasIncludes:
  "NewFilter Compile cfg = Inr f \<Longrightarrow>
    hasIncludes f = (includeLabels f \<noteq> [] \<or> includeNames f \<noteq> [] \<or> includeImages f \<noteq> [])"
  by (auto simp: NewFilter_def Let_def split: sum.splits)

lemma Match_unfold:
  "Match f c =
    (\<not> (matchesLabels (Container.Labels c) (excludeLabels f) \<or>
         matchesAny (Container.Name c) (excludeNames f) \<or>
         matchesAny (Container.Image' c) (excludeImages f)) \<and>
     (\<not> hasIncludes f \<or>
      matchesLabels (Container.Labels c) (includeLabels f) \<or>
      matchesAny (Container.Name c) (includeNames f) \<or>
      matchesAny (Container.Image' c) (includeImages f)))"
  by (simp add: Match_def)

lemma NewFilter_empty:
  "NewFilter Compile
     \<lparr>Include = \<lparr>FilterSet.Labels = [], Names = [], Images = []\<rparr>,
      Exclude = \<lparr>FilterSet.Labels = [], Names = [], Images = []\<rparr>\<rparr> =
   Inr \<lparr>includeLabels = [], excludeLabels = [], includeNames = [], excludeNames = [],
        includeImages = [], excludeImages = [], hasIncludes = False\<rparr>"
  by (simp add: NewFilter_def parseLabels_def compilePatterns_def)

text \<open>
  C3. For every compiled Filter and every container: \<open>Match\<close> is false whenever an exclude
  rule matches (a label, the name or the image), whatever the include rules are; when no
  exclude rule matches and the Filter has no include rule, \<open>Match\<close> is true; otherwise
  \<open>Match\<close> is true iff an include rule matches. A label rule matches when the container has
  the key, with any value if the rule's value is empty and with the rule's value otherwise;
  a name or image rule matches when its pattern does. A Filter built from empty include and
  exclude sets exists and matches every container.
\<close>

theorem Match_exclude_wins:
  "(NewFilter Compile cfg = Inr f \<longrightarrow>
     (let excluded =
            ((\<exists>kv \<in> set (excludeLabels f). \<exists>cv. Container.Labels c (fst kv) = Some cv \<and>
                (snd kv = [] \<or> cv = snd kv)) \<or>
             (\<exists>re \<in> set (excludeNames f). re (Container.Name c)) \<or>
             (\<exists>re \<in> set (excludeImages f). re (Container.Image' c)));
          included =
            ((\<exists>kv \<in> set (includeLabels f). \<exists>cv. Container.Labels c (fst kv) = Some cv \<and>
                (snd kv = [] \<or> cv = snd kv)) \<or>
             (\<exists>re \<in> set (includeNames f). re (Container.Name c)) \<or>
             (\<exists>re \<in> set (includeImages f). re (Container.Image' c)));
          noIncludes = (includeLabels f = [] \<and> includeNames f = [] \<and> includeImages f = [])
      in Match f c = (if excluded then False else if noIncludes then True else included))) \<and>
   (\<exists>f0. NewFilter Compile
            \<lparr>Include = \<lparr>FilterSet.Labels = [], Names = [], Images = []\<rparr>,
             Exclude = \<lparr>FilterSet.Labels = [], Names = [], Images = []\<rparr>\<rparr> = Inr f0 \<and>
         (\<forall>c0. Match f0 c0))"
proof (intro conjI impI)
  assume nf: "NewFilter Compile cfg = Inr f"
  show "let excluded =
            ((\<exists>kv \<in> set (excludeLabels f). \<exists>cv. Container.Labels c (fst kv) = Some cv \<and>
                (snd kv = [] \<or> cv = snd kv)) \<or>
             (\<exists>re \<in> set (excludeNames f). re (Container.Name c)) \<or>
             (\<exists>re \<in> set (excludeImages f). re (Container.Image' c)));
          included =
            ((\<exists>kv \<in> set (includeLabels f). \<exists>cv. Container.Labels c (fst kv) = Some cv \<and>
                (snd kv = [] \<or> cv = snd kv)) \<or>
             (\<exists>re \<in> set (includeNames f). re (Container.Name c)) \<or>
             (\<exists>re \<in> set (includeImages f). re (Container.Image' c)));
          noIncludes = (includeLabels f = [] \<and> includeNames f = [] \<and> includeImages f = [])
      in Match f c = (if excluded then False else if noIncludes then True else included)"
    unfolding Let_def Match_unfold NewFilter_hasIncludes [OF nf] matchesAny_iff matchesLabels_iff
    by auto
next
  show "\<exists>f0. NewFilter Compile
            \<lparr>Include = \<lparr>FilterSet.Labels = [], Names = [], Images = []\<rparr>,
             Exclude = \<lparr>FilterSet.Labels = [], Names = [], Images = []\<rparr>\<rparr> = Inr f0 \<and>
         (\<forall>c0. Match f0 c0)"
    unfolding NewFilter_empty by (simp add: Match_def)
qed

theorem Match_exclude_wins_witness:
  "NewFilter exampleCompile exampleFiltersConfig = Inr exampleFilter \<and>
   \<not> Match exampleFilter (exampleContainer ''abc123def456'' ''secret-service'' ''running'') \<and>
   Match exampleFilter (exampleContainer ''abc123def456'' ''web-app'' ''running'')"
proof -
  have nf: "NewFilter exampleCompile exampleFiltersConfig = Inr exampleFilter"
    by (simp add: NewFilter_def exampleFiltersConfig_def exampleFilter_def exampleCompile_def
        parseLabels_def compilePatterns_def)
  show ?thesis
    using nf
      Match_exclude_wins [of exampleCompile exampleFiltersConfig exampleFilter
        "exampleContainer ''abc123def456'' ''secret-service'' ''running''"]
      Match_exclude_wins [of exampleCompile exampleFiltersConfig exampleFilter
        "exampleContainer ''abc123def456'' ''web-app'' ''running''"]
    by (simp add: exampleFilter_def exampleContainer_def literalPrefix_def)
qed

section \<open>Properties of the cache\<close>

lemma cacheAfter_snoc: "cacheAfter d e (ops @ [x]) = applyOp x (cacheAfter d e ops)"
  by (simp add: cacheAfter_def)

lemma applyOp_kept: "enabled (applyOp x c) = enabled c \<and> ttl (applyOp x c) = ttl c"
  by (cases x) (simp_all add: Get_def Set_def Evict_def EvictStale_def split: option.split)

lemma applyOp_disabled:
  "\<not> enabled c \<Longrightarrow> entries c = Map.empty \<Longrightarrow> entries (applyOp x c) = Map.empty"
  by (cases x) (simp_all add: Get_def Set_def Evict_def EvictStale_def)

lemma cacheAfter_kept: "enabled (cacheAfter d e ops) = e \<and> ttl (cacheAfter d e ops) = d"
  by (induction ops rule: rev_induct)
    (simp_all add: cacheAfter_snoc applyOp_kept, simp add: cacheAfter_def NewStatsCache_def)

lemma cacheAfter_disabled: "entries (cacheAfter d False ops) = Map.empty"
proof (induction ops rule: rev_induct)
  case Nil
  then show ?case by (simp add: cacheAfter_def NewStatsCache_def)
next
  case (snoc x ops)
  then show ?case
    using applyOp_disabled [of "cacheAfter d False ops" x]
    by (simp add: cacheAfter_snoc cacheAfter_kept)
qed

lemma Get_result:
  "enabled c \<or> entries c = Map.empty \<Longrightarrow>
    fst (Get c now k) =
      (case entries c k of
         None \<Rightarrow> (None, False)
       | Some entry \<Rightarrow>
           if now - timestamp entry > ttl c then (None, False)
           else (cacheEntry.stats entry, True))"
  by (auto simp: Get_def Sub_def split: option.split)

lemma Get_entries: "entries (snd (Get c now k)) = entries c"
  by (simp add: Get_def split: option.split)

text \<open>
  C4. For a cache with the TTL \<open>d\<close>, after any calls of its methods, and every key: \<open>Get\<close>
  reports a miss iff the key is absent or the age of its entry, \<open>now - storedAt\<close>, exceeds
  \<open>d\<close>, and otherwise it returns the stored Stats as found. \<open>Get\<close> leaves the entries as
  they are, so it does not remove an expired entry. With a TTL of 10 ms, an entry set at
  \<open>t0\<close> is a miss at \<open>t0\<close> + 20 ms, where it is still stored, and a hit at \<open>t0\<close> + 5 ms.
\<close>

theorem Get_found_iff_fresh:
  "(let c = cacheAfter d e ops in
     fst (Get c now k) =
       (case entries c k of
          None \<Rightarrow> (None, False)
        | Some entry \<Rightarrow>
            if now - timestamp entry > d then (None, False)
            else (cacheEntry.stats entry, True)) \<and>
     (\<not> snd (fst (Get c now k))) =
       (entries c k = None \<or> (\<exists>entry. entries c k = Some entry \<and> now - timestamp entry > d)) \<and>
     entries (snd (Get c now k)) = entries c) \<and>
   fst (Get (Set (NewStatsCache 10000000 True) t0 k st) (t0 + 20000000) k) = (None, False) \<and>
   entries (snd (Get (Set (NewStatsCache 10000000 True) t0 k st) (t0 + 20000000) k)) k =
     Some \<lparr>cacheEntry.stats = st, timestamp = t0\<rparr> \<and>
   fst (Get (Set (NewStatsCache 10000000 True) t0 k st) (t0 + 5000000) k) = (st, True)"
proof -
  let ?c = "cacheAfter d e ops"
  have inv: "enabled ?c \<or> entries ?c = Map.empty"
    using cacheAfter_kept [of d e ops] cacheAfter_disabled [of d ops] by (cases e) simp_all
  have g: "fst (Get ?c now k) =
       (case entries ?c k of
          None \<Rightarrow> (None, False)
        | Some entry \<Rightarrow>
            if now - timestamp entry > d then (None, False)
            else (cacheEntry.stats entry, True))"
    using Get_result [OF inv, of now k] cacheAfter_kept [of d e ops]
    by (simp split: option.split)
  have f: "(\<not> snd (fst (Get ?c now k))) =
       (entries ?c k = None \<or> (\<exists>entry. entries ?c k = Some entry \<and> now - timestamp entry > d))"
    unfolding g by (auto split: option.split)
  have ex: "fst (Get (Set (NewStatsCache 10000000 True) t0 k st) (t0 + 20000000) k) = (None, False)"
    "entries (snd (Get (Set (NewStatsCache 10000000 True) t0 k st) (t0 + 20000000) k)) k =
       Some \<lparr>cacheEntry.stats = st, timestamp = t0\<rparr>"
    "fst (Get (Set (NewStatsCache 10000000 True) t0 k st) (t0 + 5000000) k) = (st, True)"
    by (simp_all add: Get_def Set_def NewStatsCache_def Sub_def)
  show ?thesis
    unfolding Let_def using g f ex Get_entries [of ?c now k] by blast
qed

text \<open>
  C5. A cache constructed in disabled mode, after any calls of its methods, stores nothing:
  every \<open>Get\<close> reports a miss and adds one to the miss counter, changing nothing else, and
  every \<open>Set\<close> leaves the cache as it is, so that a \<open>Set\<close> followed by a \<open>Get\<close> of the same
  key is a miss. The miss does not depend on the storage: \<open>Get\<close> answers it for any
  disabled cache value, whatever its entries.
\<close>

theorem disabled_cache_bypass:
  "(let c = cacheAfter d False ops in
     Get c now k = ((None, False), c\<lparr>misses := misses c + 1\<rparr>) \<and>
     Set c t k st = c \<and>
     entries c = Map.empty \<and>
     fst (Get (Set c t k st) now k) = (None, False) \<and>
     misses (snd (Get (Set c t k st) now k)) = misses c + 1 \<and>
     hits (snd (Get (Set c t k st) now k)) = hits c) \<and>
   Get (c'\<lparr>enabled := False\<rparr>) now k =
     ((None, False), c'\<lparr>enabled := False, misses := misses c' + 1\<rparr>) \<and>
   Set (c'\<lparr>enabled := False\<rparr>) t k st = c'\<lparr>enabled := False\<rparr>"
  using cacheAfter_kept [of d False ops] cacheAfter_disabled [of d ops]
  by (simp add: Let_def Get_def Set_def)

section \<open>Properties of the collector\<close>

lemma desc_arity:
  "length (variableLabels metrics_MemoryUsage) = 4"
  "length (variableLabels metrics_MemoryLimit) = 4"
  "length (variableLabels metrics_MemoryCache) = 4"
  "length (variableLabels metrics_MemoryRSS) = 4"
  "length (variableLabels metrics_MemorySwap) = 4"
  "length (variableLabels metrics_MemoryWorkingSet) = 4"
  "length (variableLabels metrics_MemoryFailcnt) = 4"
  "length (variableLabels metrics_CPUUsageTotal) = 4"
  "length (variableLabels metrics_CPUUsageSystem) = 4"
  "length (variableLabels metrics_CPUUsageUser) = 4"
  "length (variableLabels metrics_CPUThrottledPeriods) = 4"
  "length (variableLabels metrics_CPUThrottledTime) = 4"
  "length (variableLabels metrics_ContainerLastSeen) = 4"
  "length (variableLabels metrics_ContainerStartTime) = 4"
  "length (variableLabels metrics_ContainerUptime) = 4"
  "length (variableLabels metrics_ContainerHealthStatus) = 4"
  "length (variableLabels metrics_ContainerRestartCount) = 4"
  "length (variableLabels metrics_ContainerExitCode) = 4"
  "length (variableLabels metrics_PIDsCurrent) = 4"
  "length (variableLabels metrics_NetworkRxBytes) = 5"
  "length (variableLabels metrics_NetworkTxBytes) = 5"
  "length (variableLabels metrics_NetworkRxPackets) = 5"
  "length (variableLabels metrics_NetworkTxPackets) = 5"
  "length (variableLabels metrics_NetworkRxErrors) = 5"
  "length (variableLabels metrics_NetworkTxErrors) = 5"
  "length (variableLabels metrics_NetworkRxDropped) = 5"
  "length (variableLabels metrics_NetworkTxDropped) = 5"
  "length (variableLabels metrics_FSReadBytes) = 5"
  "length (variableLabels metrics_FSWriteBytes) = 5"
  "length (variableLabels metrics_FSReadOps) = 5"
  "length (variableLabels metrics_FSWriteOps) = 5"
  "length (variableLabels metrics_ContainerInfo) = 8"
  "length (variableLabels metrics_ExporterScrapeDuration) = 1"
  "length (variableLabels metrics_ExporterScrapeErrors) = 1"
  by (simp_all add: NewDesc_def containerLabelNames_def networkLabelNames_def
      blockIOLabelNames_def infoLabelNames_def
      metrics_MemoryUsage_def metrics_MemoryLimit_def metrics_MemoryCache_def
      metrics_MemoryRSS_def metrics_MemorySwap_def metrics_MemoryWorkingSet_def
      metrics_MemoryFailcnt_def metrics_CPUUsageTotal_def metrics_CPUUsageSystem_def
      metrics_CPUUsageUser_def metrics_CPUThrottledPeriods_def
      metrics_CPUThrottledTime_def metrics_NetworkRxBytes_def
      metrics_NetworkTxBytes_def metrics_NetworkRxPackets_def
      metrics_NetworkTxPackets_def metrics_NetworkRxErrors_def
      metrics_NetworkTxErrors_def metrics_NetworkRxDropped_def
      metrics_NetworkTxDropped_def metrics_FSReadBytes_def metrics_FSWriteBytes_def
      metrics_FSReadOps_def metrics_FSWriteOps_def metrics_ContainerLastSeen_def
      metrics_ContainerStartTime_def metrics_ContainerUptime_def
      metrics_ContainerInfo_def metrics_ContainerHealthStatus_def
      metrics_ContainerRestartCount_def metrics_ContainerExitCode_def
      metrics_ExporterScrapeDuration_def metrics_ExporterScrapeErrors_def
      metrics_PIDsCurrent_def)

lemma SendSafe_alt: "SendSafe ch m = ch @ (case m of None \<Rightarrow> [] | Some x \<Rightarrow> [x])"
  by (cases m) (simp_all add: SendSafe_def)

text \<open>A metric is made iff the number of its label values fits and all of them are valid.\<close>

lemma SafeNewConstMetric_eq:
  "SafeNewConstMetric d vt v lvs =
    (if length lvs = length (variableLabels d) \<and> list_all ValidString lvs
     then Some (ConstMetric d vt v lvs) else None)"
  by (simp add: SafeNewConstMetric_def NewConstMetric_def)

lemma SafeNewConstMetric_mismatch:
  "length lvs \<noteq> length (variableLabels d) \<Longrightarrow>
    SendSafe ch (SafeNewConstMetric d vt v lvs) = ch"
  by (simp add: SafeNewConstMetric_eq SendSafe_def)

lemma length_Values: "length (Values l) = 4"
  by (simp add: Values_def)

lemma Values_valid: "list_all ValidString (Values (ExtractLabels c))"
  by (simp add: Values_def ExtractLabels_def ValidString_SanitizeLabelValue)

text \<open>Every emit function appends to the channel that it is given.\<close>

lemma emitMemoryMetrics_app: "emitMemoryMetrics ch s lv = ch @ emitMemoryMetrics [] s lv"
  by (simp add: emitMemoryMetrics_def Let_def SendSafe_alt)

lemma emitCPUMetrics_app: "emitCPUMetrics ch s lv = ch @ emitCPUMetrics [] s lv"
  by (simp add: emitCPUMetrics_def Let_def SendSafe_alt)

lemma emitPIDsMetrics_app: "emitPIDsMetrics ch s lv = ch @ emitPIDsMetrics [] s lv"
  by (simp add: emitPIDsMetrics_def Let_def SendSafe_alt)

lemma emitInterface_app: "emitInterface lv entry ch = ch @ emitInterface lv entry []"
  by (simp add: emitInterface_def Let_def SendSafe_alt)

lemma emitDevice_app: "emitDevice lv entry ch = ch @ emitDevice lv entry []"
  by (simp add: emitDevice_def Let_def SendSafe_alt)

lemma fold_app:
  assumes "\<And>x ch. f x ch = ch @ f x []"
  shows "fold f xs ch = ch @ concat (map (\<lambda>x. f x []) xs)"
proof (induction xs arbitrary: ch)
  case Nil
  then show ?case by simp
next
  case (Cons x xs)
  have "fold f (x # xs) ch = fold f xs (f x ch)" by simp
  also have "\<dots> = f x ch @ concat (map (\<lambda>x. f x []) xs)" by (rule Cons.IH)
  also have "\<dots> = ch @ f x [] @ concat (map (\<lambda>x. f x []) xs)"
    using assms [of x ch] by simp
  finally show ?case by simp
qed

lemma emitNetworkMetrics_eq:
  "emitNetworkMetrics ch s lv = ch @ concat (map (\<lambda>e. emitInterface lv e []) (Stats.Networks s))"
  unfolding emitNetworkMetrics_def by (rule fold_app) (rule emitInterface_app)

lemma emitBlockIOMetrics_eq:
  "emitBlockIOMetrics ch s lv = ch @ concat (map (\<lambda>e. emitDevice lv e []) (BlockIO s))"
  unfolding emitBlockIOMetrics_def by (rule fold_app) (rule emitDevice_app)

lemma emitNetworkMetrics_app: "emitNetworkMetrics ch s lv = ch @ emitNetworkMetrics [] s lv"
  using emitNetworkMetrics_eq [of ch s lv] emitNetworkMetrics_eq [of "[]" s lv] by simp

lemma emitBlockIOMetrics_app: "emitBlockIOMetrics ch s lv = ch @ emitBlockIOMetrics [] s lv"
  using emitBlockIOMetrics_eq [of ch s lv] emitBlockIOMetrics_eq [of "[]" s lv] by simp

lemma emitSelfMetrics_app:
  "emitSelfMetrics ch start now n = ch @ emitSelfMetrics [] start now n"
  by (simp add: emitSelfMetrics_def Let_def SendSafe_alt)

lemma emitStateMetrics_app:
  "emitStateMetrics rt ch ctr lv now = map_outcome ((@) ch) (emitStateMetrics rt [] ctr lv now)"
  by (simp add: emitStateMetrics_def Let_def SendSafe_alt split: sum.split)

text \<open>The state metrics of a container: a panic iff its ID has fewer than 12 bytes.\<close>

lemma emitStateMetrics_short:
  "length (Container.ID ctr) < 12 \<Longrightarrow>
    \<exists>sm. emitStateMetrics rt ch ctr lv now =
      Panicked (SliceBoundsOutOfRange 12 (length (Container.ID ctr))) sm"
  by (simp add: emitStateMetrics_def Let_def slicePrefix_def)

lemma emitStateMetrics_long:
  "12 \<le> length (Container.ID ctr) \<Longrightarrow> \<exists>sm. emitStateMetrics rt ch ctr lv now = Returned sm"
  by (simp add: emitStateMetrics_def Let_def slicePrefix_def)

lemma emitStateMetrics_not_Blocked: "emitStateMetrics rt ch ctr lv now \<noteq> Blocked sm"
  by (simp add: emitStateMetrics_def Let_def split: sum.split)

text \<open>The metrics of each emit function, for four valid label values.\<close>

lemma emitMemoryMetrics_list:
  "length lv = 4 \<Longrightarrow> list_all ValidString lv \<Longrightarrow> emitMemoryMetrics [] s lv =
    [ConstMetric metrics_MemoryUsage GaugeValue (FromUint64 (MemoryUsage s)) lv,
      ConstMetric metrics_MemoryLimit GaugeValue (FromUint64 (MemoryLimit s)) lv,
      ConstMetric metrics_MemoryCache GaugeValue (FromUint64 (MemoryCache s)) lv,
      ConstMetric metrics_MemoryRSS GaugeValue (FromUint64 (MemoryRSS s)) lv,
      ConstMetric metrics_MemorySwap GaugeValue (FromUint64 (MemorySwap s)) lv,
      ConstMetric metrics_MemoryWorkingSet GaugeValue (FromUint64 (MemoryWorkingSet s)) lv,
      ConstMetric metrics_MemoryFailcnt GaugeValue (FromUint64 (MemoryFailcnt s)) lv]"
  by (simp add: emitMemoryMetrics_def Let_def SendSafe_alt SafeNewConstMetric_eq desc_arity)

lemma emitCPUMetrics_list:
  "length lv = 4 \<Longrightarrow> list_all ValidString lv \<Longrightarrow> emitCPUMetrics [] s lv =
    [ConstMetric metrics_CPUUsageTotal CounterValue
        (Times (FromUint64 (CPUUsageTotal s)) NanosecondsToSeconds) lv,
      ConstMetric metrics_CPUUsageSystem CounterValue
        (Times (FromUint64 (CPUUsageSystem s)) NanosecondsToSeconds) lv,
      ConstMetric metrics_CPUUsageUser CounterValue
        (Times (FromUint64 (CPUUsageUser s)) NanosecondsToSeconds) lv,
      ConstMetric metrics_CPUThrottledPeriods CounterValue (FromUint64 (CPUThrottledPeriods s)) lv,
      ConstMetric metrics_CPUThrottledTime CounterValue
        (Times (FromUint64 (CPUThrottledTime s)) NanosecondsToSeconds) lv]"
  by (simp add: emitCPUMetrics_def Let_def SendSafe_alt SafeNewConstMetric_eq desc_arity)

lemma emitInterface_list:
  "length lv = 4 \<Longrightarrow> list_all ValidString lv \<Longrightarrow> emitInterface lv e [] =
    (if ValidString (fst e)
     then [ConstMetric metrics_NetworkRxBytes CounterValue
             (FromUint64 (RxBytes (snd e))) (lv @ [fst e]),
           ConstMetric metrics_NetworkTxBytes CounterValue
             (FromUint64 (TxBytes (snd e))) (lv @ [fst e]),
           ConstMetric metrics_NetworkRxPackets CounterValue
             (FromUint64 (RxPackets (snd e))) (lv @ [fst e]),
           ConstMetric metrics_NetworkTxPackets CounterValue
             (FromUint64 (TxPackets (snd e))) (lv @ [fst e]),
           ConstMetric metrics_NetworkRxErrors CounterValue
             (FromUint64 (RxErrors (snd e))) (lv @ [fst e]),
           ConstMetric metrics_NetworkTxErrors CounterValue
             (FromUint64 (TxErrors (snd e))) (lv @ [fst e]),
           ConstMetric metrics_NetworkRxDropped CounterValue
             (FromUint64 (RxDropped (snd e))) (lv @ [fst e]),
           ConstMetric metrics_NetworkTxDropped CounterValue
             (FromUint64 (TxDropped (snd e))) (lv @ [fst e])]
     else [])"
  by (simp add: emitInterface_def Let_def SendSafe_alt SafeNewConstMetric_eq desc_arity)

lemma emitDevice_list:
  "length lv = 4 \<Longrightarrow> list_all ValidString lv \<Longrightarrow> emitDevice lv e [] =
    (if ValidString (fst e)
     then [ConstMetric metrics_FSReadBytes CounterValue
             (FromUint64 (ReadBytes (snd e))) (lv @ [fst e]),
           ConstMetric metrics_FSWriteBytes CounterValue
             (FromUint64 (WriteBytes (snd e))) (lv @ [fst e]),
           ConstMetric metrics_FSReadOps CounterValue
             (FromUint64 (ReadOps (snd e))) (lv @ [fst e]),
           ConstMetric metrics_FSWriteOps CounterValue
             (FromUint64 (WriteOps (snd e))) (lv @ [fst e])]
     else [])"
  by (simp add: emitDevice_def Let_def SendSafe_alt SafeNewConstMetric_eq desc_arity)

lemma emitPIDsMetrics_list:
  "length lv = 4 \<Longrightarrow> list_all ValidString lv \<Longrightarrow> emitPIDsMetrics [] s lv =
    [ConstMetric metrics_PIDsCurrent GaugeValue (FromUint64 (PIDsCurrent s)) lv]"
  by (simp add: emitPIDsMetrics_def SendSafe_alt SafeNewConstMetric_eq desc_arity)

lemma ValidString_container: "ValidString ''container''"
  by (rule ValidString_ascii) simp

lemma emitSelfMetrics_list:
  "emitSelfMetrics [] start now n =
    [ConstMetric metrics_ExporterScrapeDuration GaugeValue (Seconds (now - start)) [''container''],
     ConstMetric metrics_ExporterScrapeErrors CounterValue (FromInt n) [''container'']]"
  by (simp add: emitSelfMetrics_def Let_def SendSafe_alt SafeNewConstMetric_eq desc_arity Sub_def ValidString_container)

lemma emitStateMetrics_list:
  "length lv = 4 \<Longrightarrow> list_all ValidString lv \<Longrightarrow> 12 \<le> length (Container.ID ctr) \<Longrightarrow>
    emitStateMetrics rt [] ctr lv now = Returned
     ([ConstMetric metrics_ContainerLastSeen GaugeValue (FromInt (Unix now)) lv] @
      (if IsZero (Container.StartedAt ctr) then []
       else [ConstMetric metrics_ContainerStartTime GaugeValue
               (FromInt (Unix (Container.StartedAt ctr))) lv,
             ConstMetric metrics_ContainerUptime GaugeValue
               (Seconds (now - Container.StartedAt ctr)) lv]) @
      (if list_all ValidString
            [take 12 (Container.ID ctr), Container.Status ctr, Container.Health ctr,
             formatRFC3339 rt (Container.StartedAt ctr)]
       then [ConstMetric metrics_ContainerInfo GaugeValue (FromInt 1)
               (lv @ [take 12 (Container.ID ctr), Container.Status ctr, Container.Health ctr,
                      formatRFC3339 rt (Container.StartedAt ctr)])]
       else []) @
      [ConstMetric metrics_ContainerHealthStatus GaugeValue
         (HealthStatusToFloat (Container.Health ctr)) lv,
       ConstMetric metrics_ContainerRestartCount GaugeValue
         (FromInt (Container.RestartCount ctr)) lv,
       ConstMetric metrics_ContainerExitCode GaugeValue (FromInt (Container.ExitCode ctr)) lv])"
  by (simp add: emitStateMetrics_def Let_def SendSafe_alt SafeNewConstMetric_eq desc_arity slicePrefix_def Sub_def)

lemma emitStateMetrics_short_list:
  "length lv = 4 \<Longrightarrow> list_all ValidString lv \<Longrightarrow> length (Container.ID ctr) < 12 \<Longrightarrow>
    emitStateMetrics rt [] ctr lv now =
      Panicked (SliceBoundsOutOfRange 12 (length (Container.ID ctr)))
        ([ConstMetric metrics_ContainerLastSeen GaugeValue (FromInt (Unix now)) lv] @
         (if IsZero (Container.StartedAt ctr) then []
          else [ConstMetric metrics_ContainerStartTime GaugeValue
                  (FromInt (Unix (Container.StartedAt ctr))) lv,
                ConstMetric metrics_ContainerUptime GaugeValue
                  (Seconds (now - Container.StartedAt ctr)) lv]))"
  by (simp add: emitStateMetrics_def Let_def SendSafe_alt SafeNewConstMetric_eq desc_arity slicePrefix_def Sub_def)

lemma resource_list:
  "length lv = 4 \<Longrightarrow> list_all ValidString lv \<Longrightarrow>
    emitMemoryMetrics [] s lv @ emitCPUMetrics [] s lv @ emitNetworkMetrics [] s lv @
    emitBlockIOMetrics [] s lv @ emitPIDsMetrics [] s lv =
    [ConstMetric metrics_MemoryUsage GaugeValue (FromUint64 (MemoryUsage s)) lv,
     ConstMetric metrics_MemoryLimit GaugeValue (FromUint64 (MemoryLimit s)) lv,
     ConstMetric metrics_MemoryCache GaugeValue (FromUint64 (MemoryCache s)) lv,
     ConstMetric metrics_MemoryRSS GaugeValue (FromUint64 (MemoryRSS s)) lv,
     ConstMetric metrics_MemorySwap GaugeValue (FromUint64 (MemorySwap s)) lv,
     ConstMetric metrics_MemoryWorkingSet GaugeValue (FromUint64 (MemoryWorkingSet s)) lv,
     ConstMetric metrics_MemoryFailcnt GaugeValue (FromUint64 (MemoryFailcnt s)) lv] @
    [ConstMetric metrics_CPUUsageTotal CounterValue
       (Times (FromUint64 (CPUUsageTotal s)) NanosecondsToSeconds) lv,
     ConstMetric metrics_CPUUsageSystem CounterValue
       (Times (FromUint64 (CPUUsageSystem s)) NanosecondsToSeconds) lv,
     ConstMetric metrics_CPUUsageUser CounterValue
       (Times (FromUint64 (CPUUsageUser s)) NanosecondsToSeconds) lv,
     ConstMetric metrics_CPUThrottledPeriods CounterValue (FromUint64 (CPUThrottledPeriods s)) lv,
     ConstMetric metrics_CPUThrottledTime CounterValue
       (Times (FromUint64 (CPUThrottledTime s)) NanosecondsToSeconds) lv] @
    concat (map (\<lambda>e.
       if ValidString (fst e)
       then [ConstMetric metrics_NetworkRxBytes CounterValue
               (FromUint64 (RxBytes (snd e))) (lv @ [fst e]),
             ConstMetric metrics_NetworkTxBytes CounterValue
               (FromUint64 (TxBytes (snd e))) (lv @ [fst e]),
             ConstMetric metrics_NetworkRxPackets CounterValue
               (FromUint64 (RxPackets (snd e))) (lv @ [fst e]),
             ConstMetric metrics_NetworkTxPackets CounterValue
               (FromUint64 (TxPackets (snd e))) (lv @ [fst e]),
             ConstMetric metrics_NetworkRxErrors CounterValue
               (FromUint64 (RxErrors (snd e))) (lv @ [fst e]),
             ConstMetric metrics_NetworkTxErrors CounterValue
               (FromUint64 (TxErrors (snd e))) (lv @ [fst e]),
             ConstMetric metrics_NetworkRxDropped CounterValue
               (FromUint64 (RxDropped (snd e))) (lv @ [fst e]),
             ConstMetric metrics_NetworkTxDropped CounterValue
               (FromUint64 (TxDropped (snd e))) (lv @ [fst e])]
       else [])
      (Stats.Networks s)) @
    concat (map (\<lambda>e.
       if ValidString (fst e)
       then [ConstMetric metrics_FSReadBytes CounterValue
               (FromUint64 (ReadBytes (snd e))) (lv @ [fst e]),
             ConstMetric metrics_FSWriteBytes CounterValue
               (FromUint64 (WriteBytes (snd e))) (lv @ [fst e]),
             ConstMetric metrics_FSReadOps CounterValue
               (FromUint64 (ReadOps (snd e))) (lv @ [fst e]),
             ConstMetric metrics_FSWriteOps CounterValue
               (FromUint64 (WriteOps (snd e))) (lv @ [fst e])]
       else [])
      (BlockIO s)) @
    [ConstMetric metrics_PIDsCurrent GaugeValue (FromUint64 (PIDsCurrent s)) lv]"
  by (simp add: emitMemoryMetrics_list emitCPUMetrics_list emitPIDsMetrics_list
      emitNetworkMetrics_eq emitBlockIOMetrics_eq emitInterface_list emitDevice_list
      cong: if_cong)

text \<open>One iteration of the emission loop, and the loop.\<close>

lemma resource_app:
  "emitPIDsMetrics (emitBlockIOMetrics (emitNetworkMetrics (emitCPUMetrics
      (emitMemoryMetrics ch s lv) s lv) s lv) s lv) s lv =
    ch @ emitMemoryMetrics [] s lv @ emitCPUMetrics [] s lv @ emitNetworkMetrics [] s lv @
    emitBlockIOMetrics [] s lv @ emitPIDsMetrics [] s lv"
proof -
  let ?M = "emitMemoryMetrics [] s lv" and ?C = "emitCPUMetrics [] s lv"
  let ?N = "emitNetworkMetrics [] s lv" and ?B = "emitBlockIOMetrics [] s lv"
  have 1: "emitMemoryMetrics ch s lv = ch @ ?M" by (rule emitMemoryMetrics_app)
  have 2: "emitCPUMetrics (ch @ ?M) s lv = (ch @ ?M) @ ?C" by (rule emitCPUMetrics_app)
  have 3: "emitNetworkMetrics ((ch @ ?M) @ ?C) s lv = ((ch @ ?M) @ ?C) @ ?N"
    by (rule emitNetworkMetrics_app)
  have 4: "emitBlockIOMetrics (((ch @ ?M) @ ?C) @ ?N) s lv = (((ch @ ?M) @ ?C) @ ?N) @ ?B"
    by (rule emitBlockIOMetrics_app)
  have 5: "emitPIDsMetrics ((((ch @ ?M) @ ?C) @ ?N) @ ?B) s lv =
      ((((ch @ ?M) @ ?C) @ ?N) @ ?B) @ emitPIDsMetrics [] s lv"
    by (rule emitPIDsMetrics_app)
  show ?thesis unfolding 1 2 3 4 5 by (simp only: append_assoc)
qed

lemma emitResults_Cons:
  "emitResults rt now (r # rs) (ch, n) =
    (if err r \<noteq> None then emitResults rt now rs (ch, n + 1)
     else
       (case emitStateMetrics rt [] (container r) (Values (ExtractLabels (container r))) now of
          Panicked p sm \<Rightarrow> Panicked p (ch @ sm, n)
        | Blocked sm \<Rightarrow> Blocked (ch @ sm, n)
        | Returned sm \<Rightarrow>
            emitResults rt now rs
              (ch @ sm @
                 (case result.stats r of
                    None \<Rightarrow> []
                  | Some s \<Rightarrow>
                      emitMemoryMetrics [] s (Values (ExtractLabels (container r))) @
                      emitCPUMetrics [] s (Values (ExtractLabels (container r))) @
                      emitNetworkMetrics [] s (Values (ExtractLabels (container r))) @
                      emitBlockIOMetrics [] s (Values (ExtractLabels (container r))) @
                      emitPIDsMetrics [] s (Values (ExtractLabels (container r)))), n)))"
proof (cases "err r \<noteq> None")
  case True
  then show ?thesis by simp
next
  case False
  let ?lv = "Values (ExtractLabels (container r))"
  have st: "emitStateMetrics rt ch (container r) ?lv now =
      map_outcome ((@) ch) (emitStateMetrics rt [] (container r) ?lv now)"
    by (rule emitStateMetrics_app)
  show ?thesis
  proof (cases "emitStateMetrics rt [] (container r) ?lv now")
    case (Panicked p sm)
    then show ?thesis using False st by (simp add: Let_def)
  next
    case (Blocked sm)
    then show ?thesis using False st by (simp add: Let_def)
  next
    case (Returned sm)
    show ?thesis
    proof (cases "result.stats r")
      case None
      then show ?thesis using False st Returned by (simp add: Let_def)
    next
      case (Some s)
      then show ?thesis
        using False st Returned resource_app [of "ch @ sm" s ?lv] by (simp add: Let_def)
    qed
  qed
qed

lemma emitted_eq:
  "emitted rt now r =
    (if err r \<noteq> None then []
     else
       (case emitStateMetrics rt [] (container r) (Values (ExtractLabels (container r))) now of
          Panicked p sm \<Rightarrow> sm
        | Blocked sm \<Rightarrow> sm
        | Returned sm \<Rightarrow>
            sm @
              (case result.stats r of
                 None \<Rightarrow> []
               | Some s \<Rightarrow>
                   emitMemoryMetrics [] s (Values (ExtractLabels (container r))) @
                   emitCPUMetrics [] s (Values (ExtractLabels (container r))) @
                   emitNetworkMetrics [] s (Values (ExtractLabels (container r))) @
                   emitBlockIOMetrics [] s (Values (ExtractLabels (container r))) @
                   emitPIDsMetrics [] s (Values (ExtractLabels (container r))))))"
  unfolding emitted_def emitResults_Cons by (simp split: outcome.split)

lemma emitResults_returns:
  "\<forall>r \<in> set rs. err r = None \<longrightarrow> 12 \<le> length (Container.ID (container r)) \<Longrightarrow>
    emitResults rt now rs (ch, n) =
      Returned (ch @ concat (map (emitted rt now) rs),
                n + int (length (List.filter (\<lambda>r. err r \<noteq> None) rs)))"
proof (induction rs arbitrary: ch n)
  case Nil
  then show ?case by simp
next
  case (Cons r rs)
  show ?case
  proof (cases "err r \<noteq> None")
    case True
    then show ?thesis
      using Cons.IH [of ch "n + 1"] Cons.prems
      by (simp add: emitResults_Cons emitted_eq del: emitResults.simps)
  next
    case False
    then have "12 \<le> length (Container.ID (container r))" using Cons.prems by simp
    then obtain sm where sm: "emitStateMetrics rt [] (container r)
        (Values (ExtractLabels (container r))) now = Returned sm"
      using emitStateMetrics_long by blast
    show ?thesis
      using False sm Cons.prems
      by (simp add: emitResults_Cons emitted_eq Cons.IH del: emitResults.simps)
  qed
qed

text \<open>The first short ID among the results without an error stops the loop with a panic.\<close>

lemma emitResults_panics:
  "r \<in> set rs \<Longrightarrow> err r = None \<Longrightarrow> length (Container.ID (container r)) < 12 \<Longrightarrow>
    \<exists>p acc. emitResults rt now rs (ch, n) = Panicked p acc"
proof (induction rs arbitrary: ch n)
  case Nil
  then show ?case by simp
next
  case (Cons x rs)
  show ?case
  proof (cases "err x \<noteq> None")
    case True
    then have "r \<in> set rs" using Cons.prems by auto
    then show ?thesis
      using True Cons.IH [of ch "n + 1"] Cons.prems
      by (simp add: emitResults_Cons del: emitResults.simps)
  next
    case False
    show ?thesis
    proof (cases "emitStateMetrics rt [] (container x) (Values (ExtractLabels (container x))) now")
      case (Panicked p sm)
      then show ?thesis using False by (simp add: emitResults_Cons del: emitResults.simps)
    next
      case (Blocked sm)
      then show ?thesis using emitStateMetrics_not_Blocked by blast
    next
      case (Returned sm)
      then have "x \<noteq> r"
        using emitStateMetrics_short [of "container r" rt "[]"
            "Values (ExtractLabels (container r))" now] Cons.prems
        by auto
      then have "r \<in> set rs" using Cons.prems by auto
      then show ?thesis
        using False Returned Cons.IH Cons.prems
        by (simp add: emitResults_Cons del: emitResults.simps)
    qed
  qed
qed

text \<open>
  The loop that fills the results: with a positive limit on the fetches in flight it comes
  to its end, with one result for each container.
\<close>

lemma dispatch_returns:
  "1 \<le> maxConcurrent c \<Longrightarrow> is_Returned (dispatch c rt i xs (rs, w))"
  by (induction xs arbitrary: i rs w) (simp_all add: Let_def)

lemma dispatch_containers:
  "1 \<le> maxConcurrent c \<Longrightarrow>
    map container (fst (final (dispatch c rt i xs (rs, w)))) = map container rs @ xs"
  by (induction xs arbitrary: i rs w) (simp_all add: Let_def)

lemma dispatch_sent: "sent (snd (final (dispatch c rt i xs (rs, w)))) = sent w"
  by (induction xs arbitrary: i rs w) (simp_all add: Let_def cacheGet_def cacheSet_def)

lemma dispatch_calls:
  "\<exists>cs. calls (snd (final (dispatch c rt i xs (rs, w)))) = calls w @ cs \<and>
     (\<forall>e \<in> set cs. fst e \<noteq> CallEvictStale \<and> snd e = length (sent w))"
proof (induction xs arbitrary: i rs w)
  case Nil
  then show ?case by simp
next
  case (Cons x xs)
  have step: "\<exists>cs. calls (snd (final (dispatch c rt (Suc i) xs (rs', w')))) = calls w @ cs \<and>
      (\<forall>e \<in> set cs. fst e \<noteq> CallEvictStale \<and> snd e = length (sent w))"
    if "sent w' = sent w" and "\<exists>cs0. calls w' = calls w @ cs0 \<and>
      (\<forall>e \<in> set cs0. fst e \<noteq> CallEvictStale \<and> snd e = length (sent w))" for rs' w'
  proof -
    from that(2) obtain cs0 where a: "calls w' = calls w @ cs0"
        "\<forall>e \<in> set cs0. fst e \<noteq> CallEvictStale \<and> snd e = length (sent w)" by blast
    from Cons.IH [of "Suc i" rs' w'] obtain cs1
      where b: "calls (snd (final (dispatch c rt (Suc i) xs (rs', w')))) = calls w' @ cs1"
        "\<forall>e \<in> set cs1. fst e \<noteq> CallEvictStale \<and> snd e = length (sent w')" by blast
    from a b that(1) show ?thesis by (intro exI [of _ "cs0 @ cs1"]) auto
  qed
  show ?case
    by (simp add: Let_def) (intro conjI impI step; simp add: cacheGet_def cacheSet_def)
qed

lemma dispatch_not_running:
  "Container.State ctr \<noteq> ''running'' \<Longrightarrow>
    dispatch c rt i (ctr # xs) (rs, w) =
      dispatch c rt (Suc i) xs (rs @ [\<lparr>container = ctr, stats = None, err = None\<rparr>], w)"
  by (simp add: Let_def)

lemma dispatch_hit:
  "Container.State ctr = ''running'' \<Longrightarrow>
    snd (fst (Get (cache w) (tGet rt i) (Container.ID ctr))) \<Longrightarrow>
    dispatch c rt i (ctr # xs) (rs, w) =
      dispatch c rt (Suc i) xs
        (rs @ [\<lparr>container = ctr,
                 stats = fst (fst (Get (cache w) (tGet rt i) (Container.ID ctr))),
                 err = None\<rparr>],
         snd (cacheGet w (tGet rt i) (Container.ID ctr)))"
  by (simp add: Let_def cacheGet_def)

lemma dispatch_miss:
  "1 \<le> maxConcurrent c \<Longrightarrow> Container.State ctr = ''running'' \<Longrightarrow>
    \<not> snd (fst (Get (cache w) (tGet rt i) (Container.ID ctr))) \<Longrightarrow>
    dispatch c rt i (ctr # xs) (rs, w) =
      dispatch c rt (Suc i) xs
        (rs @ [\<lparr>container = ctr,
                 stats = fst (GetContainerStats (client c) i (Container.ID ctr)),
                 err = snd (GetContainerStats (client c) i (Container.ID ctr))\<rparr>],
         if snd (GetContainerStats (client c) i (Container.ID ctr)) = None
         then cacheSet (snd (cacheGet w (tGet rt i) (Container.ID ctr))) (tSet rt i)
                (Container.ID ctr) (fst (GetContainerStats (client c) i (Container.ID ctr)))
         else snd (cacheGet w (tGet rt i) (Container.ID ctr)))"
  by (simp add: Let_def cacheGet_def)

lemma dispatch_step:
  assumes pos: "1 \<le> maxConcurrent c"
  shows "\<exists>r w'. dispatch c rt i (ctr # xs) (rs, w) = dispatch c rt (Suc i) xs (rs @ [r], w') \<and>
     (r = \<lparr>container = ctr, stats = None, err = None\<rparr> \<or>
      Container.State ctr = ''running'' \<and>
      (\<exists>st. r = \<lparr>container = ctr, stats = st, err = None\<rparr>) \<or>
      Container.State ctr = ''running'' \<and>
      r = \<lparr>container = ctr, stats = fst (GetContainerStats (client c) i (Container.ID ctr)),
           err = snd (GetContainerStats (client c) i (Container.ID ctr))\<rparr>)"
proof (cases "Container.State ctr \<noteq> ''running''")
  case True
  then show ?thesis using dispatch_not_running [of ctr c rt i xs rs w] by blast
next
  case running: False
  show ?thesis
  proof (cases "snd (fst (Get (cache w) (tGet rt i) (Container.ID ctr)))")
    case True
    then show ?thesis using running dispatch_hit [of ctr w rt i c xs rs] by blast
  next
    case False
    then show ?thesis using running dispatch_miss [OF pos, of ctr w rt i xs rs] by blast
  qed
qed

lemma dispatch_errors:
  assumes "\<forall>r \<in> set rs. P r"
    and pos: "1 \<le> maxConcurrent c"
    and "\<And>ctr. P \<lparr>container = ctr, stats = None, err = None\<rparr>"
    and "\<And>ctr st. Container.State ctr = ''running'' \<Longrightarrow>
        P \<lparr>container = ctr, stats = st, err = None\<rparr>"
    and "\<And>ctr j. Container.State ctr = ''running'' \<Longrightarrow>
        P \<lparr>container = ctr, stats = fst (GetContainerStats (client c) j (Container.ID ctr)),
           err = snd (GetContainerStats (client c) j (Container.ID ctr))\<rparr>"
  shows "\<forall>r \<in> set (fst (final (dispatch c rt i xs (rs, w)))). P r"
  using assms(1)
proof (induction xs arbitrary: i rs w)
  case Nil
  then show ?case by simp
next
  case (Cons x xs)
  obtain r w' where d: "dispatch c rt i (x # xs) (rs, w) = dispatch c rt (Suc i) xs (rs @ [r], w')"
    and r: "r = \<lparr>container = x, stats = None, err = None\<rparr> \<or>
      Container.State x = ''running'' \<and>
      (\<exists>st. r = \<lparr>container = x, stats = st, err = None\<rparr>) \<or>
      Container.State x = ''running'' \<and>
      r = \<lparr>container = x, stats = fst (GetContainerStats (client c) i (Container.ID x)),
           err = snd (GetContainerStats (client c) i (Container.ID x))\<rparr>"
    using dispatch_step [OF pos, of rt i x xs rs w] by blast
  have "P r" using r assms(3,4,5) by blast
  then have "\<forall>r \<in> set (rs @ [r]). P r" using Cons.prems by simp
  then show ?case unfolding d by (rule Cons.IH)
qed

text \<open>
  The results, from what the cycle is given. When the IDs of the containers are distinct,
  no \<open>Set\<close> of the loop changes what a later \<open>Get\<close> of the loop finds, and each result is
  fixed by the state of its container, the answer of the cache as it was when the loop
  started, and the answer of the client.
\<close>

lemma Get_same_view:
  "enabled sc' = enabled sc \<Longrightarrow> ttl sc' = ttl sc \<Longrightarrow> entries sc' k = entries sc k \<Longrightarrow>
    fst (Get sc' now k) = fst (Get sc now k)"
  by (simp add: Get_def split: option.split)

lemma Get_preserves:
  "enabled (snd (Get sc now k)) = enabled sc"
  "ttl (snd (Get sc now k)) = ttl sc"
  "entries (snd (Get sc now k)) = entries sc"
  by (simp_all add: Get_def split: option.split)

lemma Set_preserves:
  "enabled (Set sc now k st) = enabled sc"
  "ttl (Set sc now k st) = ttl sc"
  "k' \<noteq> k \<Longrightarrow> entries (Set sc now k st) k' = entries sc k'"
  by (simp_all add: Set_def)

lemma dispatch_results:
  assumes pos: "1 \<le> maxConcurrent c"
  shows "distinct (map Container.ID xs) \<Longrightarrow>
    enabled (cache w) = enabled sc \<Longrightarrow> ttl (cache w) = ttl sc \<Longrightarrow>
    \<forall>ctr \<in> set xs. entries (cache w) (Container.ID ctr) = entries sc (Container.ID ctr) \<Longrightarrow>
    fst (final (dispatch c rt i xs (rs, w))) =
      rs @ map (\<lambda>(j, ctr).
             if Container.State ctr \<noteq> ''running''
             then \<lparr>container = ctr, stats = None, err = None\<rparr>
             else if snd (fst (Get sc (tGet rt j) (Container.ID ctr)))
             then \<lparr>container = ctr,
                    stats = fst (fst (Get sc (tGet rt j) (Container.ID ctr))), err = None\<rparr>
             else \<lparr>container = ctr,
                    stats = fst (GetContainerStats (client c) j (Container.ID ctr)),
                    err = snd (GetContainerStats (client c) j (Container.ID ctr))\<rparr>)
           (enumerate i xs)"
proof (induction xs arbitrary: i rs w)
  case Nil
  then show ?case by simp
next
  case (Cons x xs)
  let ?k = "Container.ID x"
  have dist: "distinct (map Container.ID xs)" using Cons.prems(1) by simp
  have fresh: "\<forall>ctr \<in> set xs. Container.ID ctr \<noteq> ?k"
    using Cons.prems(1) by (auto simp: image_iff)
  have view: "fst (Get (cache w) (tGet rt i) ?k) = fst (Get sc (tGet rt i) ?k)"
    using Cons.prems(2,3,4) by (intro Get_same_view) simp_all
  let ?g = "snd (cacheGet w (tGet rt i) ?k)"
  have g: "enabled (cache ?g) = enabled sc" "ttl (cache ?g) = ttl sc"
    "\<forall>ctr \<in> set xs. entries (cache ?g) (Container.ID ctr) = entries sc (Container.ID ctr)"
    using Cons.prems(2,3,4) by (simp_all add: cacheGet_def Get_preserves)
  show ?case
  proof (cases "Container.State x \<noteq> ''running''")
    case True
    have "entries (cache w) (Container.ID ctr) = entries sc (Container.ID ctr)"
      if "ctr \<in> set xs" for ctr using that Cons.prems(4) by simp
    then show ?thesis
      using True Cons.IH [OF dist Cons.prems(2,3), of "Suc i"
          "rs @ [\<lparr>container = x, stats = None, err = None\<rparr>]"]
      unfolding dispatch_not_running [OF True] by simp
  next
    case running: False
    then have run: "Container.State x = ''running''" by simp
    show ?thesis
    proof (cases "snd (fst (Get (cache w) (tGet rt i) ?k))")
      case True
      show ?thesis
        using run True view
          Cons.IH [OF dist g, of "Suc i"
            "rs @ [\<lparr>container = x, stats = fst (fst (Get (cache w) (tGet rt i) ?k)),
                     err = None\<rparr>]"]
        unfolding dispatch_hit [OF run True] by simp
    next
      case False
      let ?st = "fst (GetContainerStats (client c) i ?k)"
      let ?e = "snd (GetContainerStats (client c) i ?k)"
      let ?w = "if ?e = None then cacheSet ?g (tSet rt i) ?k ?st else ?g"
      have s: "enabled (cache ?w) = enabled sc" "ttl (cache ?w) = ttl sc"
        "\<forall>ctr \<in> set xs. entries (cache ?w) (Container.ID ctr) = entries sc (Container.ID ctr)"
        using g fresh by (simp_all add: cacheSet_def Set_preserves)
      show ?thesis
        using run False view
          Cons.IH [OF dist s, of "Suc i" "rs @ [\<lparr>container = x, stats = ?st, err = ?e\<rparr>]"]
        unfolding dispatch_miss [OF pos run False] by simp
    qed
  qed
qed

text \<open>A cycle, from the results of its fetch phase.\<close>

lemma Collect_list_error:
  "snd (ListContainers (client c)) \<noteq> None \<Longrightarrow>
    Collect' c rt w =
      Returned (w\<lparr>sent := sent w @ emitSelfMetrics [] (tStart rt) (tEnd rt) 1\<rparr>)"
  using emitSelfMetrics_app [of "sent w" "tStart rt" "tEnd rt" 1]
  by (simp add: Collect'_def Let_def)

text \<open>A negative limit: the cycle panics when it makes the channel, whatever the list holds.\<close>

lemma Collect_negative_limit:
  "snd (ListContainers (client c)) = None \<Longrightarrow> maxConcurrent c < 0 \<Longrightarrow>
    Collect' c rt w = Panicked MakeChanSizeOutOfRange w"
  by (simp add: Collect'_def Let_def)

text \<open>
  A limit of 0: the cycle waits for ever at the first running container that the cache does
  not answer for.
\<close>

lemma Collect_zero_limit:
  assumes "snd (ListContainers (client c)) = None" and "maxConcurrent c = 0"
    and "List.filter (Match (filter' c)) (fst (ListContainers (client c))) = ctr # rest"
    and "Container.State ctr = ''running''"
    and "\<not> snd (fst (Get (cache w) (tGet rt 0) (Container.ID ctr)))"
  shows "Collect' c rt w = Blocked (snd (cacheGet w (tGet rt 0) (Container.ID ctr)))"
  using assms by (simp add: Collect'_def Let_def cacheGet_def)

lemma Collect_returns:
  assumes "snd (ListContainers (client c)) = None"
    and pos: "1 \<le> maxConcurrent c"
    and "\<forall>r \<in> set (fst (final (dispatch c rt 0
            (List.filter (Match (filter' c)) (fst (ListContainers (client c)))) ([], w)))).
          err r = None \<longrightarrow> 12 \<le> length (Container.ID (container r))"
  shows "Collect' c rt w =
    Returned
      ((cacheEvictStale
          ((snd (final (dispatch c rt 0
              (List.filter (Match (filter' c)) (fst (ListContainers (client c)))) ([], w))))
           \<lparr>sent := sent w @
              concat (map (emitted rt (tEmit rt))
                (fst (final (dispatch c rt 0
                   (List.filter (Match (filter' c)) (fst (ListContainers (client c))))
                   ([], w)))))\<rparr>)
          (tEvict rt))
       \<lparr>sent := sent w @
          concat (map (emitted rt (tEmit rt))
            (fst (final (dispatch c rt 0
               (List.filter (Match (filter' c)) (fst (ListContainers (client c)))) ([], w))))) @
          emitSelfMetrics [] (tStart rt) (tEnd rt)
            (int (length (List.filter (\<lambda>r. err r \<noteq> None)
               (fst (final (dispatch c rt 0
                  (List.filter (Match (filter' c)) (fst (ListContainers (client c))))
                  ([], w)))))))\<rparr>)"
proof -
  let ?d = "final (dispatch c rt 0
      (List.filter (Match (filter' c)) (fst (ListContainers (client c)))) ([], w))"
  obtain acc where d: "dispatch c rt 0
      (List.filter (Match (filter' c)) (fst (ListContainers (client c)))) ([], w) = Returned acc"
    using dispatch_returns [OF pos] unfolding is_Returned_def by blast
  have s: "sent (snd ?d) = sent w" by (rule dispatch_sent)
  have e: "emitResults rt (tEmit rt) (fst ?d) (sent w, 0) =
      Returned (sent w @ concat (map (emitted rt (tEmit rt)) (fst ?d)),
                0 + int (length (List.filter (\<lambda>r. err r \<noteq> None) (fst ?d))))"
    by (rule emitResults_returns [OF assms(3)])
  show ?thesis
    using assms(1) pos s e
      emitSelfMetrics_app [of "sent w @ concat (map (emitted rt (tEmit rt)) (fst ?d))"
        "tStart rt" "tEnd rt" "int (length (List.filter (\<lambda>r. err r \<noteq> None) (fst ?d)))"]
    by (simp add: Collect'_def Let_def cacheEvictStale_def d)
qed

lemma Collect_panics:
  assumes "snd (ListContainers (client c)) = None"
    and pos: "1 \<le> maxConcurrent c"
    and "r \<in> set (fst (final (dispatch c rt 0
            (List.filter (Match (filter' c)) (fst (ListContainers (client c)))) ([], w))))"
    and "err r = None" and "length (Container.ID (container r)) < 12"
  shows "\<exists>p w'. Collect' c rt w = Panicked p w'"
proof -
  let ?d = "final (dispatch c rt 0
      (List.filter (Match (filter' c)) (fst (ListContainers (client c)))) ([], w))"
  obtain acc' where d: "dispatch c rt 0
      (List.filter (Match (filter' c)) (fst (ListContainers (client c)))) ([], w) = Returned acc'"
    using dispatch_returns [OF pos] unfolding is_Returned_def by blast
  obtain p acc where "emitResults rt (tEmit rt) (fst ?d) (sent (snd ?d), 0) = Panicked p acc"
    using emitResults_panics [OF assms(3,4,5)] by blast
  then show ?thesis using assms(1) pos by (simp add: Collect'_def Let_def d)
qed

lemma dispatch_long_IDs:
  assumes pos: "1 \<le> maxConcurrent c"
    and ids: "\<forall>ctr \<in> set (fst (ListContainers (client c))). 12 \<le> length (Container.ID ctr)"
  shows "\<forall>r \<in> set (fst (final (dispatch c rt 0
            (List.filter (Match (filter' c)) (fst (ListContainers (client c)))) ([], w)))).
          err r = None \<longrightarrow> 12 \<le> length (Container.ID (container r))"
proof
  fix r
  let ?d = "final (dispatch c rt 0
      (List.filter (Match (filter' c)) (fst (ListContainers (client c)))) ([], w))"
  assume "r \<in> set (fst ?d)"
  then have "container r \<in> set (map container (fst ?d))" by simp
  then have "container r \<in> set (fst (ListContainers (client c)))"
    using dispatch_containers [OF pos] by simp
  then show "err r = None \<longrightarrow> 12 \<le> length (Container.ID (container r))"
    using ids by blast
qed

lemma emitted_explicit:
  assumes "err r = None" and "12 \<le> length (Container.ID (container r))"
  shows "emitted rt now r =
    (let lv = Values (ExtractLabels (container r)) in
     ([ConstMetric metrics_ContainerLastSeen GaugeValue (FromInt (Unix now)) lv] @
      (if IsZero (Container.StartedAt (container r)) then []
       else [ConstMetric metrics_ContainerStartTime GaugeValue
               (FromInt (Unix (Container.StartedAt (container r)))) lv,
             ConstMetric metrics_ContainerUptime GaugeValue
               (Seconds (now - Container.StartedAt (container r))) lv]) @
      (if list_all ValidString
            [take 12 (Container.ID (container r)), Container.Status (container r), Container.Health (container r),
             formatRFC3339 rt (Container.StartedAt (container r))]
       then [ConstMetric metrics_ContainerInfo GaugeValue (FromInt 1)
               (lv @ [take 12 (Container.ID (container r)), Container.Status (container r), Container.Health (container r),
                      formatRFC3339 rt (Container.StartedAt (container r))])]
       else []) @
      [ConstMetric metrics_ContainerHealthStatus GaugeValue
         (HealthStatusToFloat (Container.Health (container r))) lv,
       ConstMetric metrics_ContainerRestartCount GaugeValue
         (FromInt (Container.RestartCount (container r))) lv,
       ConstMetric metrics_ContainerExitCode GaugeValue (FromInt (Container.ExitCode (container r))) lv]) @
     (case result.stats r of
        None \<Rightarrow> []
      | Some s \<Rightarrow>
          [ConstMetric metrics_MemoryUsage GaugeValue (FromUint64 (MemoryUsage s)) lv,
           ConstMetric metrics_MemoryLimit GaugeValue (FromUint64 (MemoryLimit s)) lv,
           ConstMetric metrics_MemoryCache GaugeValue (FromUint64 (MemoryCache s)) lv,
           ConstMetric metrics_MemoryRSS GaugeValue (FromUint64 (MemoryRSS s)) lv,
           ConstMetric metrics_MemorySwap GaugeValue (FromUint64 (MemorySwap s)) lv,
           ConstMetric metrics_MemoryWorkingSet GaugeValue (FromUint64 (MemoryWorkingSet s)) lv,
           ConstMetric metrics_MemoryFailcnt GaugeValue (FromUint64 (MemoryFailcnt s)) lv] @
          [ConstMetric metrics_CPUUsageTotal CounterValue
             (Times (FromUint64 (CPUUsageTotal s)) NanosecondsToSeconds) lv,
           ConstMetric metrics_CPUUsageSystem CounterValue
             (Times (FromUint64 (CPUUsageSystem s)) NanosecondsToSeconds) lv,
           ConstMetric metrics_CPUUsageUser CounterValue
             (Times (FromUint64 (CPUUsageUser s)) NanosecondsToSeconds) lv,
           ConstMetric metrics_CPUThrottledPeriods CounterValue
             (FromUint64 (CPUThrottledPeriods s)) lv,
           ConstMetric metrics_CPUThrottledTime CounterValue
             (Times (FromUint64 (CPUThrottledTime s)) NanosecondsToSeconds) lv] @
          concat (map (\<lambda>e.
             if ValidString (fst e)
             then [ConstMetric metrics_NetworkRxBytes CounterValue
                     (FromUint64 (RxBytes (snd e))) (lv @ [fst e]),
                   ConstMetric metrics_NetworkTxBytes CounterValue
                     (FromUint64 (TxBytes (snd e))) (lv @ [fst e]),
                   ConstMetric metrics_NetworkRxPackets CounterValue
                     (FromUint64 (RxPackets (snd e))) (lv @ [fst e]),
                   ConstMetric metrics_NetworkTxPackets CounterValue
                     (FromUint64 (TxPackets (snd e))) (lv @ [fst e]),
                   ConstMetric metrics_NetworkRxErrors CounterValue
                     (FromUint64 (RxErrors (snd e))) (lv @ [fst e]),
                   ConstMetric metrics_NetworkTxErrors CounterValue
                     (FromUint64 (TxErrors (snd e))) (lv @ [fst e]),
                   ConstMetric metrics_NetworkRxDropped CounterValue
                     (FromUint64 (RxDropped (snd e))) (lv @ [fst e]),
                   ConstMetric metrics_NetworkTxDropped CounterValue
                     (FromUint64 (TxDropped (snd e))) (lv @ [fst e])]
             else [])
            (Stats.Networks s)) @
          concat (map (\<lambda>e.
             if ValidString (fst e)
             then [ConstMetric metrics_FSReadBytes CounterValue
                     (FromUint64 (ReadBytes (snd e))) (lv @ [fst e]),
                   ConstMetric metrics_FSWriteBytes CounterValue
                     (FromUint64 (WriteBytes (snd e))) (lv @ [fst e]),
                   ConstMetric metrics_FSReadOps CounterValue
                     (FromUint64 (ReadOps (snd e))) (lv @ [fst e]),
                   ConstMetric metrics_FSWriteOps CounterValue
                     (FromUint64 (WriteOps (snd e))) (lv @ [fst e])]
             else [])
            (BlockIO s)) @
          [ConstMetric metrics_PIDsCurrent GaugeValue (FromUint64 (PIDsCurrent s)) lv]))"
proof -
  let ?lv = "Values (ExtractLabels (container r))"
  have l: "length ?lv = 4" by (rule length_Values)
  have v: "list_all ValidString ?lv" by (rule Values_valid)
  show ?thesis
    unfolding emitted_eq Let_def emitStateMetrics_list [OF l v assms(2)]
    using assms(1) by (simp add: resource_list [OF l v] split: option.split)
qed

text \<open>Every metric of a result carries the label values of the result's container first.\<close>

lemma emitted_labels:
  "m \<in> set (emitted rt now r) \<Longrightarrow>
    take 4 (labelValues m) = Values (ExtractLabels (container r))"
proof -
  let ?lv = "Values (ExtractLabels (container r))"
  assume m: "m \<in> set (emitted rt now r)"
  have l: "length ?lv = 4" by (rule length_Values)
  have v: "list_all ValidString ?lv" by (rule Values_valid)
  show ?thesis
  proof (cases "12 \<le> length (Container.ID (container r))")
    case True
    show ?thesis
      using m l unfolding emitted_eq emitStateMetrics_list [OF l v True]
      by (auto simp: resource_list [OF l v] split: if_splits option.splits)
  next
    case False
    then have s: "length (Container.ID (container r)) < 12" by simp
    show ?thesis
      using m l unfolding emitted_eq emitStateMetrics_short_list [OF l v s]
      by (auto split: if_splits)
  qed
qed

text \<open>The example cycles.\<close>

lemma example_filtered:
  "List.filter (Match (filter' (exampleCollector cl))) xs = xs"
  by (simp add: exampleCollector_def noFilter_def Match_def)

lemma example_limit: "1 \<le> maxConcurrent (exampleCollector cl)"
  by (simp add: exampleCollector_def)

lemma example_dispatch:
  "fst (final (dispatch (exampleCollector exampleClient) exampleRuntime 0
      [exampleContainer ''aaaaaaaaaaaa'' ''web'' ''running'',
       exampleContainer ''bbbbbbbbbbbb'' ''db'' ''running'',
       exampleContainer ''cccccccccccc'' ''job'' ''running''] ([], exampleWorld))) =
    [\<lparr>container = exampleContainer ''aaaaaaaaaaaa'' ''web'' ''running'',
      stats = Some (exampleStats ''web''), err = None\<rparr>,
     \<lparr>container = exampleContainer ''bbbbbbbbbbbb'' ''db'' ''running'',
      stats = None, err = Some (Err ''timeout'')\<rparr>,
     \<lparr>container = exampleContainer ''cccccccccccc'' ''job'' ''running'',
      stats = Some (exampleStats ''job''), err = None\<rparr>]"
  by (simp add: Let_def cacheGet_def cacheSet_def Get_def Set_def NewStatsCache_def
      exampleCollector_def exampleClient_def exampleWorld_def exampleContainer_def)

lemma example_calls:
  "calls (snd (final (dispatch (exampleCollector exampleClient) exampleRuntime 0
      [exampleContainer ''aaaaaaaaaaaa'' ''web'' ''running'',
       exampleContainer ''bbbbbbbbbbbb'' ''db'' ''running'',
       exampleContainer ''cccccccccccc'' ''job'' ''running''] ([], exampleWorld)))) =
    [(CallGet ''aaaaaaaaaaaa'', 0), (CallSet ''aaaaaaaaaaaa'', 0), (CallGet ''bbbbbbbbbbbb'', 0),
     (CallGet ''cccccccccccc'', 0), (CallSet ''cccccccccccc'', 0)]"
  by (simp add: Let_def cacheGet_def cacheSet_def Get_def Set_def NewStatsCache_def
      exampleCollector_def exampleClient_def exampleWorld_def exampleContainer_def)

lemma example_Values:
  "Values (ExtractLabels (exampleContainer cid ''web'' st)) =
     [''web'', ''web'', ''myproject'', ''nginx:1.25'']"
  "Values (ExtractLabels (exampleContainer cid ''db'' st)) =
     [''db'', ''web'', ''myproject'', ''nginx:1.25'']"
  "Values (ExtractLabels (exampleContainer cid ''job'' st)) =
     [''job'', ''web'', ''myproject'', ''nginx:1.25'']"
  by (simp_all add: Values_def ExtractLabels_def exampleContainer_def index_def
      LabelComposeService_def LabelComposeProject_def SanitizeLabelValue_safe
      invalidLabelChars_def)

text \<open>
  C2. The claim is that the emission never panics, also for an ID shorter than 12 bytes. The
  code slices \<open>ctr.ID[:12]\<close> for the info measurement: the cycle that lists one stopped
  container with the six-byte ID \<open>abc123\<close> panics in \<open>emitStateMetrics\<close>, after sending
  \<open>container_last_seen\<close>, and ends without the self-metrics and without the eviction.
\<close>

theorem short_ID_panics:
  "Collect' (exampleCollector shortIDClient) exampleRuntime exampleWorld =
    Panicked (SliceBoundsOutOfRange 12 6)
      (exampleWorld\<lparr>sent :=
         [ConstMetric metrics_ContainerLastSeen GaugeValue (FromInt (Unix (tEmit exampleRuntime)))
            [''web'', ''web'', ''myproject'', ''nginx:1.25'']]\<rparr>)"
proof -
  let ?ctr = "exampleContainer ''abc123'' ''web'' ''exited''"
  have l: "ListContainers (client (exampleCollector shortIDClient)) = ([?ctr], None)"
    by (simp add: exampleCollector_def shortIDClient_def)
  have d: "dispatch (exampleCollector shortIDClient) exampleRuntime 0 [?ctr] ([], exampleWorld) =
      Returned ([\<lparr>container = ?ctr, stats = None, err = None\<rparr>], exampleWorld)"
    by (simp add: exampleContainer_def Let_def)
  have m: "\<not> maxConcurrent (exampleCollector shortIDClient) < 0"
    using example_limit [of shortIDClient] by simp
  have v: "list_all ValidString [''web'', ''web'', ''myproject'', ''nginx:1.25'']"
    using Values_valid [of ?ctr] unfolding example_Values .
  have s: "emitStateMetrics exampleRuntime [] ?ctr [''web'', ''web'', ''myproject'', ''nginx:1.25'']
        (tEmit exampleRuntime) =
      Panicked (SliceBoundsOutOfRange 12 6)
        [ConstMetric metrics_ContainerLastSeen GaugeValue (FromInt (Unix (tEmit exampleRuntime)))
           [''web'', ''web'', ''myproject'', ''nginx:1.25'']]"
    using emitStateMetrics_short_list [OF _ v, of ?ctr exampleRuntime "tEmit exampleRuntime"]
    by (simp add: exampleContainer_def IsZero_def)
  have e: "emitResults exampleRuntime (tEmit exampleRuntime)
        [\<lparr>container = ?ctr, stats = None, err = None\<rparr>] ([], 0) =
      Panicked (SliceBoundsOutOfRange 12 6)
        ([ConstMetric metrics_ContainerLastSeen GaugeValue (FromInt (Unix (tEmit exampleRuntime)))
           [''web'', ''web'', ''myproject'', ''nginx:1.25'']], 0)"
    unfolding emitResults_Cons by (simp add: example_Values s)
  have w: "sent exampleWorld = []" by (simp add: exampleWorld_def)
  show ?thesis
    unfolding Collect'_def Let_def l example_filtered fst_conv snd_conv d outcome.case e w
    using m by simp
qed

text \<open>
  C6, as stated, fails: the cycle whose list call fails, started with a cache that holds an
  entry stored at time 0, returns without any call of \<open>EvictStale\<close>, and the entry, older than
  the TTL of 30 s at every clock reading of the cycle, is still in the cache.
\<close>

theorem failed_list_skips_EvictStale:
  "is_Returned (Collect' (exampleCollector failingListClient) exampleRuntime staleWorld) \<and>
   calls (final (Collect' (exampleCollector failingListClient) exampleRuntime staleWorld)) = [] \<and>
   entries (cache (final (Collect' (exampleCollector failingListClient) exampleRuntime staleWorld)))
     ''0123456789ab'' = Some \<lparr>cacheEntry.stats = Some (exampleStats ''old''), timestamp = 0\<rparr> \<and>
   tStart exampleRuntime - 0 >
     ttl (cache (final (Collect' (exampleCollector failingListClient) exampleRuntime staleWorld)))"
proof -
  have "snd (ListContainers (client (exampleCollector failingListClient))) \<noteq> None"
    by (simp add: exampleCollector_def failingListClient_def)
  then show ?thesis
    by (simp add: Collect_list_error staleWorld_def Set_def NewStatsCache_def exampleRuntime_def)
qed

lemma EvictStale_entries:
  "entries (EvictStale sc now) k =
    (case entries sc k of
       None \<Rightarrow> None
     | Some entry \<Rightarrow> if now - timestamp entry > ttl sc then None else Some entry)"
  by (simp add: EvictStale_def Sub_def cong: option.case_cong)

lemma count_list_once: "x \<notin> set xs \<Longrightarrow> count_list (xs @ [x]) x = 1"
  by (simp add: count_list_0_iff)

text \<open>
  C6, amended. A cycle whose list call fails sends the duration and an error counter of 1,
  and returns without calling \<open>EvictStale\<close>, leaving the cache as it was. A cycle whose list
  call succeeds, with a limit of at least 1 on the fetches in flight and over containers
  whose IDs have at least 12 bytes, returns after calling \<open>EvictStale\<close> exactly once, as its
  last call to the cache, on the cache that the fetch phase left: every earlier call of the
  cycle to the cache is made before the cycle has sent anything, the call of \<open>EvictStale\<close>
  is made when the cycle has sent exactly the metrics of its results, and the duration and
  the error counter are sent after it. \<open>EvictStale\<close> removes exactly the entries whose age
  exceeds the TTL and leaves the others in place.
\<close>

theorem EvictStale_once_after_list:
  "(snd (ListContainers (client c)) \<noteq> None \<longrightarrow>
      is_Returned (Collect' c rt w) \<and>
      calls (final (Collect' c rt w)) = calls w \<and>
      cache (final (Collect' c rt w)) = cache w \<and>
      sent (final (Collect' c rt w)) =
        sent w @
        [ConstMetric metrics_ExporterScrapeDuration GaugeValue
           (Seconds (tEnd rt - tStart rt)) [''container''],
         ConstMetric metrics_ExporterScrapeErrors CounterValue (FromInt 1) [''container'']]) \<and>
   (snd (ListContainers (client c)) = None \<and> 1 \<le> maxConcurrent c \<and>
    (\<forall>ctr \<in> set (fst (ListContainers (client c))). 12 \<le> length (Container.ID ctr)) \<longrightarrow>
      (let fetched = final (dispatch c rt 0
             (List.filter (Match (filter' c)) (fst (ListContainers (client c)))) ([], w));
           emission = concat (map (emitted rt (tEmit rt)) (fst fetched));
           failed = List.filter (\<lambda>r. err r \<noteq> None) (fst fetched);
           made = drop (length (calls w)) (calls (final (Collect' c rt w)))
       in is_Returned (Collect' c rt w) \<and>
          take (length (calls w)) (calls (final (Collect' c rt w))) = calls w \<and>
          count_list (map fst made) CallEvictStale = 1 \<and>
          last (calls (final (Collect' c rt w))) =
            (CallEvictStale, length (sent w) + length emission) \<and>
          (\<forall>e \<in> set (butlast made). snd e = length (sent w)) \<and>
          sent (final (Collect' c rt w)) =
            sent w @ emission @
            [ConstMetric metrics_ExporterScrapeDuration GaugeValue
               (Seconds (tEnd rt - tStart rt)) [''container''],
             ConstMetric metrics_ExporterScrapeErrors CounterValue
               (FromInt (int (length failed))) [''container'']] \<and>
          cache (final (Collect' c rt w)) = EvictStale (cache (snd fetched)) (tEvict rt))) \<and>
   (entries (EvictStale sc now) k = None) =
     (entries sc k = None \<or>
      (\<exists>entry. entries sc k = Some entry \<and> now - timestamp entry > ttl sc)) \<and>
   (\<forall>entry. entries sc k = Some entry \<and> \<not> now - timestamp entry > ttl sc \<longrightarrow>
      entries (EvictStale sc now) k = Some entry)"
proof (intro conjI impI)
  assume "snd (ListContainers (client c)) \<noteq> None"
  then have r: "Collect' c rt w =
      Returned (w\<lparr>sent := sent w @ emitSelfMetrics [] (tStart rt) (tEnd rt) 1\<rparr>)"
    by (rule Collect_list_error)
  show "is_Returned (Collect' c rt w)" "calls (final (Collect' c rt w)) = calls w"
    "cache (final (Collect' c rt w)) = cache w"
    unfolding r by simp_all
  show "sent (final (Collect' c rt w)) =
      sent w @
      [ConstMetric metrics_ExporterScrapeDuration GaugeValue
         (Seconds (tEnd rt - tStart rt)) [''container''],
       ConstMetric metrics_ExporterScrapeErrors CounterValue (FromInt 1) [''container'']]"
    unfolding r by (simp add: emitSelfMetrics_list)
next
  let ?d = "final (dispatch c rt 0
      (List.filter (Match (filter' c)) (fst (ListContainers (client c)))) ([], w))"
  let ?em = "concat (map (emitted rt (tEmit rt)) (fst ?d))"
  let ?made = "drop (length (calls w)) (calls (final (Collect' c rt w)))"
  assume a: "snd (ListContainers (client c)) = None \<and> 1 \<le> maxConcurrent c \<and>
    (\<forall>ctr \<in> set (fst (ListContainers (client c))). 12 \<le> length (Container.ID ctr))"
  then have ok: "snd (ListContainers (client c)) = None" and pos: "1 \<le> maxConcurrent c"
    and long: "\<forall>ctr \<in> set (fst (ListContainers (client c))). 12 \<le> length (Container.ID ctr)"
    by simp_all
  have ids: "\<forall>r \<in> set (fst ?d). err r = None \<longrightarrow> 12 \<le> length (Container.ID (container r))"
    using pos long by (rule dispatch_long_IDs)
  note r = Collect_returns [OF ok pos ids]
  obtain cs where cs: "calls (snd ?d) = calls w @ cs"
      "\<forall>e \<in> set cs. fst e \<noteq> CallEvictStale \<and> snd e = length (sent w)"
    using dispatch_calls [of c rt 0 _ "[]" w] by blast
  have all: "calls (final (Collect' c rt w)) =
      calls w @ cs @ [(CallEvictStale, length (sent w) + length ?em)]"
    unfolding r by (simp add: cacheEvictStale_def cs(1))
  have made: "?made = cs @ [(CallEvictStale, length (sent w) + length ?em)]"
    unfolding all by simp
  have none: "CallEvictStale \<notin> set (map fst cs)" using cs(2) by auto
  have 1: "is_Returned (Collect' c rt w)" unfolding r by simp
  have 2: "take (length (calls w)) (calls (final (Collect' c rt w))) = calls w"
    unfolding all by simp
  have 3: "count_list (map fst ?made) CallEvictStale = 1"
    unfolding made using count_list_once [OF none] by simp
  have 4: "last (calls (final (Collect' c rt w))) =
      (CallEvictStale, length (sent w) + length ?em)"
    unfolding all by simp
  have 5: "\<forall>e \<in> set (butlast ?made). snd e = length (sent w)"
    unfolding made using cs(2) by (simp add: butlast_append)
  have 6: "sent (final (Collect' c rt w)) =
      sent w @ ?em @
      [ConstMetric metrics_ExporterScrapeDuration GaugeValue
         (Seconds (tEnd rt - tStart rt)) [''container''],
       ConstMetric metrics_ExporterScrapeErrors CounterValue
         (FromInt (int (length (List.filter (\<lambda>r. err r \<noteq> None) (fst ?d))))) [''container'']]"
    unfolding r by (simp add: emitSelfMetrics_list cacheEvictStale_def)
  have 7: "cache (final (Collect' c rt w)) = EvictStale (cache (snd ?d)) (tEvict rt)"
    unfolding r by (simp add: cacheEvictStale_def)
  show "let fetched = ?d;
           emission = concat (map (emitted rt (tEmit rt)) (fst fetched));
           failed = List.filter (\<lambda>r. err r \<noteq> None) (fst fetched);
           made = drop (length (calls w)) (calls (final (Collect' c rt w)))
       in is_Returned (Collect' c rt w) \<and>
          take (length (calls w)) (calls (final (Collect' c rt w))) = calls w \<and>
          count_list (map fst made) CallEvictStale = 1 \<and>
          last (calls (final (Collect' c rt w))) =
            (CallEvictStale, length (sent w) + length emission) \<and>
          (\<forall>e \<in> set (butlast made). snd e = length (sent w)) \<and>
          sent (final (Collect' c rt w)) =
            sent w @ emission @
            [ConstMetric metrics_ExporterScrapeDuration GaugeValue
               (Seconds (tEnd rt - tStart rt)) [''container''],
             ConstMetric metrics_ExporterScrapeErrors CounterValue
               (FromInt (int (length failed))) [''container'']] \<and>
          cache (final (Collect' c rt w)) = EvictStale (cache (snd fetched)) (tEvict rt)"
    unfolding Let_def using 1 2 3 4 5 6 7 by (intro conjI)
next
  show "(entries (EvictStale sc now) k = None) =
     (entries sc k = None \<or>
      (\<exists>entry. entries sc k = Some entry \<and> now - timestamp entry > ttl sc))"
    unfolding EvictStale_entries by (auto split: option.split)
next
  show "\<forall>entry. entries sc k = Some entry \<and> \<not> now - timestamp entry > ttl sc \<longrightarrow>
      entries (EvictStale sc now) k = Some entry"
    unfolding EvictStale_entries by simp
qed

theorem EvictStale_once_after_list_witness:
  "calls (final (Collect' (exampleCollector failingListClient) exampleRuntime staleWorld)) = [] \<and>
   sent (final (Collect' (exampleCollector failingListClient) exampleRuntime staleWorld)) =
     [ConstMetric metrics_ExporterScrapeDuration GaugeValue (Seconds 5000000000) [''container''],
      ConstMetric metrics_ExporterScrapeErrors CounterValue (FromInt 1) [''container'']] \<and>
   is_Returned (Collect' (exampleCollector exampleClient) exampleRuntime exampleWorld) \<and>
   map fst (calls (final (Collect' (exampleCollector exampleClient) exampleRuntime exampleWorld))) =
     [CallGet ''aaaaaaaaaaaa'', CallSet ''aaaaaaaaaaaa'', CallGet ''bbbbbbbbbbbb'',
      CallGet ''cccccccccccc'', CallSet ''cccccccccccc'', CallEvictStale] \<and>
   map snd (butlast
       (calls (final (Collect' (exampleCollector exampleClient) exampleRuntime exampleWorld)))) =
     [0, 0, 0, 0, 0] \<and>
   snd (last (calls (final (Collect' (exampleCollector exampleClient) exampleRuntime exampleWorld)))) + 2 =
     length (sent (final (Collect' (exampleCollector exampleClient) exampleRuntime exampleWorld))) \<and>
   entries (EvictStale (cache staleWorld) 1000) ''0123456789ab'' =
     Some \<lparr>cacheEntry.stats = Some (exampleStats ''old''), timestamp = 0\<rparr> \<and>
   entries (EvictStale (cache staleWorld) 31000000000) ''0123456789ab'' = None"
proof -
  let ?F = "Collect' (exampleCollector failingListClient) exampleRuntime staleWorld"
  let ?C = "Collect' (exampleCollector exampleClient) exampleRuntime exampleWorld"
  have f: "snd (ListContainers (client (exampleCollector failingListClient))) \<noteq> None"
    by (simp add: exampleCollector_def failingListClient_def)
  have l: "fst (ListContainers (client (exampleCollector exampleClient))) =
      [exampleContainer ''aaaaaaaaaaaa'' ''web'' ''running'',
       exampleContainer ''bbbbbbbbbbbb'' ''db'' ''running'',
       exampleContainer ''cccccccccccc'' ''job'' ''running'']"
    "snd (ListContainers (client (exampleCollector exampleClient))) = None"
    by (simp_all add: exampleCollector_def exampleClient_def)
  have ids: "\<forall>ctr \<in> set (fst (ListContainers (client (exampleCollector exampleClient)))).
      12 \<le> length (Container.ID ctr)"
    unfolding l by (simp add: exampleContainer_def)
  have e: "entries (cache staleWorld) ''0123456789ab'' =
      Some \<lparr>cacheEntry.stats = Some (exampleStats ''old''), timestamp = 0\<rparr>"
    "ttl (cache staleWorld) = 30000000000" "calls staleWorld = []" "calls exampleWorld = []"
    "sent staleWorld = []" "sent exampleWorld = []"
    by (simp_all add: staleWorld_def exampleWorld_def Set_def NewStatsCache_def)
  note t1 = EvictStale_once_after_list [of "exampleCollector failingListClient" exampleRuntime
      staleWorld "cache staleWorld" 1000 "''0123456789ab''"]
  note t2 = EvictStale_once_after_list [of "exampleCollector exampleClient" exampleRuntime
      exampleWorld "cache staleWorld" 31000000000 "''0123456789ab''"]
  note t1a = t1 [THEN conjunct1, rule_format, OF f]
  have c1: "calls (final ?F) = []"
    using t1a [THEN conjunct2, THEN conjunct1] e(3) by simp
  have s1: "sent (final ?F) =
      [ConstMetric metrics_ExporterScrapeDuration GaugeValue (Seconds 5000000000) [''container''],
       ConstMetric metrics_ExporterScrapeErrors CounterValue (FromInt 1) [''container'']]"
    using t1a [THEN conjunct2, THEN conjunct2, THEN conjunct2] e(5)
    by (simp add: exampleRuntime_def)
  have k1: "entries (EvictStale (cache staleWorld) 1000) ''0123456789ab'' =
      Some \<lparr>cacheEntry.stats = Some (exampleStats ''old''), timestamp = 0\<rparr>"
    using t1 [THEN conjunct2, THEN conjunct2, THEN conjunct2] e(1,2) by simp
  have k2: "entries (EvictStale (cache staleWorld) 31000000000) ''0123456789ab'' = None"
    using t2 [THEN conjunct2, THEN conjunct2, THEN conjunct1] e(1,2) by simp
  have h: "snd (ListContainers (client (exampleCollector exampleClient))) = None \<and>
      1 \<le> maxConcurrent (exampleCollector exampleClient) \<and>
      (\<forall>ctr \<in> set (fst (ListContainers (client (exampleCollector exampleClient)))).
         12 \<le> length (Container.ID ctr))"
    using l(2) example_limit ids by (intro conjI)
  note t2b = t2 [THEN conjunct2, THEN conjunct1, rule_format, OF h, unfolded Let_def]
  have r2: "is_Returned ?C" using t2b by (rule conjunct1)
  have la: "last (calls (final ?C)) =
      (CallEvictStale, length (sent exampleWorld) +
         length (concat (map (emitted exampleRuntime (tEmit exampleRuntime))
           (fst (final (dispatch (exampleCollector exampleClient) exampleRuntime 0
              (List.filter (Match (filter' (exampleCollector exampleClient)))
                 (fst (ListContainers (client (exampleCollector exampleClient)))))
              ([], exampleWorld)))))))"
    using t2b [THEN conjunct2, THEN conjunct2, THEN conjunct2] by (rule conjunct1)
  have se: "sent (final ?C) =
      sent exampleWorld @
      concat (map (emitted exampleRuntime (tEmit exampleRuntime))
        (fst (final (dispatch (exampleCollector exampleClient) exampleRuntime 0
           (List.filter (Match (filter' (exampleCollector exampleClient)))
              (fst (ListContainers (client (exampleCollector exampleClient)))))
           ([], exampleWorld))))) @
      [ConstMetric metrics_ExporterScrapeDuration GaugeValue
         (Seconds (tEnd exampleRuntime - tStart exampleRuntime)) [''container''],
       ConstMetric metrics_ExporterScrapeErrors CounterValue
         (FromInt (int (length (List.filter (\<lambda>r. err r \<noteq> None)
            (fst (final (dispatch (exampleCollector exampleClient) exampleRuntime 0
               (List.filter (Match (filter' (exampleCollector exampleClient)))
                  (fst (ListContainers (client (exampleCollector exampleClient)))))
               ([], exampleWorld)))))))) [''container'']]"
    using t2b [THEN conjunct2, THEN conjunct2, THEN conjunct2, THEN conjunct2, THEN conjunct2]
    by (rule conjunct1)
  have n: "snd (last (calls (final ?C))) + 2 = length (sent (final ?C))"
    unfolding la se by simp
  have "calls (final ?C) =
      calls (snd (final (dispatch (exampleCollector exampleClient) exampleRuntime 0
        [exampleContainer ''aaaaaaaaaaaa'' ''web'' ''running'',
         exampleContainer ''bbbbbbbbbbbb'' ''db'' ''running'',
         exampleContainer ''cccccccccccc'' ''job'' ''running''] ([], exampleWorld)))) @
      [last (calls (final ?C))]"
    using Collect_returns [OF l(2) example_limit dispatch_long_IDs [OF example_limit ids],
        of exampleRuntime exampleWorld]
    unfolding l(1) example_filtered by (simp add: cacheEvictStale_def)
  note c = this [unfolded example_calls la]
  have c2: "map fst (calls (final ?C)) =
      [CallGet ''aaaaaaaaaaaa'', CallSet ''aaaaaaaaaaaa'', CallGet ''bbbbbbbbbbbb'',
       CallGet ''cccccccccccc'', CallSet ''cccccccccccc'', CallEvictStale]"
    unfolding c by simp
  have c3: "map snd (butlast (calls (final ?C))) = [0, 0, 0, 0, 0]"
    unfolding c by simp
  show ?thesis using c1 s1 r2 c2 c3 n k1 k2 by (intro conjI)
qed

text \<open>
  C1, as stated, fails: in the cycle that lists \<open>web\<close>, \<open>db\<close> and \<open>job\<close> as running and whose
  fetch of \<open>db\<close> fails, no metric sent carries the label values of \<open>db\<close>; in particular its
  \<open>container_last_seen\<close>, a state measurement, is not sent. The error counter is 1.
\<close>

theorem failed_fetch_emits_no_state:
  "snd (ListContainers (client (exampleCollector exampleClient))) = None \<and>
   snd (GetContainerStats (client (exampleCollector exampleClient)) 1 ''bbbbbbbbbbbb'') =
     Some (Err ''timeout'') \<and>
   Values (ExtractLabels (exampleContainer ''bbbbbbbbbbbb'' ''db'' ''running'')) =
     [''db'', ''web'', ''myproject'', ''nginx:1.25''] \<and>
   is_Returned (Collect' (exampleCollector exampleClient) exampleRuntime exampleWorld) \<and>
   [''db'', ''web'', ''myproject'', ''nginx:1.25''] \<notin>
     set (map (take 4) (map labelValues
       (sent (final (Collect' (exampleCollector exampleClient) exampleRuntime exampleWorld))))) \<and>
   ConstMetric metrics_ContainerLastSeen GaugeValue (FromInt (Unix (tEmit exampleRuntime)))
     [''db'', ''web'', ''myproject'', ''nginx:1.25''] \<notin>
     set (sent (final (Collect' (exampleCollector exampleClient) exampleRuntime exampleWorld))) \<and>
   last (sent (final (Collect' (exampleCollector exampleClient) exampleRuntime exampleWorld))) =
     ConstMetric metrics_ExporterScrapeErrors CounterValue (FromInt 1) [''container'']"
proof -
  let ?web = "\<lparr>container = exampleContainer ''aaaaaaaaaaaa'' ''web'' ''running'',
      stats = Some (exampleStats ''web''), err = None\<rparr>"
  let ?db = "\<lparr>container = exampleContainer ''bbbbbbbbbbbb'' ''db'' ''running'',
      stats = None, err = Some (Err ''timeout'')\<rparr>"
  let ?job = "\<lparr>container = exampleContainer ''cccccccccccc'' ''job'' ''running'',
      stats = Some (exampleStats ''job''), err = None\<rparr>"
  let ?out = "sent (final (Collect' (exampleCollector exampleClient) exampleRuntime exampleWorld))"
  let ?t = "tEmit exampleRuntime"
  have l: "fst (ListContainers (client (exampleCollector exampleClient))) =
      [exampleContainer ''aaaaaaaaaaaa'' ''web'' ''running'',
       exampleContainer ''bbbbbbbbbbbb'' ''db'' ''running'',
       exampleContainer ''cccccccccccc'' ''job'' ''running'']"
    "snd (ListContainers (client (exampleCollector exampleClient))) = None"
    by (simp_all add: exampleCollector_def exampleClient_def)
  have g: "snd (GetContainerStats (client (exampleCollector exampleClient)) 1 ''bbbbbbbbbbbb'') =
      Some (Err ''timeout'')"
    by (simp add: exampleCollector_def exampleClient_def)
  have ids: "\<forall>ctr \<in> set (fst (ListContainers (client (exampleCollector exampleClient)))).
      12 \<le> length (Container.ID ctr)"
    unfolding l by (simp add: exampleContainer_def)
  have w: "sent exampleWorld = []" by (simp add: exampleWorld_def)
  have c: "Collect' (exampleCollector exampleClient) exampleRuntime exampleWorld =
      Returned
        ((cacheEvictStale
            ((snd (final (dispatch (exampleCollector exampleClient) exampleRuntime 0
                [exampleContainer ''aaaaaaaaaaaa'' ''web'' ''running'',
                 exampleContainer ''bbbbbbbbbbbb'' ''db'' ''running'',
                 exampleContainer ''cccccccccccc'' ''job'' ''running''] ([], exampleWorld))))
             \<lparr>sent := [] @ concat (map (emitted exampleRuntime ?t) [?web, ?db, ?job])\<rparr>)
            (tEvict exampleRuntime))
         \<lparr>sent := [] @ concat (map (emitted exampleRuntime ?t) [?web, ?db, ?job]) @
            emitSelfMetrics [] (tStart exampleRuntime) (tEnd exampleRuntime)
              (int (length (List.filter (\<lambda>r. err r \<noteq> None) [?web, ?db, ?job])))\<rparr>)"
    using Collect_returns [OF l(2) example_limit dispatch_long_IDs [OF example_limit ids],
        of exampleRuntime exampleWorld]
    unfolding l(1) example_filtered example_dispatch w .
  have out: "?out = emitted exampleRuntime ?t ?web @ emitted exampleRuntime ?t ?job @
      [ConstMetric metrics_ExporterScrapeDuration GaugeValue
         (Seconds (tEnd exampleRuntime - tStart exampleRuntime)) [''container''],
       ConstMetric metrics_ExporterScrapeErrors CounterValue (FromInt 1) [''container'']]"
    unfolding c by (simp add: emitSelfMetrics_list emitted_eq [of _ _ ?db])
  have lv: "take 4 (labelValues m) \<noteq> [''db'', ''web'', ''myproject'', ''nginx:1.25'']"
    if "m \<in> set ?out" for m
  proof -
    from that consider "m \<in> set (emitted exampleRuntime ?t ?web)"
      | "m \<in> set (emitted exampleRuntime ?t ?job)"
      | "labelValues m = [''container'']"
      unfolding out by auto
    then show ?thesis
    proof cases
      case 1
      from emitted_labels [OF this] show ?thesis by (simp add: example_Values)
    next
      case 2
      from emitted_labels [OF this] show ?thesis by (simp add: example_Values)
    next
      case 3
      then show ?thesis by simp
    qed
  qed
  have n1: "[''db'', ''web'', ''myproject'', ''nginx:1.25''] \<notin>
      set (map (take 4) (map labelValues ?out))"
  proof
    assume "[''db'', ''web'', ''myproject'', ''nginx:1.25''] \<in>
      set (map (take 4) (map labelValues ?out))"
    then obtain m where "m \<in> set ?out"
        "take 4 (labelValues m) = [''db'', ''web'', ''myproject'', ''nginx:1.25'']"
      by auto
    with lv show False by blast
  qed
  have n2: "ConstMetric metrics_ContainerLastSeen GaugeValue (FromInt (Unix ?t))
      [''db'', ''web'', ''myproject'', ''nginx:1.25''] \<notin> set ?out"
    using lv by fastforce
  have la: "last ?out =
      ConstMetric metrics_ExporterScrapeErrors CounterValue (FromInt 1) [''container'']"
    unfolding out by simp
  have r: "is_Returned (Collect' (exampleCollector exampleClient) exampleRuntime exampleWorld)"
    unfolding c by simp
  show ?thesis
    using l(2) g example_Values(2) [of "''bbbbbbbbbbbb''" "''running''"] r n1 n2 la
    by (intro conjI)
qed

text \<open>
  C1, amended. For every cycle whose list call succeeds, with a limit of at least 1 on the
  fetches in flight and over containers whose IDs have at least 12 bytes: the cycle
  returns; it has one result for each filtered container, in the order of the list; when
  the IDs of the filtered containers are distinct, the result of a container that is not
  running has no Stats and no error, the result of a running container for which the cache,
  as it was when the cycle started, answers at the time of the lookup has the Stats of the
  cache and no error, and the result of any other running container has the Stats and the
  error that the client returns for it; and the metrics that the cycle sends are, result by
  result, nothing for a result that holds an error (an error is always that of a fetch of a
  running container), and for any other result the state measurements of its container,
  from the record of the list call, followed by the full resource measurements when the
  result has Stats, which a result of a container that is not running never has; then the
  duration and the error counter, which is the number of the results that hold an error.
\<close>

theorem Collect_partial_failure:
  "snd (ListContainers (client c)) = None \<and> 1 \<le> maxConcurrent c \<and>
   (\<forall>ctr \<in> set (fst (ListContainers (client c))). 12 \<le> length (Container.ID ctr)) \<longrightarrow>
   (let filtered = List.filter (Match (filter' c)) (fst (ListContainers (client c)));
        results = fst (final (dispatch c rt 0 filtered ([], w)));
        failed = List.filter (\<lambda>r. err r \<noteq> None) results
    in is_Returned (Collect' c rt w) \<and>
       map container results = filtered \<and>
       (distinct (map Container.ID filtered) \<longrightarrow>
          results =
            map (\<lambda>(i, ctr).
                   if Container.State ctr \<noteq> ''running''
                   then \<lparr>container = ctr, stats = None, err = None\<rparr>
                   else if snd (fst (Get (cache w) (tGet rt i) (Container.ID ctr)))
                   then \<lparr>container = ctr,
                          stats = fst (fst (Get (cache w) (tGet rt i) (Container.ID ctr))),
                          err = None\<rparr>
                   else \<lparr>container = ctr,
                          stats = fst (GetContainerStats (client c) i (Container.ID ctr)),
                          err = snd (GetContainerStats (client c) i (Container.ID ctr))\<rparr>)
              (enumerate 0 filtered)) \<and>
       sent (final (Collect' c rt w)) =
         sent w @ concat (map (emitted rt (tEmit rt)) results) @
         [ConstMetric metrics_ExporterScrapeDuration GaugeValue
            (Seconds (tEnd rt - tStart rt)) [''container''],
          ConstMetric metrics_ExporterScrapeErrors CounterValue
            (FromInt (int (length failed))) [''container'']] \<and>
       (\<forall>r \<in> set results.
          (err r \<noteq> None \<longrightarrow>
             emitted rt (tEmit rt) r = [] \<and>
             Container.State (container r) = ''running'' \<and>
             (\<exists>j. err r = snd (GetContainerStats (client c) j (Container.ID (container r))))) \<and>
          (Container.State (container r) \<noteq> ''running'' \<longrightarrow>
             result.stats r = None \<and> err r = None) \<and>
          (err r = None \<longrightarrow>
             emitted rt (tEmit rt) r =
               (let lv = Values (ExtractLabels (container r)) in
                ([ConstMetric metrics_ContainerLastSeen GaugeValue (FromInt (Unix (tEmit rt))) lv] @
                (if IsZero (Container.StartedAt (container r)) then []
                 else [ConstMetric metrics_ContainerStartTime GaugeValue
                         (FromInt (Unix (Container.StartedAt (container r)))) lv,
                       ConstMetric metrics_ContainerUptime GaugeValue
                         (Seconds ((tEmit rt) - Container.StartedAt (container r))) lv]) @
                (if list_all ValidString
                      [take 12 (Container.ID (container r)), Container.Status (container r), Container.Health (container r),
                       formatRFC3339 rt (Container.StartedAt (container r))]
                 then [ConstMetric metrics_ContainerInfo GaugeValue (FromInt 1)
                         (lv @ [take 12 (Container.ID (container r)), Container.Status (container r), Container.Health (container r),
                                formatRFC3339 rt (Container.StartedAt (container r))])]
                 else []) @
                [ConstMetric metrics_ContainerHealthStatus GaugeValue
                   (HealthStatusToFloat (Container.Health (container r))) lv,
                 ConstMetric metrics_ContainerRestartCount GaugeValue
                   (FromInt (Container.RestartCount (container r))) lv,
                 ConstMetric metrics_ContainerExitCode GaugeValue (FromInt (Container.ExitCode (container r))) lv]) @
                (case result.stats r of
                   None \<Rightarrow> []
                 | Some s \<Rightarrow>
                     [ConstMetric metrics_MemoryUsage GaugeValue (FromUint64 (MemoryUsage s)) lv,
                      ConstMetric metrics_MemoryLimit GaugeValue (FromUint64 (MemoryLimit s)) lv,
                      ConstMetric metrics_MemoryCache GaugeValue (FromUint64 (MemoryCache s)) lv,
                      ConstMetric metrics_MemoryRSS GaugeValue (FromUint64 (MemoryRSS s)) lv,
                      ConstMetric metrics_MemorySwap GaugeValue (FromUint64 (MemorySwap s)) lv,
                      ConstMetric metrics_MemoryWorkingSet GaugeValue
                        (FromUint64 (MemoryWorkingSet s)) lv,
                      ConstMetric metrics_MemoryFailcnt GaugeValue
                        (FromUint64 (MemoryFailcnt s)) lv] @
                     [ConstMetric metrics_CPUUsageTotal CounterValue
                        (Times (FromUint64 (CPUUsageTotal s)) NanosecondsToSeconds) lv,
                      ConstMetric metrics_CPUUsageSystem CounterValue
                        (Times (FromUint64 (CPUUsageSystem s)) NanosecondsToSeconds) lv,
                      ConstMetric metrics_CPUUsageUser CounterValue
                        (Times (FromUint64 (CPUUsageUser s)) NanosecondsToSeconds) lv,
                      ConstMetric metrics_CPUThrottledPeriods CounterValue
                        (FromUint64 (CPUThrottledPeriods s)) lv,
                      ConstMetric metrics_CPUThrottledTime CounterValue
                        (Times (FromUint64 (CPUThrottledTime s)) NanosecondsToSeconds) lv] @
                     concat (map (\<lambda>e.
                        if ValidString (fst e)
                        then [ConstMetric metrics_NetworkRxBytes CounterValue
                                (FromUint64 (RxBytes (snd e))) (lv @ [fst e]),
                              ConstMetric metrics_NetworkTxBytes CounterValue
                                (FromUint64 (TxBytes (snd e))) (lv @ [fst e]),
                              ConstMetric metrics_NetworkRxPackets CounterValue
                                (FromUint64 (RxPackets (snd e))) (lv @ [fst e]),
                              ConstMetric metrics_NetworkTxPackets CounterValue
                                (FromUint64 (TxPackets (snd e))) (lv @ [fst e]),
                              ConstMetric metrics_NetworkRxErrors CounterValue
                                (FromUint64 (RxErrors (snd e))) (lv @ [fst e]),
                              ConstMetric metrics_NetworkTxErrors CounterValue
                                (FromUint64 (TxErrors (snd e))) (lv @ [fst e]),
                              ConstMetric metrics_NetworkRxDropped CounterValue
                                (FromUint64 (RxDropped (snd e))) (lv @ [fst e]),
                              ConstMetric metrics_NetworkTxDropped CounterValue
                                (FromUint64 (TxDropped (snd e))) (lv @ [fst e])]
                        else [])
                       (Stats.Networks s)) @
                     concat (map (\<lambda>e.
                        if ValidString (fst e)
                        then [ConstMetric metrics_FSReadBytes CounterValue
                                (FromUint64 (ReadBytes (snd e))) (lv @ [fst e]),
                              ConstMetric metrics_FSWriteBytes CounterValue
                                (FromUint64 (WriteBytes (snd e))) (lv @ [fst e]),
                              ConstMetric metrics_FSReadOps CounterValue
                                (FromUint64 (ReadOps (snd e))) (lv @ [fst e]),
                              ConstMetric metrics_FSWriteOps CounterValue
                                (FromUint64 (WriteOps (snd e))) (lv @ [fst e])]
                        else [])
                       (BlockIO s)) @
                     [ConstMetric metrics_PIDsCurrent GaugeValue (FromUint64 (PIDsCurrent s)) lv])))))"
proof (intro impI)
  let ?d = "final (dispatch c rt 0
      (List.filter (Match (filter' c)) (fst (ListContainers (client c)))) ([], w))"
  assume a: "snd (ListContainers (client c)) = None \<and> 1 \<le> maxConcurrent c \<and>
    (\<forall>ctr \<in> set (fst (ListContainers (client c))). 12 \<le> length (Container.ID ctr))"
  then have ok: "snd (ListContainers (client c)) = None" and pos: "1 \<le> maxConcurrent c"
    and long: "\<forall>ctr \<in> set (fst (ListContainers (client c))). 12 \<le> length (Container.ID ctr)"
    by simp_all
  have ids: "\<forall>r \<in> set (fst ?d). err r = None \<longrightarrow> 12 \<le> length (Container.ID (container r))"
    using pos long by (rule dispatch_long_IDs)
  note r = Collect_returns [OF ok pos ids]
  have 1: "is_Returned (Collect' c rt w)" unfolding r by simp
  have 2: "map container (fst ?d) =
      List.filter (Match (filter' c)) (fst (ListContainers (client c)))"
    using dispatch_containers [OF pos, of rt 0 _ "[]" w] by simp
  have 5: "distinct (map Container.ID
        (List.filter (Match (filter' c)) (fst (ListContainers (client c))))) \<longrightarrow>
      fst ?d =
        map (\<lambda>(i, ctr).
               if Container.State ctr \<noteq> ''running''
               then \<lparr>container = ctr, stats = None, err = None\<rparr>
               else if snd (fst (Get (cache w) (tGet rt i) (Container.ID ctr)))
               then \<lparr>container = ctr,
                      stats = fst (fst (Get (cache w) (tGet rt i) (Container.ID ctr))),
                      err = None\<rparr>
               else \<lparr>container = ctr,
                      stats = fst (GetContainerStats (client c) i (Container.ID ctr)),
                      err = snd (GetContainerStats (client c) i (Container.ID ctr))\<rparr>)
          (enumerate 0 (List.filter (Match (filter' c)) (fst (ListContainers (client c)))))"
    using dispatch_results [OF pos, of _ w "cache w" rt 0 "[]"] by simp
  have 3: "sent (final (Collect' c rt w)) =
      sent w @ concat (map (emitted rt (tEmit rt)) (fst ?d)) @
      [ConstMetric metrics_ExporterScrapeDuration GaugeValue
         (Seconds (tEnd rt - tStart rt)) [''container''],
       ConstMetric metrics_ExporterScrapeErrors CounterValue
         (FromInt (int (length (List.filter (\<lambda>r. err r \<noteq> None) (fst ?d))))) [''container'']]"
    unfolding r by (simp add: emitSelfMetrics_list)
  have inv: "\<forall>r \<in> set (fst ?d).
      (err r \<noteq> None \<longrightarrow> Container.State (container r) = ''running'' \<and>
        (\<exists>j. err r = snd (GetContainerStats (client c) j (Container.ID (container r))))) \<and>
      (Container.State (container r) \<noteq> ''running'' \<longrightarrow> result.stats r = None \<and> err r = None)"
    by (rule dispatch_errors [OF _ pos]) auto
  have 4: "\<forall>r \<in> set (fst ?d).
          (err r \<noteq> None \<longrightarrow>
             emitted rt (tEmit rt) r = [] \<and>
             Container.State (container r) = ''running'' \<and>
             (\<exists>j. err r = snd (GetContainerStats (client c) j (Container.ID (container r))))) \<and>
          (Container.State (container r) \<noteq> ''running'' \<longrightarrow>
             result.stats r = None \<and> err r = None) \<and>
          (err r = None \<longrightarrow>
             emitted rt (tEmit rt) r =
               (let lv = Values (ExtractLabels (container r)) in
                ([ConstMetric metrics_ContainerLastSeen GaugeValue (FromInt (Unix (tEmit rt))) lv] @
                (if IsZero (Container.StartedAt (container r)) then []
                 else [ConstMetric metrics_ContainerStartTime GaugeValue
                         (FromInt (Unix (Container.StartedAt (container r)))) lv,
                       ConstMetric metrics_ContainerUptime GaugeValue
                         (Seconds ((tEmit rt) - Container.StartedAt (container r))) lv]) @
                (if list_all ValidString
                      [take 12 (Container.ID (container r)), Container.Status (container r), Container.Health (container r),
                       formatRFC3339 rt (Container.StartedAt (container r))]
                 then [ConstMetric metrics_ContainerInfo GaugeValue (FromInt 1)
                         (lv @ [take 12 (Container.ID (container r)), Container.Status (container r), Container.Health (container r),
                                formatRFC3339 rt (Container.StartedAt (container r))])]
                 else []) @
                [ConstMetric metrics_ContainerHealthStatus GaugeValue
                   (HealthStatusToFloat (Container.Health (container r))) lv,
                 ConstMetric metrics_ContainerRestartCount GaugeValue
                   (FromInt (Container.RestartCount (container r))) lv,
                 ConstMetric metrics_ContainerExitCode GaugeValue (FromInt (Container.ExitCode (container r))) lv]) @
                (case result.stats r of
                   None \<Rightarrow> []
                 | Some s \<Rightarrow>
                     [ConstMetric metrics_MemoryUsage GaugeValue (FromUint64 (MemoryUsage s)) lv,
                      ConstMetric metrics_MemoryLimit GaugeValue (FromUint64 (MemoryLimit s)) lv,
                      ConstMetric metrics_MemoryCache GaugeValue (FromUint64 (MemoryCache s)) lv,
                      ConstMetric metrics_MemoryRSS GaugeValue (FromUint64 (MemoryRSS s)) lv,
                      ConstMetric metrics_MemorySwap GaugeValue (FromUint64 (MemorySwap s)) lv,
                      ConstMetric metrics_MemoryWorkingSet GaugeValue
                        (FromUint64 (MemoryWorkingSet s)) lv,
                      ConstMetric metrics_MemoryFailcnt GaugeValue
                        (FromUint64 (MemoryFailcnt s)) lv] @
                     [ConstMetric metrics_CPUUsageTotal CounterValue
                        (Times (FromUint64 (CPUUsageTotal s)) NanosecondsToSeconds) lv,
                      ConstMetric metrics_CPUUsageSystem CounterValue
                        (Times (FromUint64 (CPUUsageSystem s)) NanosecondsToSeconds) lv,
                      ConstMetric metrics_CPUUsageUser CounterValue
                        (Times (FromUint64 (CPUUsageUser s)) NanosecondsToSeconds) lv,
                      ConstMetric metrics_CPUThrottledPeriods CounterValue
                        (FromUint64 (CPUThrottledPeriods s)) lv,
                      ConstMetric metrics_CPUThrottledTime CounterValue
                        (Times (FromUint64 (CPUThrottledTime s)) NanosecondsToSeconds) lv] @
                     concat (map (\<lambda>e.
                        if ValidString (fst e)
                        then [ConstMetric metrics_NetworkRxBytes CounterValue
                                (FromUint64 (RxBytes (snd e))) (lv @ [fst e]),
                              ConstMetric metrics_NetworkTxBytes CounterValue
                                (FromUint64 (TxBytes (snd e))) (lv @ [fst e]),
                              ConstMetric metrics_NetworkRxPackets CounterValue
                                (FromUint64 (RxPackets (snd e))) (lv @ [fst e]),
                              ConstMetric metrics_NetworkTxPackets CounterValue
                                (FromUint64 (TxPackets (snd e))) (lv @ [fst e]),
                              ConstMetric metrics_NetworkRxErrors CounterValue
                                (FromUint64 (RxErrors (snd e))) (lv @ [fst e]),
                              ConstMetric metrics_NetworkTxErrors CounterValue
                                (FromUint64 (TxErrors (snd e))) (lv @ [fst e]),
                              ConstMetric metrics_NetworkRxDropped CounterValue
                                (FromUint64 (RxDropped (snd e))) (lv @ [fst e]),
                              ConstMetric metrics_NetworkTxDropped CounterValue
                                (FromUint64 (TxDropped (snd e))) (lv @ [fst e])]
                        else [])
                       (Stats.Networks s)) @
                     concat (map (\<lambda>e.
                        if ValidString (fst e)
                        then [ConstMetric metrics_FSReadBytes CounterValue
                                (FromUint64 (ReadBytes (snd e))) (lv @ [fst e]),
                              ConstMetric metrics_FSWriteBytes CounterValue
                                (FromUint64 (WriteBytes (snd e))) (lv @ [fst e]),
                              ConstMetric metrics_FSReadOps CounterValue
                                (FromUint64 (ReadOps (snd e))) (lv @ [fst e]),
                              ConstMetric metrics_FSWriteOps CounterValue
                                (FromUint64 (WriteOps (snd e))) (lv @ [fst e])]
                        else [])
                       (BlockIO s)) @
                     [ConstMetric metrics_PIDsCurrent GaugeValue (FromUint64 (PIDsCurrent s)) lv])))"
  proof (intro ballI conjI impI)
    fix r
    assume m: "r \<in> set (fst ?d)"
    {
      assume e: "err r \<noteq> None"
      then show "emitted rt (tEmit rt) r = []" by (simp add: emitted_eq)
      from e inv m show "Container.State (container r) = ''running''" by blast
      from e inv m
      show "\<exists>j. err r = snd (GetContainerStats (client c) j (Container.ID (container r)))"
        by blast
    }
    {
      assume "Container.State (container r) \<noteq> ''running''"
      with inv m show "result.stats r = None" "err r = None" by blast+
    }
    {
      assume e: "err r = None"
      with ids m have "12 \<le> length (Container.ID (container r))" by blast
      from emitted_explicit [OF e this]
      show "emitted rt (tEmit rt) r =
               (let lv = Values (ExtractLabels (container r)) in
                ([ConstMetric metrics_ContainerLastSeen GaugeValue (FromInt (Unix (tEmit rt))) lv] @
                (if IsZero (Container.StartedAt (container r)) then []
                 else [ConstMetric metrics_ContainerStartTime GaugeValue
                         (FromInt (Unix (Container.StartedAt (container r)))) lv,
                       ConstMetric metrics_ContainerUptime GaugeValue
                         (Seconds ((tEmit rt) - Container.StartedAt (container r))) lv]) @
                (if list_all ValidString
                      [take 12 (Container.ID (container r)), Container.Status (container r), Container.Health (container r),
                       formatRFC3339 rt (Container.StartedAt (container r))]
                 then [ConstMetric metrics_ContainerInfo GaugeValue (FromInt 1)
                         (lv @ [take 12 (Container.ID (container r)), Container.Status (container r), Container.Health (container r),
                                formatRFC3339 rt (Container.StartedAt (container r))])]
                 else []) @
                [ConstMetric metrics_ContainerHealthStatus GaugeValue
                   (HealthStatusToFloat (Container.Health (container r))) lv,
                 ConstMetric metrics_ContainerRestartCount GaugeValue
                   (FromInt (Container.RestartCount (container r))) lv,
                 ConstMetric metrics_ContainerExitCode GaugeValue (FromInt (Container.ExitCode (container r))) lv]) @
                (case result.stats r of
                   None \<Rightarrow> []
                 | Some s \<Rightarrow>
                     [ConstMetric metrics_MemoryUsage GaugeValue (FromUint64 (MemoryUsage s)) lv,
                      ConstMetric metrics_MemoryLimit GaugeValue (FromUint64 (MemoryLimit s)) lv,
                      ConstMetric metrics_MemoryCache GaugeValue (FromUint64 (MemoryCache s)) lv,
                      ConstMetric metrics_MemoryRSS GaugeValue (FromUint64 (MemoryRSS s)) lv,
                      ConstMetric metrics_MemorySwap GaugeValue (FromUint64 (MemorySwap s)) lv,
                      ConstMetric metrics_MemoryWorkingSet GaugeValue
                        (FromUint64 (MemoryWorkingSet s)) lv,
                      ConstMetric metrics_MemoryFailcnt GaugeValue
                        (FromUint64 (MemoryFailcnt s)) lv] @
                     [ConstMetric metrics_CPUUsageTotal CounterValue
                        (Times (FromUint64 (CPUUsageTotal s)) NanosecondsToSeconds) lv,
                      ConstMetric metrics_CPUUsageSystem CounterValue
                        (Times (FromUint64 (CPUUsageSystem s)) NanosecondsToSeconds) lv,
                      ConstMetric metrics_CPUUsageUser CounterValue
                        (Times (FromUint64 (CPUUsageUser s)) NanosecondsToSeconds) lv,
                      ConstMetric metrics_CPUThrottledPeriods CounterValue
                        (FromUint64 (CPUThrottledPeriods s)) lv,
                      ConstMetric metrics_CPUThrottledTime CounterValue
                        (Times (FromUint64 (CPUThrottledTime s)) NanosecondsToSeconds) lv] @
                     concat (map (\<lambda>e.
                        if ValidString (fst e)
                        then [ConstMetric metrics_NetworkRxBytes CounterValue
                                (FromUint64 (RxBytes (snd e))) (lv @ [fst e]),
                              ConstMetric metrics_NetworkTxBytes CounterValue
                                (FromUint64 (TxBytes (snd e))) (lv @ [fst e]),
                              ConstMetric metrics_NetworkRxPackets CounterValue
                                (FromUint64 (RxPackets (snd e))) (lv @ [fst e]),
                              ConstMetric metrics_NetworkTxPackets CounterValue
                                (FromUint64 (TxPackets (snd e))) (lv @ [fst e]),
                              ConstMetric metrics_NetworkRxErrors CounterValue
                                (FromUint64 (RxErrors (snd e))) (lv @ [fst e]),
                              ConstMetric metrics_NetworkTxErrors CounterValue
                                (FromUint64 (TxErrors (snd e))) (lv @ [fst e]),
                              ConstMetric metrics_NetworkRxDropped CounterValue
                                (FromUint64 (RxDropped (snd e))) (lv @ [fst e]),
                              ConstMetric metrics_NetworkTxDropped CounterValue
                                (FromUint64 (TxDropped (snd e))) (lv @ [fst e])]
                        else [])
                       (Stats.Networks s)) @
                     concat (map (\<lambda>e.
                        if ValidString (fst e)
                        then [ConstMetric metrics_FSReadBytes CounterValue
                                (FromUint64 (ReadBytes (snd e))) (lv @ [fst e]),
                              ConstMetric metrics_FSWriteBytes CounterValue
                                (FromUint64 (WriteBytes (snd e))) (lv @ [fst e]),
                              ConstMetric metrics_FSReadOps CounterValue
                                (FromUint64 (ReadOps (snd e))) (lv @ [fst e]),
                              ConstMetric metrics_FSWriteOps CounterValue
                                (FromUint64 (WriteOps (snd e))) (lv @ [fst e])]
                        else [])
                       (BlockIO s)) @
                     [ConstMetric metrics_PIDsCurrent GaugeValue (FromUint64 (PIDsCurrent s)) lv]))" .
    }
  qed
  show "let filtered = List.filter (Match (filter' c)) (fst (ListContainers (client c)));
        results = fst (final (dispatch c rt 0 filtered ([], w)));
        failed = List.filter (\<lambda>r. err r \<noteq> None) results
    in is_Returned (Collect' c rt w) \<and>
       map container results = filtered \<and>
       (distinct (map Container.ID filtered) \<longrightarrow>
          results =
            map (\<lambda>(i, ctr).
                   if Container.State ctr \<noteq> ''running''
                   then \<lparr>container = ctr, stats = None, err = None\<rparr>
                   else if snd (fst (Get (cache w) (tGet rt i) (Container.ID ctr)))
                   then \<lparr>container = ctr,
                          stats = fst (fst (Get (cache w) (tGet rt i) (Container.ID ctr))),
                          err = None\<rparr>
                   else \<lparr>container = ctr,
                          stats = fst (GetContainerStats (client c) i (Container.ID ctr)),
                          err = snd (GetContainerStats (client c) i (Container.ID ctr))\<rparr>)
              (enumerate 0 filtered)) \<and>
       sent (final (Collect' c rt w)) =
         sent w @ concat (map (emitted rt (tEmit rt)) results) @
         [ConstMetric metrics_ExporterScrapeDuration GaugeValue
            (Seconds (tEnd rt - tStart rt)) [''container''],
          ConstMetric metrics_ExporterScrapeErrors CounterValue
            (FromInt (int (length failed))) [''container'']] \<and>
       (\<forall>r \<in> set results.
          (err r \<noteq> None \<longrightarrow>
             emitted rt (tEmit rt) r = [] \<and>
             Container.State (container r) = ''running'' \<and>
             (\<exists>j. err r = snd (GetContainerStats (client c) j (Container.ID (container r))))) \<and>
          (Container.State (container r) \<noteq> ''running'' \<longrightarrow>
             result.stats r = None \<and> err r = None) \<and>
          (err r = None \<longrightarrow>
             emitted rt (tEmit rt) r =
               (let lv = Values (ExtractLabels (container r)) in
                ([ConstMetric metrics_ContainerLastSeen GaugeValue (FromInt (Unix (tEmit rt))) lv] @
                (if IsZero (Container.StartedAt (container r)) then []
                 else [ConstMetric metrics_ContainerStartTime GaugeValue
                         (FromInt (Unix (Container.StartedAt (container r)))) lv,
                       ConstMetric metrics_ContainerUptime GaugeValue
                         (Seconds ((tEmit rt) - Container.StartedAt (container r))) lv]) @
                (if list_all ValidString
                      [take 12 (Container.ID (container r)), Container.Status (container r), Container.Health (container r),
                       formatRFC3339 rt (Container.StartedAt (container r))]
                 then [ConstMetric metrics_ContainerInfo GaugeValue (FromInt 1)
                         (lv @ [take 12 (Container.ID (container r)), Container.Status (container r), Container.Health (container r),
                                formatRFC3339 rt (Container.StartedAt (container r))])]
                 else []) @
                [ConstMetric metrics_ContainerHealthStatus GaugeValue
                   (HealthStatusToFloat (Container.Health (container r))) lv,
                 ConstMetric metrics_ContainerRestartCount GaugeValue
                   (FromInt (Container.RestartCount (container r))) lv,
                 ConstMetric metrics_ContainerExitCode GaugeValue (FromInt (Container.ExitCode (container r))) lv]) @
                (case result.stats r of
                   None \<Rightarrow> []
                 | Some s \<Rightarrow>
                     [ConstMetric metrics_MemoryUsage GaugeValue (FromUint64 (MemoryUsage s)) lv,
                      ConstMetric metrics_MemoryLimit GaugeValue (FromUint64 (MemoryLimit s)) lv,
                      ConstMetric metrics_MemoryCache GaugeValue (FromUint64 (MemoryCache s)) lv,
                      ConstMetric metrics_MemoryRSS GaugeValue (FromUint64 (MemoryRSS s)) lv,
                      ConstMetric metrics_MemorySwap GaugeValue (FromUint64 (MemorySwap s)) lv,
                      ConstMetric metrics_MemoryWorkingSet GaugeValue
                        (FromUint64 (MemoryWorkingSet s)) lv,
                      ConstMetric metrics_MemoryFailcnt GaugeValue
                        (FromUint64 (MemoryFailcnt s)) lv] @
                     [ConstMetric metrics_CPUUsageTotal CounterValue
                        (Times (FromUint64 (CPUUsageTotal s)) NanosecondsToSeconds) lv,
                      ConstMetric metrics_CPUUsageSystem CounterValue
                        (Times (FromUint64 (CPUUsageSystem s)) NanosecondsToSeconds) lv,
                      ConstMetric metrics_CPUUsageUser CounterValue
                        (Times (FromUint64 (CPUUsageUser s)) NanosecondsToSeconds) lv,
                      ConstMetric metrics_CPUThrottledPeriods CounterValue
                        (FromUint64 (CPUThrottledPeriods s)) lv,
                      ConstMetric metrics_CPUThrottledTime CounterValue
                        (Times (FromUint64 (CPUThrottledTime s)) NanosecondsToSeconds) lv] @
                     concat (map (\<lambda>e.
                        if ValidString (fst e)
                        then [ConstMetric metrics_NetworkRxBytes CounterValue
                                (FromUint64 (RxBytes (snd e))) (lv @ [fst e]),
                              ConstMetric metrics_NetworkTxBytes CounterValue
                                (FromUint64 (TxBytes (snd e))) (lv @ [fst e]),
                              ConstMetric metrics_NetworkRxPackets CounterValue
                                (FromUint64 (RxPackets (snd e))) (lv @ [fst e]),
                              ConstMetric metrics_NetworkTxPackets CounterValue
                                (FromUint64 (TxPackets (snd e))) (lv @ [fst e]),
                              ConstMetric metrics_NetworkRxErrors CounterValue
                                (FromUint64 (RxErrors (snd e))) (lv @ [fst e]),
                              ConstMetric metrics_NetworkTxErrors CounterValue
                                (FromUint64 (TxErrors (snd e))) (lv @ [fst e]),
                              ConstMetric metrics_NetworkRxDropped CounterValue
                                (FromUint64 (RxDropped (snd e))) (lv @ [fst e]),
                              ConstMetric metrics_NetworkTxDropped CounterValue
                                (FromUint64 (TxDropped (snd e))) (lv @ [fst e])]
                        else [])
                       (Stats.Networks s)) @
                     concat (map (\<lambda>e.
                        if ValidString (fst e)
                        then [ConstMetric metrics_FSReadBytes CounterValue
                                (FromUint64 (ReadBytes (snd e))) (lv @ [fst e]),
                              ConstMetric metrics_FSWriteBytes CounterValue
                                (FromUint64 (WriteBytes (snd e))) (lv @ [fst e]),
                              ConstMetric metrics_FSReadOps CounterValue
                                (FromUint64 (ReadOps (snd e))) (lv @ [fst e]),
                              ConstMetric metrics_FSWriteOps CounterValue
                                (FromUint64 (WriteOps (snd e))) (lv @ [fst e])]
                        else [])
                       (BlockIO s)) @
                     [ConstMetric metrics_PIDsCurrent GaugeValue (FromUint64 (PIDsCurrent s)) lv]))))"
    unfolding Let_def using 1 2 5 3 4 [unfolded Let_def] by (intro conjI)
qed

theorem Collect_partial_failure_witness:
  "snd (ListContainers (client (exampleCollector exampleClient))) = None \<and>
   distinct (map Container.ID (fst (ListContainers (client (exampleCollector exampleClient))))) \<and>
   snd (GetContainerStats (client (exampleCollector exampleClient)) 1 ''bbbbbbbbbbbb'') =
     Some (Err ''timeout'') \<and>
   map err (fst (final (dispatch (exampleCollector exampleClient) exampleRuntime 0
      (fst (ListContainers (client (exampleCollector exampleClient)))) ([], exampleWorld)))) =
     [None, Some (Err ''timeout''), None] \<and>
   is_Returned (Collect' (exampleCollector exampleClient) exampleRuntime exampleWorld) \<and>
   ConstMetric metrics_MemoryUsage GaugeValue (FromUint64 100)
     [''web'', ''web'', ''myproject'', ''nginx:1.25''] \<in>
     set (sent (final (Collect' (exampleCollector exampleClient) exampleRuntime exampleWorld))) \<and>
   last (sent (final (Collect' (exampleCollector exampleClient) exampleRuntime exampleWorld))) =
     ConstMetric metrics_ExporterScrapeErrors CounterValue (FromInt 1) [''container'']"
proof -
  let ?web = "\<lparr>container = exampleContainer ''aaaaaaaaaaaa'' ''web'' ''running'',
      stats = Some (exampleStats ''web''), err = None\<rparr>"
  let ?out = "sent (final (Collect' (exampleCollector exampleClient) exampleRuntime exampleWorld))"
  have l: "fst (ListContainers (client (exampleCollector exampleClient))) =
      [exampleContainer ''aaaaaaaaaaaa'' ''web'' ''running'',
       exampleContainer ''bbbbbbbbbbbb'' ''db'' ''running'',
       exampleContainer ''cccccccccccc'' ''job'' ''running'']"
    "snd (ListContainers (client (exampleCollector exampleClient))) = None"
    by (simp_all add: exampleCollector_def exampleClient_def)
  have ids: "\<forall>ctr \<in> set (fst (ListContainers (client (exampleCollector exampleClient)))).
      12 \<le> length (Container.ID ctr)"
    unfolding l by (simp add: exampleContainer_def)
  have w: "sent exampleWorld = []" by (simp add: exampleWorld_def)
  have h: "snd (ListContainers (client (exampleCollector exampleClient))) = None \<and>
      1 \<le> maxConcurrent (exampleCollector exampleClient) \<and>
      (\<forall>ctr \<in> set (fst (ListContainers (client (exampleCollector exampleClient)))).
         12 \<le> length (Container.ID ctr))"
    using l(2) example_limit ids by (intro conjI)
  note t0 = Collect_partial_failure [of "exampleCollector exampleClient" exampleRuntime
      exampleWorld, unfolded Let_def, THEN mp, OF h, unfolded l(1) example_filtered]
  have di: "distinct (map Container.ID
      [exampleContainer ''aaaaaaaaaaaa'' ''web'' ''running'',
       exampleContainer ''bbbbbbbbbbbb'' ''db'' ''running'',
       exampleContainer ''cccccccccccc'' ''job'' ''running''])"
    by (simp add: exampleContainer_def)
  have g: "snd (GetContainerStats (client (exampleCollector exampleClient)) 1 ''bbbbbbbbbbbb'') =
      Some (Err ''timeout'')"
    by (simp add: exampleCollector_def exampleClient_def)
  have res: "fst (final (dispatch (exampleCollector exampleClient) exampleRuntime 0
        [exampleContainer ''aaaaaaaaaaaa'' ''web'' ''running'',
         exampleContainer ''bbbbbbbbbbbb'' ''db'' ''running'',
         exampleContainer ''cccccccccccc'' ''job'' ''running''] ([], exampleWorld))) =
      [?web,
       \<lparr>container = exampleContainer ''bbbbbbbbbbbb'' ''db'' ''running'',
        stats = None, err = Some (Err ''timeout'')\<rparr>,
       \<lparr>container = exampleContainer ''cccccccccccc'' ''job'' ''running'',
        stats = Some (exampleStats ''job''), err = None\<rparr>]"
    using t0 [THEN conjunct2, THEN conjunct2, THEN conjunct1, THEN mp, OF di]
    by (simp add: Get_def NewStatsCache_def exampleCollector_def exampleClient_def
        exampleWorld_def exampleContainer_def)
  have er: "map err (fst (final (dispatch (exampleCollector exampleClient) exampleRuntime 0
      (fst (ListContainers (client (exampleCollector exampleClient)))) ([], exampleWorld)))) =
      [None, Some (Err ''timeout''), None]"
    unfolding l(1) res by simp
  note t = t0 [unfolded res w]
  have r: "is_Returned (Collect' (exampleCollector exampleClient) exampleRuntime exampleWorld)"
    using t by (rule conjunct1)
  have out: "?out = [] @ concat (map (emitted exampleRuntime (tEmit exampleRuntime))
        [?web,
         \<lparr>container = exampleContainer ''bbbbbbbbbbbb'' ''db'' ''running'',
          stats = None, err = Some (Err ''timeout'')\<rparr>,
         \<lparr>container = exampleContainer ''cccccccccccc'' ''job'' ''running'',
          stats = Some (exampleStats ''job''), err = None\<rparr>]) @
      [ConstMetric metrics_ExporterScrapeDuration GaugeValue
         (Seconds (tEnd exampleRuntime - tStart exampleRuntime)) [''container''],
       ConstMetric metrics_ExporterScrapeErrors CounterValue (FromInt 1) [''container'']]"
    using t [THEN conjunct2, THEN conjunct2, THEN conjunct2, THEN conjunct1] by simp
  have "ConstMetric metrics_MemoryUsage GaugeValue (FromUint64 100)
      [''web'', ''web'', ''myproject'', ''nginx:1.25''] \<in>
      set (emitted exampleRuntime (tEmit exampleRuntime) ?web)"
    using t [THEN conjunct2, THEN conjunct2, THEN conjunct2, THEN conjunct2, rule_format,
        of ?web, THEN conjunct2, THEN conjunct2]
    by (simp add: example_Values exampleStats_def newStats_def)
  then have m: "ConstMetric metrics_MemoryUsage GaugeValue (FromUint64 100)
      [''web'', ''web'', ''myproject'', ''nginx:1.25''] \<in> set ?out"
    unfolding out by simp
  have la: "last ?out =
      ConstMetric metrics_ExporterScrapeErrors CounterValue (FromInt 1) [''container'']"
    unfolding out by simp
  show ?thesis using l(2) di [folded l(1)] g er r m la by (intro conjI)
qed

end
